theory Spec2Isabelle
  imports Main
begin

section \<open>Data model of the generator (package sqlgen)\<close>

text \<open>
  The repository file \<^verbatim>\<open>sqlgen/start.go\<close> holds the production library and the
  differential-test driver. The catalog types, the scope store, the grammar combinators and
  the random primitives live in other files of the package; they are modelled here from
  the specification, each such definition saying so in its comment.

  A panic of the Go program (a failed \<^verbatim>\<open>Assert\<close>, an index out of range, a failed type
  assertion, \<^verbatim>\<open>rand.Intn\<close> with a non-positive bound) is the value \<open>Inl (Panic msg)\<close>.
\<close>

datatype error = Panic string

type_synonym ColumnType = nat

record Column =
  col_Id :: int
  col_Name :: string
  col_Tp :: ColumnType
  col_isNotNull :: bool
  col_defaultVal :: string

datatype IndexType = IndexTypeNonUnique | IndexTypeUnique | IndexTypePrimary

record Index =
  idx_Id :: int
  idx_Name :: string
  idx_Tp :: IndexType
  idx_Columns :: "Column list"

text \<open>A \<^verbatim>\<open>*Table\<close> is an address into the table heap of the state.\<close>

type_synonym TableRef = nat

record Table =
  tbl_Id :: int
  tbl_Name :: string
  Columns :: "Column list"
  Indices :: "Index list"
  PartitionColumns :: "Column list"
  values_rows :: "string list list"
  colForPrefixIndex :: "Column list"
  childTables :: "TableRef list"

type_synonym PrepareRef = nat

record Prepare =
  pre_Id :: int
  pre_Name :: string
  pre_Args :: "Column list"

datatype ScopeKeyType =
    ScopeKeyCurrentTable
  | ScopeKeyCurrentMultiTable
  | ScopeKeyCurrentPrepare
  | ScopeKeyCurrentPartitionColumn
  | ScopeKeyLastOutFileTable
  | ScopeKeyLastDropTable
  | ScopeKeyTableUniqID
  | ScopeKeyColumnUniqID
  | ScopeKeyIndexUniqID
  | ScopeKeyPrepareID
  | ScopeKeyTmpFileID

datatype ScopeObj =
    ObjNil
  | ObjTable TableRef
  | ObjTables "TableRef list"
  | ObjPrepare PrepareRef
  | ObjColumn Column
  | ObjInt int

type_synonym Frame = "(ScopeKeyType \<times> ScopeObj) list"

record Weight =
  SetRowFormat :: int
  SetClustered :: int
  AdminCheck :: int
  CreateTable :: int
  CreateTable_WithoutLike :: int
  CreateTable_MaxColumnCnt :: int
  CreateTable_IndexMoreCol :: int
  CreateTable_WithClusterHint :: bool
  CreateTable_Partition_Type :: string
  Query :: int
  Query_DML :: int
  Query_DDL :: int
  Query_Split :: int
  Query_Analyze :: int
  Query_Prepare :: int
  Query_Select :: int
  Query_DML_DEL :: int
  Query_DML_DEL_COMMON :: int
  Query_DML_DEL_INDEX :: int
  Query_DML_DEL_INDEX_COMMON :: int
  Query_DML_INSERT :: int
  Query_DML_INSERT_ON_DUP :: int
  Query_DML_UPDATE :: int
  Query_DML_Can_Be_Replace :: bool
  Query_HasOrderby :: int
  Query_HasLimit :: int
  Query_Union :: int
  Query_Window :: int
  Query_INDEX_MERGE :: bool

record ControlOption =
  Weight :: Weight
  InitTableCount :: int
  InitColCount :: int
  MaxTableNum :: int
  EnableTestTiFlash :: bool
  EnableColumnTypeChange :: bool
  EnableSelectOutFileAndLoadData :: bool
  CanReadGCSavePoint :: bool
  StrictTransTable :: bool
  EnableAggPushDown :: bool
  AggType :: string

text \<open>
  The process-global generator of \<^verbatim>\<open>math/rand\<close>: a stream of raw draws fixed by the
  seed, and the number of draws consumed so far.
\<close>

record Rand =
  src :: "nat \<Rightarrow> nat"
  pos :: nat

record State =
  ctrl :: ControlOption
  heap :: "Table list"
  tables :: "TableRef list"
  pheap :: "Prepare list"
  prepareStmts :: "PrepareRef list"
  scope :: "Frame list"
  todoSQLs :: "string list"
  initialized :: bool
  enabledClustered :: bool
  rnd :: Rand


section \<open>The missing library as parameters\<close>

text \<open>
  Helpers of the package that \<^verbatim>\<open>start.go\<close> calls and that the specification names without
  fixing their result (value samplers, column and index pickers, printers) are taken as
  parameters, collected in one record. A helper that draws random numbers receives the
  generator and returns it; a helper that may panic returns a sum.
\<close>

type_synonym 'a rnd_fun = "Rand \<Rightarrow> error + 'a \<times> Rand"

record Lib =
  SelectOutFileDir :: string
  Seed :: "int \<Rightarrow> Rand"
  IsStringType :: "ColumnType \<Rightarrow> bool"
  IsIntegerType :: "ColumnType \<Rightarrow> bool"
  GenNewColumn :: "int \<Rightarrow> Weight \<Rightarrow> Column rnd_fun"
  GenNewIndex :: "int \<Rightarrow> Table \<Rightarrow> Weight \<Rightarrow> Index rnd_fun"
  RandomValue :: "Column \<Rightarrow> string rnd_fun"
  RandomValuesAsc :: "Column \<Rightarrow> int \<Rightarrow> (string list) rnd_fun"
  RandomGroups :: "string list \<Rightarrow> int \<Rightarrow> (string list list) rnd_fun"
  HasDroppableColumn :: "Table \<Rightarrow> bool"
  GetRandDroppableColumn :: "Table \<Rightarrow> Column rnd_fun"
  GetRandColumn :: "Table \<Rightarrow> Column rnd_fun"
  GetRandColumns :: "Table \<Rightarrow> (Column list) rnd_fun"
  GetRandColumnsNonEmpty :: "Table \<Rightarrow> (Column list) rnd_fun"
  GetRandColumnsIncludedDefaultValue :: "Table \<Rightarrow> (Column list) rnd_fun"
  GetRandColumnsSimple :: "Table \<Rightarrow> Column rnd_fun"
  GetRandColumnsPreferIndex :: "Table \<Rightarrow> Column rnd_fun"
  GetRandIndexFirstColumnWithWeight :: "Table \<Rightarrow> int \<Rightarrow> int \<Rightarrow> Column rnd_fun"
  GetRandUniqueIndexForPointGet :: "Table \<Rightarrow> (Index option) rnd_fun"
  GetRandIndexPrefixColumn :: "Table \<Rightarrow> (Column list) rnd_fun"
  GetPrimaryKeyIndex :: "Table \<Rightarrow> Index option"
  GetRandColumnForPartition :: "Table \<Rightarrow> (Column option) rnd_fun"
  GetRandomIndex :: "Table \<Rightarrow> Index rnd_fun"
  GenRandValues :: "Table \<Rightarrow> Column list \<Rightarrow> (string list) rnd_fun"
  GetRandRow :: "Table \<Rightarrow> Column list \<Rightarrow> (string list) rnd_fun"
  GetRandRowVal :: "Table \<Rightarrow> Column \<Rightarrow> string rnd_fun"
  GenMultipleRowsAscForHandleCols :: "Table \<Rightarrow> int \<Rightarrow> (string list list) rnd_fun"
  GenMultipleRowsAscForIndexCols :: "Table \<Rightarrow> int \<Rightarrow> Index \<Rightarrow> (string list list) rnd_fun"
  RemoveColumn :: "Table \<Rightarrow> Column \<Rightarrow> error + Table"
  ReplaceColumn :: "Table \<Rightarrow> Column \<Rightarrow> Column \<Rightarrow> error + Table"
  RemoveIndex :: "Table \<Rightarrow> Index \<Rightarrow> error + Table"
  GenAssignments :: "Prepare \<Rightarrow> (string list) rnd_fun"
  UserVars :: "Prepare \<Rightarrow> string list"
  SwapOutParameterizedColumns :: "Column list \<Rightarrow> (Column list) rnd_fun"
  PrintColumnType :: "Column \<Rightarrow> string"
  PrintIndexType :: "Index \<Rightarrow> string"
  PrintIndexColumnNames :: "Index \<Rightarrow> string"
  PrintRangePartitionDefs :: "string list \<Rightarrow> string"
  PrintListPartitionDefs :: "string list list \<Rightarrow> string"
  PrintRandValues :: "string list \<Rightarrow> string"
  PrintColumnNamesWithoutPar :: "Column list \<Rightarrow> string \<Rightarrow> string"
  PrintColumnNamesWithPar :: "Column list \<Rightarrow> string \<Rightarrow> string"
  PrintRandomAssignments :: "Column list \<Rightarrow> string rnd_fun"
  PrintRandomAggFunc :: "Table \<Rightarrow> Column list \<Rightarrow> string rnd_fun"
  PrintRandomWindowFunc :: "Table \<Rightarrow> string rnd_fun"
  PrintRandomWindow :: "Table \<Rightarrow> string rnd_fun"
  PrintPredicateDNF :: "Column list \<Rightarrow> string list list \<Rightarrow> string"
  PrintPredicateCompoundDNF :: "Column list \<Rightarrow> string list list \<Rightarrow> string"
  PrintPredicateIn :: "Column list \<Rightarrow> string list list \<Rightarrow> string"
  PrintFullQualifiedColName :: "Table \<Rightarrow> Column list \<Rightarrow> string"
  PrintSplitByItems :: "string list list \<Rightarrow> string"


section \<open>Evaluation monad: state passing with panics\<close>

type_synonym 'a M = "State \<Rightarrow> error + 'a \<times> State"

definition ret :: "'a \<Rightarrow> 'a M" where
  "ret x = (\<lambda>st. Inr (x, st))"

definition bnd :: "'a M \<Rightarrow> ('a \<Rightarrow> 'b M) \<Rightarrow> 'b M" where
  "bnd m k = (\<lambda>st. case m st of Inl e \<Rightarrow> Inl e | Inr (x, st') \<Rightarrow> k x st')"

definition panic :: "string \<Rightarrow> 'a M" where
  "panic msg = (\<lambda>st. Inl (Panic msg))"

definition gets :: "(State \<Rightarrow> 'a) \<Rightarrow> 'a M" where
  "gets f = (\<lambda>st. Inr (f st, st))"

definition modify :: "(State \<Rightarrow> State) \<Rightarrow> unit M" where
  "modify f = (\<lambda>st. Inr ((), f st))"

definition when_do :: "bool \<Rightarrow> unit M \<Rightarrow> unit M" where
  "when_do b m = (if b then m else ret ())"

definition Assert :: "bool \<Rightarrow> unit M" where
  "Assert b = (if b then ret () else panic ''assertion failed'')"

fun mapM :: "('a \<Rightarrow> 'b M) \<Rightarrow> 'a list \<Rightarrow> ('b list) M" where
  "mapM f [] = ret []"
| "mapM f (x # xs) = bnd (f x) (\<lambda>y. bnd (mapM f xs) (\<lambda>ys. ret (y # ys)))"

declare mapM.simps [simp del]

text \<open>\<^verbatim>\<open>xs[i]\<close> of Go: an index out of range panics.\<close>

definition index :: "'a list \<Rightarrow> int \<Rightarrow> 'a M" where
  "index xs i = (if 0 \<le> i \<and> i < int (length xs) then ret (xs ! nat i)
                 else panic ''index out of range'')"

subsection \<open>Strings\<close>

fun join :: "string \<Rightarrow> string list \<Rightarrow> string" where
  "join sep [] = []"
| "join sep [s] = s"
| "join sep (s # t # ss) = s @ sep @ join sep (t # ss)"

declare join.simps [simp del]

fun itoa_nat :: "nat \<Rightarrow> string" where
  "itoa_nat n = (if n < 10 then [''0123456789'' ! n]
                 else itoa_nat (n div 10) @ [''0123456789'' ! (n mod 10)])"

declare itoa_nat.simps [simp del]

text \<open>The verb \<^verbatim>\<open>%d\<close> of \<^verbatim>\<open>fmt.Sprintf\<close>.\<close>

definition itoa :: "int \<Rightarrow> string" where
  "itoa i = (if i < 0 then CHR ''-'' # itoa_nat (nat (- i)) else itoa_nat (nat i))"

subsection \<open>Random primitives\<close>

text \<open>
  \<^verbatim>\<open>rand.Intn(n)\<close> of the Go library: panics when \<open>n \<le> 0\<close>, and otherwise returns a
  number in \<open>[0, n)\<close> taken from the next raw draw of the generator.
\<close>

definition Intn :: "int \<Rightarrow> int M" where
  "Intn n = (\<lambda>st. if n \<le> 0 then Inl (Panic ''invalid argument to Intn'')
       else Inr (int (src (rnd st) (pos (rnd st))) mod n,
                 st\<lparr>rnd := (rnd st)\<lparr>pos := pos (rnd st) + 1\<rparr>\<rparr>))"

text \<open>Modelled from the spec: \<^verbatim>\<open>RandomBool()\<close> is missing from the sources; a uniform boolean,
  one draw.\<close>

definition RandomBool :: "bool M" where
  "RandomBool = bnd (Intn 2) (\<lambda>r. ret (r = 0))"

text \<open>Modelled from the spec: \<^verbatim>\<open>RandomNum(lo, hi)\<close> is missing from the sources; a uniform
  integer of the inclusive range, returned as a decimal string.\<close>

definition RandomNum :: "int \<Rightarrow> int \<Rightarrow> string M" where
  "RandomNum lo hi = bnd (Intn (hi - lo + 1)) (\<lambda>r. ret (itoa (lo + r)))"

text \<open>A helper of the library record run on the generator of the state.\<close>

definition liftR :: "'a rnd_fun \<Rightarrow> 'a M" where
  "liftR f = (\<lambda>st. case f (rnd st) of Inl e \<Rightarrow> Inl e
                   | Inr (x, r) \<Rightarrow> Inr (x, st\<lparr>rnd := r\<rparr>))"

definition liftE :: "error + 'a \<Rightarrow> 'a M" where
  "liftE v = (\<lambda>st. case v of Inl e \<Rightarrow> Inl e | Inr x \<Rightarrow> Inr (x, st))"

section \<open>Scope store\<close>

text \<open>
  Modelled from the spec: the scope store (\<^verbatim>\<open>Store\<close>, \<^verbatim>\<open>StoreInParent\<close>, \<^verbatim>\<open>StoreInRoot\<close>,
  \<^verbatim>\<open>Search\<close>, the tagged values and the frame push and pop of the evaluator) is missing from
  the sources. A stack of frames, innermost first; \<open>Search\<close> walks from the innermost frame
  to the outermost and returns the nil value for an absent key; \<open>Store\<close> writes into the
  current frame, \<open>StoreInParent\<close> into the caller's frame, \<open>StoreInRoot\<close> into the outermost
  frame. Reading a value under the wrong tag is a failed type assertion.
\<close>

definition CreateScope :: "unit M" where
  "CreateScope = modify (\<lambda>st. st\<lparr>scope := [] # scope st\<rparr>)"

definition DestroyScope :: "unit M" where
  "DestroyScope = modify (\<lambda>st. st\<lparr>scope := tl (scope st)\<rparr>)"

fun lookup_frames :: "Frame list \<Rightarrow> ScopeKeyType \<Rightarrow> ScopeObj" where
  "lookup_frames [] k = ObjNil"
| "lookup_frames (f # fs) k = (case map_of f k of Some v \<Rightarrow> v | None \<Rightarrow> lookup_frames fs k)"

definition Search :: "ScopeKeyType \<Rightarrow> ScopeObj M" where
  "Search k = gets (\<lambda>st. lookup_frames (scope st) k)"

definition Store :: "ScopeKeyType \<Rightarrow> ScopeObj \<Rightarrow> unit M" where
  "Store k v = (\<lambda>st. case scope st of
       [] \<Rightarrow> Inl (Panic ''no scope frame'')
     | f # fs \<Rightarrow> Inr ((), st\<lparr>scope := ((k, v) # f) # fs\<rparr>))"

definition StoreInParent :: "ScopeKeyType \<Rightarrow> ScopeObj \<Rightarrow> unit M" where
  "StoreInParent k v = (\<lambda>st. case scope st of
       f # p # fs \<Rightarrow> Inr ((), st\<lparr>scope := f # ((k, v) # p) # fs\<rparr>)
     | _ \<Rightarrow> Inl (Panic ''no parent scope frame''))"

definition StoreInRoot :: "ScopeKeyType \<Rightarrow> ScopeObj \<Rightarrow> unit M" where
  "StoreInRoot k v = (\<lambda>st. case scope st of
       [] \<Rightarrow> Inl (Panic ''no scope frame'')
     | f # fs \<Rightarrow> Inr ((), st\<lparr>scope := butlast (f # fs) @ [(k, v) # last (f # fs)]\<rparr>))"

definition IsNil :: "ScopeObj \<Rightarrow> bool" where
  "IsNil v = (v = ObjNil)"

definition ToTable :: "ScopeObj \<Rightarrow> TableRef M" where
  "ToTable v = (case v of ObjTable a \<Rightarrow> ret a | _ \<Rightarrow> panic ''scope value is not a table'')"

definition ToTables :: "ScopeObj \<Rightarrow> (TableRef list) M" where
  "ToTables v = (case v of ObjTables as \<Rightarrow> ret as | _ \<Rightarrow> panic ''scope value is not a table list'')"

definition ToPrepare :: "ScopeObj \<Rightarrow> PrepareRef M" where
  "ToPrepare v = (case v of ObjPrepare p \<Rightarrow> ret p | _ \<Rightarrow> panic ''scope value is not a prepare'')"

definition ToColumn :: "ScopeObj \<Rightarrow> (Column option) M" where
  "ToColumn v = (case v of ObjColumn c \<Rightarrow> ret (Some c) | _ \<Rightarrow> panic ''scope value is not a column'')"

definition ToInt :: "ScopeObj \<Rightarrow> int M" where
  "ToInt v = (case v of ObjInt i \<Rightarrow> ret i | _ \<Rightarrow> panic ''scope value is not an int'')"

text \<open>
  Modelled from the spec: \<^verbatim>\<open>AllocGlobalID(kind)\<close> is missing from the sources; one
  monotonically increasing counter per kind. \<^verbatim>\<open>loadTable\<close> reads the counter of
  \<^verbatim>\<open>ScopeKeyTmpFileID\<close> through \<^verbatim>\<open>Search\<close>, so the counters are kept in the scope store, in the
  outermost frame.
\<close>

definition AllocGlobalID :: "ScopeKeyType \<Rightarrow> int M" where
  "AllocGlobalID k =
     bnd (gets (\<lambda>st. case scope st of [] \<Rightarrow> None | f # fs \<Rightarrow> map_of (last (f # fs)) k)) (\<lambda>cur.
     let result = (case cur of Some (ObjInt n) \<Rightarrow> n | _ \<Rightarrow> 0) in
     bnd (StoreInRoot k (ObjInt (result + 1))) (\<lambda>_.
     ret result))"


section \<open>Catalog model\<close>

text \<open>
  Modelled from the spec: the catalog and its mutation interface are missing from the
  sources. Tables are shared by reference between the catalog, the scope store and the
  child lists, so the state keeps the table objects in a heap and everything else holds
  addresses. An address outside the heap is a nil pointer.
\<close>

definition new_table :: "Table \<Rightarrow> TableRef M" where
  "new_table t = (\<lambda>st. Inr (length (heap st), st\<lparr>heap := heap st @ [t]\<rparr>))"

definition deref :: "TableRef \<Rightarrow> Table M" where
  "deref a = (\<lambda>st. if a < length (heap st) then Inr (heap st ! a, st)
                    else Inl (Panic ''nil pointer dereference''))"

definition update_table :: "TableRef \<Rightarrow> (Table \<Rightarrow> Table) \<Rightarrow> unit M" where
  "update_table a f = (\<lambda>st. if a < length (heap st)
       then Inr ((), st\<lparr>heap := (heap st)[a := f (heap st ! a)]\<rparr>)
       else Inl (Panic ''nil pointer dereference''))"

definition new_prepare :: "Prepare \<Rightarrow> PrepareRef M" where
  "new_prepare p = (\<lambda>st. Inr (length (pheap st), st\<lparr>pheap := pheap st @ [p]\<rparr>))"

definition deref_prepare :: "PrepareRef \<Rightarrow> Prepare M" where
  "deref_prepare a = (\<lambda>st. if a < length (pheap st) then Inr (pheap st ! a, st)
                    else Inl (Panic ''nil pointer dereference''))"

definition update_prepare :: "PrepareRef \<Rightarrow> (Prepare \<Rightarrow> Prepare) \<Rightarrow> unit M" where
  "update_prepare a f = (\<lambda>st. if a < length (pheap st)
       then Inr ((), st\<lparr>pheap := (pheap st)[a := f (pheap st ! a)]\<rparr>)
       else Inl (Panic ''nil pointer dereference''))"

text \<open>A table method of the library record, run on the table behind a reference.\<close>

definition tblR :: "(Table \<Rightarrow> 'a rnd_fun) \<Rightarrow> TableRef \<Rightarrow> 'a M" where
  "tblR f a = bnd (deref a) (\<lambda>t. liftR (f t))"

definition tblE :: "(Table \<Rightarrow> error + Table) \<Rightarrow> TableRef \<Rightarrow> unit M" where
  "tblE f a = bnd (deref a) (\<lambda>t. bnd (liftE (f t)) (\<lambda>t'. update_table a (\<lambda>_. t')))"

text \<open>Modelled from the spec: a new table is named \<open>t<id>\<close> and is empty.\<close>

definition GenNewTable :: "int \<Rightarrow> Table" where
  "GenNewTable n = \<lparr>tbl_Id = n, tbl_Name = ''t'' @ itoa n, Columns = [], Indices = [],
     PartitionColumns = [], values_rows = [], colForPrefixIndex = [], childTables = []\<rparr>"

text \<open>Modelled from the spec: a new prepared statement is named \<open>p<id>\<close> and has captured no
  parameter column yet.\<close>

definition GenNewPrepare :: "int \<Rightarrow> Prepare" where
  "GenNewPrepare n = \<lparr>pre_Id = n, pre_Name = ''p'' @ itoa n, pre_Args = []\<rparr>"

definition AppendColumns :: "Column list \<Rightarrow> Prepare \<Rightarrow> Prepare" where
  "AppendColumns cs p = p\<lparr>pre_Args := pre_Args p @ cs\<rparr>"

definition AppendColumn :: "Column \<Rightarrow> Table \<Rightarrow> Table" where
  "AppendColumn c t = t\<lparr>Columns := Columns t @ [c]\<rparr>"

definition AppendPartitionColumn :: "Column \<Rightarrow> Table \<Rightarrow> Table" where
  "AppendPartitionColumn c t = t\<lparr>PartitionColumns := PartitionColumns t @ [c]\<rparr>"

text \<open>Modelled from the spec: an index is unique when its kind is primary or unique.\<close>

definition IsUnique :: "Index \<Rightarrow> bool" where
  "IsUnique idx = (idx_Tp idx = IndexTypePrimary \<or> idx_Tp idx = IndexTypeUnique)"

definition AppendColumnIfNotExists :: "Column \<Rightarrow> Index \<Rightarrow> Index" where
  "AppendColumnIfNotExists c idx =
     (if c \<in> set (idx_Columns idx) then idx else idx\<lparr>idx_Columns := idx_Columns idx @ [c]\<rparr>)"

text \<open>Modelled from the spec: \<^verbatim>\<open>AppendIndex\<close> on an index marked unique injects any missing
  partition column before the index is added.\<close>

definition AppendIndex :: "Index \<Rightarrow> Table \<Rightarrow> Table" where
  "AppendIndex idx t =
     t\<lparr>Indices := Indices t @
        [if IsUnique idx then fold AppendColumnIfNotExists (PartitionColumns t) idx else idx]\<rparr>"

text \<open>Modelled from the spec: \<^verbatim>\<open>AppendRow\<close> rejects a row of the wrong arity.\<close>

definition AppendRow :: "string list \<Rightarrow> TableRef \<Rightarrow> unit M" where
  "AppendRow vals a = bnd (deref a) (\<lambda>t.
     bnd (Assert (length vals = length (Columns t))) (\<lambda>_.
     update_table a (\<lambda>t. t\<lparr>values_rows := values_rows t @ [vals]\<rparr>)))"

definition PopOneTodoSQL :: "(string option) M" where
  "PopOneTodoSQL = (\<lambda>st. case todoSQLs st of
       [] \<Rightarrow> Inr (None, st)
     | s # q \<Rightarrow> Inr (Some s, st\<lparr>todoSQLs := q\<rparr>))"

definition InjectTodoSQL :: "string \<Rightarrow> unit M" where
  "InjectTodoSQL s = modify (\<lambda>st. st\<lparr>todoSQLs := todoSQLs st @ [s]\<rparr>)"

definition Initialized :: "bool M" where
  "Initialized = gets initialized"

definition SetInitialized :: "unit M" where
  "SetInitialized = modify (\<lambda>st. st\<lparr>initialized := True\<rparr>)"

definition has_rows :: "State \<Rightarrow> TableRef \<Rightarrow> bool" where
  "has_rows st a = (a < length (heap st) \<and> values_rows (heap st ! a) \<noteq> [])"

text \<open>Modelled from the spec: initialization is complete once the catalog holds at least
  \<^verbatim>\<open>InitTableCount\<close> tables, each populated with at least one row.\<close>

definition MeetInitializedDemand :: "bool M" where
  "MeetInitializedDemand = gets (\<lambda>st.
     InitTableCount (ctrl st) \<le> int (length (tables st)) \<and> list_all (has_rows st) (tables st))"

definition AppendTable :: "TableRef \<Rightarrow> unit M" where
  "AppendTable a = modify (\<lambda>st. st\<lparr>tables := tables st @ [a]\<rparr>)"

text \<open>Modelled from the spec: \<^verbatim>\<open>GetRandTable()\<close> picks a table of the catalog with one draw
  over its length.\<close>

definition GetRandTable :: "TableRef M" where
  "GetRandTable = bnd (gets tables) (\<lambda>ts.
     bnd (Intn (int (length ts))) (\<lambda>i. index ts i))"

text \<open>Modelled from the spec: the first table that has not received its initialization
  rows yet, nil when there is none.\<close>

definition GetFirstNonFullTable :: "(TableRef option) M" where
  "GetFirstNonFullTable = gets (\<lambda>st. find (\<lambda>a. \<not> has_rows st a) (tables st))"

definition AppendPrepare :: "PrepareRef \<Rightarrow> unit M" where
  "AppendPrepare a = modify (\<lambda>st. st\<lparr>prepareStmts := prepareStmts st @ [a]\<rparr>)"

definition GetRandPrepare :: "PrepareRef M" where
  "GetRandPrepare = bnd (gets prepareStmts) (\<lambda>ps.
     bnd (Intn (int (length ps))) (\<lambda>i. index ps i))"

definition RemovePrepare :: "PrepareRef \<Rightarrow> unit M" where
  "RemovePrepare a = modify (\<lambda>st. st\<lparr>prepareStmts := removeAll a (prepareStmts st)\<rparr>)"

section \<open>Grammar combinators\<close>

text \<open>
  Modelled from the spec: the combinators are missing from the sources. A production
  carries a weight, a guard (false for the node that \<open>If\<close> returns when its condition
  fails) and a generator. \<open>Eval\<close> runs the generator under a fresh scope frame.
\<close>

datatype Fn = MkFn (fn_Weight: int) (fn_Live: bool) (Gen: "string M")

definition Eval :: "Fn \<Rightarrow> string M" where
  "Eval f = bnd CreateScope (\<lambda>_. bnd (Gen f) (\<lambda>s. bnd DestroyScope (\<lambda>_. ret s)))"

definition NewFn :: "Fn M \<Rightarrow> Fn" where
  "NewFn body = MkFn 1 True (bnd body Eval)"

definition SetW :: "int \<Rightarrow> Fn \<Rightarrow> Fn" where
  "SetW w f = MkFn w (fn_Live f) (Gen f)"

definition Str :: "string \<Rightarrow> Fn" where
  "Str s = MkFn 1 True (ret s)"

definition Strs :: "string list \<Rightarrow> Fn" where
  "Strs ss = MkFn 1 True (ret (join '' '' ss))"

definition Empty :: Fn where
  "Empty = MkFn 1 True (ret [])"

definition NeverReach :: Fn where
  "NeverReach = MkFn 1 True (panic ''should not reach here'')"

definition And :: "Fn list \<Rightarrow> Fn" where
  "And fs = MkFn 1 True (bnd (mapM Eval fs) (\<lambda>ss. ret (join '' '' ss)))"

definition If' :: "bool \<Rightarrow> Fn \<Rightarrow> Fn" where
  "If' c f = (if c then f else MkFn 0 False (ret []))"

text \<open>The weight a child has in a choice: zero when its guard is false or its weight is
  not positive.\<close>

definition eff_weight :: "Fn \<Rightarrow> int" where
  "eff_weight f = (if fn_Live f \<and> 0 < fn_Weight f then fn_Weight f else 0)"

fun pick :: "Fn list \<Rightarrow> int \<Rightarrow> Fn option" where
  "pick [] r = None"
| "pick (f # fs) r = (if r < eff_weight f then Some f else pick fs (r - eff_weight f))"

definition Or :: "Fn list \<Rightarrow> Fn" where
  "Or fs = MkFn 1 True
     (let total = sum_list (map eff_weight fs) in
      if total = 0 then ret []
      else bnd (Intn total) (\<lambda>r.
           case pick fs r of Some f \<Rightarrow> Eval f | None \<Rightarrow> panic ''no child chosen''))"

definition Opt :: "Fn \<Rightarrow> Fn" where
  "Opt f = Or [Empty, f]"

definition OptIf :: "bool \<Rightarrow> Fn \<Rightarrow> Fn" where
  "OptIf c f = (if c then Opt f else Empty)"

fun intersperse :: "'a \<Rightarrow> 'a list \<Rightarrow> 'a list" where
  "intersperse sep [] = []"
| "intersperse sep [x] = [x]"
| "intersperse sep (x # y # xs) = x # sep # intersperse sep (y # xs)"

definition Repeat :: "Fn \<Rightarrow> int \<Rightarrow> Fn \<Rightarrow> Fn" where
  "Repeat f n sep = And (intersperse sep (replicate (nat n) f))"

definition RepeatRange :: "int \<Rightarrow> int \<Rightarrow> Fn \<Rightarrow> Fn \<Rightarrow> Fn" where
  "RepeatRange lo hi f sep = MkFn 1 True
     (bnd (Intn (hi - lo + 1)) (\<lambda>r. Gen (Repeat f (lo + r) sep)))"

section \<open>Production library\<close>

text \<open>
  Each production of \<^verbatim>\<open>start.go\<close> is a definition of the same name. A production defined
  inside another one takes the variables it captures as arguments. The body of a
  production runs statement by statement; the calls with an effect that Go evaluates
  while it builds the returned node (random draws among the arguments) are bound before
  the node, in the order of the source.
\<close>

definition quoted :: "string \<Rightarrow> string" where
  "quoted s = CHR 0x27 # s @ [CHR 0x27]"

text \<open>\<^verbatim>\<open>path.Join\<close> on a directory and a file name; the cleaning of the path is not modelled.\<close>

definition path_Join :: "string \<Rightarrow> string \<Rightarrow> string" where
  "path_Join dir file = (if dir = [] then file else dir @ ''/'' @ file)"

text \<open>An index is shared by reference: the value returned is the index as the table stores
  it.\<close>

definition AppendIndexM :: "TableRef \<Rightarrow> Index \<Rightarrow> Index M" where
  "AppendIndexM a idx = bnd (update_table a (AppendIndex idx)) (\<lambda>_.
     bnd (deref a) (\<lambda>t. ret (last (Indices t))))"

definition switchRowFormatVer :: Fn where
  "switchRowFormatVer = NewFn (
     bnd RandomBool (\<lambda>b.
     if b then ret (Str ''set @@global.tidb_row_format_version = 2'')
     else ret (Str ''set @@global.tidb_row_format_version = 1'')))"

definition switchClustered :: Fn where
  "switchClustered = NewFn (
     bnd RandomBool (\<lambda>b.
     if b then
       bnd (modify (\<lambda>st. st\<lparr>enabledClustered := False\<rparr>)) (\<lambda>_.
       ret (Str ''set @@global.tidb_enable_clustered_index = 0''))
     else
       bnd (modify (\<lambda>st. st\<lparr>enabledClustered := True\<rparr>)) (\<lambda>_.
       ret (Str ''set @@global.tidb_enable_clustered_index = 1''))))"

definition dropTable :: Fn where
  "dropTable = NewFn (
     bnd GetRandTable (\<lambda>tbl.
     bnd (Store ScopeKeyLastDropTable (ObjTable tbl)) (\<lambda>_.
     bnd (deref tbl) (\<lambda>t.
     ret (Strs [''drop table'', tbl_Name t])))))"

definition flashBackTable :: Fn where
  "flashBackTable = NewFn (
     bnd GetRandTable (\<lambda>tbl.
     bnd (deref tbl) (\<lambda>t.
     bnd (InjectTodoSQL (''flashback table '' @ tbl_Name t)) (\<lambda>_.
     ret (Or [
       Strs [''drop table'', tbl_Name t],
       Strs [''truncate table'', tbl_Name t]])))))"

definition adminCheck :: "Lib \<Rightarrow> Fn" where
  "adminCheck L = NewFn (
     bnd GetRandTable (\<lambda>tbl.
     bnd (gets (\<lambda>st. EnableTestTiFlash (ctrl st))) (\<lambda>tiflash.
     if tiflash then ret (Str [])
     else
       bnd (deref tbl) (\<lambda>t.
       if length (Indices t) = 0 then ret (Strs [''admin check table'', tbl_Name t])
       else
         bnd (liftR (GetRandomIndex L t)) (\<lambda>idx.
         ret (Or [
           Strs [''admin check table'', tbl_Name t],
           Strs [''admin check index'', tbl_Name t, idx_Name idx]]))))))"

subsection \<open>createTable\<close>

definition colDef :: "Lib \<Rightarrow> Weight \<Rightarrow> TableRef \<Rightarrow> Fn" where
  "colDef L w tbl = NewFn (
     bnd (AllocGlobalID ScopeKeyColumnUniqID) (\<lambda>n.
     bnd (liftR (GenNewColumn L n w)) (\<lambda>col.
     bnd (update_table tbl (AppendColumn col)) (\<lambda>_.
     ret (And [Str (col_Name col), Str (PrintColumnType L col)])))))"

definition colDefs :: "Lib \<Rightarrow> Weight \<Rightarrow> TableRef \<Rightarrow> Fn" where
  "colDefs L w tbl = NewFn (
     bnd Initialized (\<lambda>ini.
     if \<not> ini then
       bnd (gets (\<lambda>st. InitColCount (ctrl st))) (\<lambda>n.
       ret (Repeat (colDef L w tbl) n (Str '','')))
     else ret (RepeatRange 1 (CreateTable_MaxColumnCnt w) (colDef L w tbl) (Str '',''))))"

definition idxDef :: "Lib \<Rightarrow> Weight \<Rightarrow> TableRef \<Rightarrow> Fn" where
  "idxDef L w tbl = NewFn (
     bnd (AllocGlobalID ScopeKeyIndexUniqID) (\<lambda>n.
     bnd (deref tbl) (\<lambda>t.
     bnd (liftR (GenNewIndex L n t w)) (\<lambda>idx0.
     bnd (if IsUnique idx0 then
            bnd (Search ScopeKeyCurrentPartitionColumn) (\<lambda>partitionedCol.
            if \<not> IsNil partitionedCol then
              bnd (ToColumn partitionedCol) (\<lambda>c.
              bnd (Assert (c \<noteq> None)) (\<lambda>_.
              case c of
                Some c' \<Rightarrow> ret (AppendColumnIfNotExists c' idx0)
              | None \<Rightarrow> panic ''nil pointer dereference''))
            else ret idx0)
          else ret idx0) (\<lambda>idx1.
     bnd (AppendIndexM tbl idx1) (\<lambda>idx.
     let clusteredKeyword = ''/*T![clustered_index] clustered */'' in
     ret (And [
       Str (PrintIndexType L idx),
       Str ''key'',
       Str (idx_Name idx),
       Str ''('',
       Str (PrintIndexColumnNames L idx),
       Str '')'',
       OptIf (idx_Tp idx = IndexTypePrimary \<and> CreateTable_WithClusterHint w)
         (Str clusteredKeyword)])))))))"

definition idxDefs :: "Lib \<Rightarrow> Weight \<Rightarrow> TableRef \<Rightarrow> Fn" where
  "idxDefs L w tbl = NewFn (
     ret (RepeatRange 1 (CreateTable_IndexMoreCol w) (idxDef L w tbl) (Str '','')))"

definition partitionDef :: "Lib \<Rightarrow> Weight \<Rightarrow> TableRef \<Rightarrow> Fn" where
  "partitionDef L w tbl = NewFn (
     bnd (tblR (GetRandColumnForPartition L) tbl) (\<lambda>partitionedCol.
     case partitionedCol of
       None \<Rightarrow> ret Empty
     | Some pc \<Rightarrow>
     bnd (StoreInParent ScopeKeyCurrentPartitionColumn (ObjColumn pc)) (\<lambda>_.
     bnd (update_table tbl (AppendPartitionColumn pc)) (\<lambda>_.
     let hashPart = 0; rangePart = 1; listPart = 2 in
     bnd (Intn 6) (\<lambda>r.
     let randN =
        (if CreateTable_Partition_Type w = ''hash'' then hashPart
         else if CreateTable_Partition_Type w = ''list'' then listPart
         else if CreateTable_Partition_Type w = ''range'' then rangePart
         else r) in
     if randN = hashPart then
       bnd (RandomNum 1 6) (\<lambda>partitionNum.
       ret (And [
         Str ''partition by'',
         Str ''hash('',
         Str (col_Name pc),
         Str '')'',
         Str ''partitions'',
         Str partitionNum]))
     else if randN = rangePart then
       bnd (Intn 5) (\<lambda>r5.
       bnd (liftR (RandomValuesAsc L pc (r5 + 1))) (\<lambda>vals0.
       bnd (Intn 2) (\<lambda>r2.
       let vals = (if r2 = 0 then vals0 @ [''maxvalue''] else vals0) in
       ret (Strs [
         ''partition by range ('',
         col_Name pc, '') ('',
         PrintRangePartitionDefs L vals,
         '')'']))))
     else if randN = listPart then
       bnd (liftR (RandomValuesAsc L pc 20)) (\<lambda>listVals.
       bnd (Intn 3) (\<lambda>r3.
       bnd (liftR (RandomGroups L listVals (r3 + 1))) (\<lambda>listGroups.
       ret (Strs [
         ''partition by'',
         ''list('',
         col_Name pc,
         '') ('',
         PrintListPartitionDefs L listGroups,
         '')'']))))
     else ret Empty)))))"

text \<open>The bound \<^verbatim>\<open>indexOpt\<close> of the draw that decides whether the index definitions are handed
  to \<^verbatim>\<open>OptIf\<close>, and the node that \<^verbatim>\<open>createTable\<close> returns, as a function of the texts evaluated
  before and of that draw.\<close>

definition indexOpt :: "Weight \<Rightarrow> int" where
  "indexOpt w = (if Query_INDEX_MERGE w then 1000000 else 10)"

definition createTable_text :: "string \<Rightarrow> string \<Rightarrow> string \<Rightarrow> string \<Rightarrow> int \<Rightarrow> Fn" where
  "createTable_text name eColDefs eIdxDefs ePartitionDef r =
     And [
       Str ''create table'',
       Str name,
       Str ''('',
       Str eColDefs,
       OptIf (r \<noteq> 0)
         (And [
           Str '','',
           Str eIdxDefs]),
       Str '')'',
       Str ePartitionDef]"

definition createTable :: "Lib \<Rightarrow> Fn" where
  "createTable L = NewFn (
     bnd (gets (\<lambda>st. Weight (ctrl st))) (\<lambda>w.
     bnd (AllocGlobalID ScopeKeyTableUniqID) (\<lambda>n.
     bnd (new_table (GenNewTable n)) (\<lambda>tbl.
     bnd (AppendTable tbl) (\<lambda>_.
     bnd (deref tbl) (\<lambda>t.
     bnd (gets (\<lambda>st. EnableTestTiFlash (ctrl st))) (\<lambda>tiflash.
     bnd (when_do tiflash (
            bnd (InjectTodoSQL (''alter table '' @ tbl_Name t @ '' set tiflash replica 1'')) (\<lambda>_.
            InjectTodoSQL ''select sleep(20)''))) (\<lambda>_.
     bnd (Eval (colDefs L w tbl)) (\<lambda>eColDefs.
     bnd (Eval (partitionDef L w tbl)) (\<lambda>ePartitionDef.
     bnd (Eval (idxDefs L w tbl)) (\<lambda>eIdxDefs.
     bnd (Intn (indexOpt w)) (\<lambda>r.
     ret (createTable_text (tbl_Name t) eColDefs eIdxDefs ePartitionDef r)))))))))))))"

definition insertInto :: "Lib \<Rightarrow> Fn" where
  "insertInto L = NewFn (
     bnd Initialized (\<lambda>ini.
     bnd (Assert (\<not> ini)) (\<lambda>_.
     bnd GetFirstNonFullTable (\<lambda>nonFull.
     case nonFull of
       None \<Rightarrow> panic ''nil pointer dereference''
     | Some tbl \<Rightarrow>
     bnd (deref tbl) (\<lambda>t.
     bnd (liftR (GenRandValues L t (Columns t))) (\<lambda>vals.
     bnd (AppendRow vals tbl) (\<lambda>_.
     ret (And [
       Str ''insert into'',
       Str (tbl_Name t),
       Str ''values'',
       Str ''('',
       Str (PrintRandValues L vals),
       Str '')'']))))))))"

subsection \<open>Predicates\<close>

definition getTable :: "TableRef M" where
  "getTable =
     bnd (Search ScopeKeyCurrentMultiTable) (\<lambda>multi.
     let inMultiTableQuery = \<not> IsNil multi in
     if inMultiTableQuery then
       bnd (Search ScopeKeyCurrentMultiTable) (\<lambda>v.
       bnd (ToTables v) (\<lambda>tbls.
       bnd RandomBool (\<lambda>b.
       if b then index tbls 0 else index tbls 1)))
     else
       bnd (Search ScopeKeyCurrentTable) (\<lambda>v. ToTable v))"

definition cmpSymbol :: Fn where
  "cmpSymbol = NewFn (
     ret (Or [
       Str ''='',
       Str ''<'',
       Str ''<='',
       Str ''>'',
       Str ''>='',
       Str ''<>'',
       Str ''!='']))"

definition maybeLimit :: Fn where
  "maybeLimit = NewFn (ret Empty)"

definition randVal :: "Lib \<Rightarrow> TableRef \<Rightarrow> Column \<Rightarrow> Fn" where
  "randVal L tbl randCol = NewFn (
     bnd (Search ScopeKeyCurrentPrepare) (\<lambda>prepare.
     bnd (if \<not> IsNil prepare then bnd (Intn 50) (\<lambda>r. ret (r = 0)) else ret False) (\<lambda>swap.
     if swap then
       bnd (ToPrepare prepare) (\<lambda>p.
       bnd (update_prepare p (AppendColumns [randCol])) (\<lambda>_.
       ret (Str ''?'')))
     else
       bnd (Intn 3) (\<lambda>r.
       bnd (deref tbl) (\<lambda>t.
       if r = 0 \<or> length (values_rows t) = 0 then
         bnd (liftR (RandomValue L randCol)) (\<lambda>v. ret (Str v))
       else
         bnd (liftR (GetRandRowVal L t randCol)) (\<lambda>v. ret (Str v)))))))"

definition randColVals :: "Lib \<Rightarrow> TableRef \<Rightarrow> Column \<Rightarrow> Fn" where
  "randColVals L tbl randCol = NewFn (
     ret (RepeatRange 1 5 (randVal L tbl randCol) (Str '','')))"

definition predicate :: "Lib \<Rightarrow> Fn" where
  "predicate L = NewFn (
     bnd (gets (\<lambda>st. Weight (ctrl st))) (\<lambda>w.
     bnd getTable (\<lambda>tbl.
     bnd (tblR (GetRandColumn L) tbl) (\<lambda>randCol0.
     bnd (if Query_INDEX_MERGE w then
            bnd (deref tbl) (\<lambda>t.
            case colForPrefixIndex t of
              c # rest \<Rightarrow>
                bnd (update_table tbl (\<lambda>t. t\<lparr>colForPrefixIndex := rest\<rparr>)) (\<lambda>_. ret c)
            | [] \<Rightarrow> ret randCol0)
          else ret randCol0) (\<lambda>randCol.
     bnd (deref tbl) (\<lambda>t.
     let colName = tbl_Name t @ ''.'' @ col_Name randCol in
     ret (Or [
       And [Str colName, cmpSymbol, randVal L tbl randCol],
       And [Str colName, Str ''in'', Str ''('', randColVals L tbl randCol, Str '')'']])))))))"

definition andPredicates :: "Lib \<Rightarrow> Fn" where
  "andPredicates L = NewFn (
     bnd getTable (\<lambda>tbl.
     bnd (tblR (GetRandIndexPrefixColumn L) tbl) (\<lambda>cols.
     bnd (update_table tbl (\<lambda>t. t\<lparr>colForPrefixIndex := cols\<rparr>)) (\<lambda>_.
     let repeatCnt0 = int (length cols);
         repeatCnt1 = (if repeatCnt0 = 0 then 1 else repeatCnt0) in
     bnd (Intn 5) (\<lambda>r.
     bnd (if r = 0 then bnd (Intn 2) (\<lambda>r2. ret (repeatCnt1 + (r2 + 1))) else ret repeatCnt1)
       (\<lambda>repeatCnt.
     ret (Repeat (predicate L) repeatCnt (Str ''and''))))))))"

definition predicatesPointGet :: "Lib \<Rightarrow> TableRef \<Rightarrow> Index option \<Rightarrow> Fn" where
  "predicatesPointGet L tbl uniqueIdx = NewFn (
     bnd (Intn 4) (\<lambda>r.
     let pointsCount = r + 1 in
     case uniqueIdx of
       None \<Rightarrow> panic ''nil pointer dereference''
     | Some idx \<Rightarrow>
     bnd (mapM (\<lambda>i.
            bnd (deref tbl) (\<lambda>t.
            bnd (if length (values_rows t) > 0 then RandomBool else ret False) (\<lambda>fromRow.
            if fromRow then liftR (GetRandRow L t (idx_Columns idx))
            else liftR (GenRandValues L t (idx_Columns idx)))))
          [0..<nat pointsCount]) (\<lambda>pointGetVals.
     ret (Or [
       Str (PrintPredicateDNF L (idx_Columns idx) pointGetVals),
       Str (PrintPredicateCompoundDNF L (idx_Columns idx) pointGetVals),
       Str (PrintPredicateIn L (idx_Columns idx) pointGetVals)]))))"

definition predicates :: "Lib \<Rightarrow> Fn" where
  "predicates L = NewFn (
     bnd (gets (\<lambda>st. Weight (ctrl st))) (\<lambda>w.
     bnd getTable (\<lambda>tbl.
     bnd (tblR (GetRandUniqueIndexForPointGet L) tbl) (\<lambda>uniqueIdx.
     bnd (if Query_INDEX_MERGE w then bnd (Intn 5) (\<lambda>r. ret (r \<noteq> 0)) else ret False)
       (\<lambda>merge.
     if merge then ret (RepeatRange 2 5 (andPredicates L) (Str ''or''))
     else
       ret (Or [
         SetW 3 (RepeatRange 1 5 (predicate L) (Or [Str ''and'', Str ''or''])),
         SetW 1 (If' (uniqueIdx \<noteq> None) (predicatesPointGet L tbl uniqueIdx))]))))))"

subsection \<open>DML\<close>

definition updateAssignment :: "Lib \<Rightarrow> TableRef \<Rightarrow> Fn" where
  "updateAssignment L tbl = NewFn (
     bnd (tblR (GetRandColumn L) tbl) (\<lambda>randCol.
     bnd (liftR (RandomValue L randCol)) (\<lambda>v.
     ret (Or [
       Strs [col_Name randCol, ''='', v]]))))"

definition updateAssignments :: "Lib \<Rightarrow> TableRef \<Rightarrow> Fn" where
  "updateAssignments L tbl = NewFn (
     ret (RepeatRange 1 3 (updateAssignment L tbl) (Str '','')))"

definition commonUpdate :: "Lib \<Rightarrow> Fn" where
  "commonUpdate L = NewFn (
     bnd GetRandTable (\<lambda>tbl.
     bnd (Store ScopeKeyCurrentTable (ObjTable tbl)) (\<lambda>_.
     bnd (tblR (GetRandColumns L) tbl) (\<lambda>orderByCols.
     bnd (deref tbl) (\<lambda>t.
     ret (And [
       Str ''update'',
       Str (tbl_Name t),
       Str ''set'',
       updateAssignments L tbl,
       Str ''where'',
       predicates L,
       OptIf (length orderByCols > 0)
         (And [
           Str ''order by'',
           Str (PrintColumnNamesWithoutPar L orderByCols []),
           maybeLimit])]))))))"

definition commonAnalyze :: Fn where
  "commonAnalyze = NewFn (
     bnd GetRandTable (\<lambda>tbl.
     bnd (deref tbl) (\<lambda>t.
     ret (And [Str ''analyze table'', Str (tbl_Name t)]))))"

definition randRowVal :: "Lib \<Rightarrow> Column \<Rightarrow> Fn" where
  "randRowVal L col = NewFn (
     bnd (liftR (RandomValue L col)) (\<lambda>v. ret (Str v)))"

definition multipleRowVal :: "Lib \<Rightarrow> Column \<Rightarrow> Fn" where
  "multipleRowVal L col = NewFn (
     ret (RepeatRange 1 9 (randRowVal L col) (Str '','')))"

definition commonDelete :: "Lib \<Rightarrow> Fn" where
  "commonDelete L = NewFn (
     bnd (gets (\<lambda>st. Weight (ctrl st))) (\<lambda>w.
     bnd GetRandTable (\<lambda>tbl.
     bnd (Intn (Query_DML_DEL_COMMON w + Query_DML_DEL_INDEX w)) (\<lambda>r.
     bnd (if r < Query_DML_DEL_COMMON w then tblR (GetRandColumn L) tbl
          else tblR (\<lambda>t. GetRandIndexFirstColumnWithWeight L t
                 (Query_DML_DEL_INDEX_COMMON w) (Query_DML_DEL_INDEX_COMMON w)) tbl) (\<lambda>col.
     bnd (Store ScopeKeyCurrentTable (ObjTable tbl)) (\<lambda>_.
     bnd (deref tbl) (\<lambda>t.
     ret (And [
       Str ''delete from'',
       Str (tbl_Name t),
       Str ''where'',
       Or [
         And [predicates L, maybeLimit],
         And [Str (col_Name col), Str ''in'', Str ''('', multipleRowVal L col, Str '')'', maybeLimit],
         And [Str (col_Name col), Str ''is null'', maybeLimit]]]))))))))"

definition onDuplicateUpdate :: "Lib \<Rightarrow> Weight \<Rightarrow> TableRef \<Rightarrow> Fn" where
  "onDuplicateUpdate L w tbl = NewFn (
     bnd (tblR (GetRandColumnsNonEmpty L) tbl) (\<lambda>cols.
     bnd (liftR (PrintRandomAssignments L cols)) (\<lambda>assignments.
     ret (Or [
       SetW 3 Empty,
       SetW (Query_DML_INSERT_ON_DUP w) (Strs [
         ''on duplicate key update'',
         assignments])]))))"

definition rowVal :: "Lib \<Rightarrow> TableRef \<Rightarrow> Column list \<Rightarrow> Fn" where
  "rowVal L tbl cols = NewFn (
     bnd (tblR (\<lambda>t. GenRandValues L t cols) tbl) (\<lambda>vs.
     ret (Strs [''('', PrintRandValues L vs, '')''])))"

definition multipleRowVals :: "Lib \<Rightarrow> TableRef \<Rightarrow> Column list \<Rightarrow> Fn" where
  "multipleRowVals L tbl cols = NewFn (
     ret (RepeatRange 1 7 (rowVal L tbl cols) (Str '','')))"

definition insertSetStmt :: "Lib \<Rightarrow> TableRef \<Rightarrow> Fn" where
  "insertSetStmt L tbl = NewFn (
     bnd (tblR (GetRandColumn L) tbl) (\<lambda>randCol.
     bnd (liftR (RandomValue L randCol)) (\<lambda>v.
     ret (Or [
       Strs [col_Name randCol, ''='', v]]))))"

definition commonInsert :: "Lib \<Rightarrow> Fn" where
  "commonInsert L = NewFn (
     bnd (gets (\<lambda>st. Weight (ctrl st))) (\<lambda>w.
     bnd GetRandTable (\<lambda>tbl.
     bnd (gets (\<lambda>st. StrictTransTable (ctrl st))) (\<lambda>strict.
     bnd (if strict then tblR (GetRandColumnsIncludedDefaultValue L) tbl
          else tblR (GetRandColumns L) tbl) (\<lambda>cols.
     bnd (Intn 3) (\<lambda>r.
     let insertOrReplace =
        (if r = 0 \<and> Query_DML_Can_Be_Replace w then ''replace'' else ''insert'') in
     bnd (deref tbl) (\<lambda>t.
     ret (Or [
       And [
         Str insertOrReplace,
         OptIf (insertOrReplace = ''insert'') (Str ''ignore''),
         Str ''into'',
         Str (tbl_Name t),
         Str (PrintColumnNamesWithPar L cols []),
         Str ''values'',
         multipleRowVals L tbl cols,
         OptIf (insertOrReplace = ''insert'') (onDuplicateUpdate L w tbl)],
       And [
         Str insertOrReplace,
         OptIf (insertOrReplace = ''insert'') (Str ''ignore''),
         Str ''into'',
         Str (tbl_Name t),
         Str ''set'',
         RepeatRange 1 3 (insertSetStmt L tbl) (Str '',''),
         OptIf (insertOrReplace = ''insert'') (onDuplicateUpdate L w tbl)]]))))))))"

subsection \<open>DDL\<close>

definition addIndex :: "Lib \<Rightarrow> Fn" where
  "addIndex L = NewFn (
     bnd (gets (\<lambda>st. Weight (ctrl st))) (\<lambda>w.
     bnd (Search ScopeKeyCurrentTable) (\<lambda>v.
     bnd (ToTable v) (\<lambda>tbl.
     bnd (AllocGlobalID ScopeKeyIndexUniqID) (\<lambda>n.
     bnd (deref tbl) (\<lambda>t.
     bnd (liftR (GenNewIndex L n t w)) (\<lambda>idx0.
     bnd (AppendIndexM tbl idx0) (\<lambda>idx.
     ret (Strs [
       ''alter table'', tbl_Name t,
       ''add index'', idx_Name idx,
       ''('', PrintIndexColumnNames L idx, '')''])))))))))"

definition dropIndex :: "Lib \<Rightarrow> Fn" where
  "dropIndex L = NewFn (
     bnd (Search ScopeKeyCurrentTable) (\<lambda>v.
     bnd (ToTable v) (\<lambda>tbl.
     bnd (tblR (GetRandomIndex L) tbl) (\<lambda>idx.
     bnd (tblE (\<lambda>t. RemoveIndex L t idx) tbl) (\<lambda>_.
     bnd (deref tbl) (\<lambda>t.
     ret (Strs [
       ''alter table'', tbl_Name t,
       ''drop index'', idx_Name idx])))))))"

definition addColumn :: "Lib \<Rightarrow> Fn" where
  "addColumn L = NewFn (
     bnd (gets (\<lambda>st. Weight (ctrl st))) (\<lambda>w.
     bnd (Search ScopeKeyCurrentTable) (\<lambda>v.
     bnd (ToTable v) (\<lambda>tbl.
     bnd (AllocGlobalID ScopeKeyColumnUniqID) (\<lambda>n.
     bnd (liftR (GenNewColumn L n w)) (\<lambda>col.
     bnd (update_table tbl (AppendColumn col)) (\<lambda>_.
     bnd (deref tbl) (\<lambda>t.
     ret (Strs [
       ''alter table'', tbl_Name t,
       ''add column'', col_Name col, PrintColumnType L col])))))))))"

definition dropColumn :: "Lib \<Rightarrow> Fn" where
  "dropColumn L = NewFn (
     bnd (Search ScopeKeyCurrentTable) (\<lambda>v.
     bnd (ToTable v) (\<lambda>tbl.
     bnd (tblR (GetRandDroppableColumn L) tbl) (\<lambda>col.
     bnd (tblE (\<lambda>t. RemoveColumn L t col) tbl) (\<lambda>_.
     bnd (deref tbl) (\<lambda>t.
     ret (Strs [
       ''alter table'', tbl_Name t,
       ''drop column'', col_Name col])))))))"

text \<open>The write \<^verbatim>\<open>newCol.Name = col.Name\<close> through the pointer, seen by every list of the
  table that holds the new column.\<close>

definition set_column_name :: "Column \<Rightarrow> string \<Rightarrow> Table \<Rightarrow> Table" where
  "set_column_name c n t =
     (let rn = map (\<lambda>x. if x = c then x\<lparr>col_Name := n\<rparr> else x) in
      t\<lparr>Columns := rn (Columns t),
        Indices := map (\<lambda>i. i\<lparr>idx_Columns := rn (idx_Columns i)\<rparr>) (Indices t),
        PartitionColumns := rn (PartitionColumns t),
        colForPrefixIndex := rn (colForPrefixIndex t)\<rparr>)"

definition alterColumn :: "Lib \<Rightarrow> Fn" where
  "alterColumn L = NewFn (
     bnd (gets (\<lambda>st. Weight (ctrl st))) (\<lambda>w.
     bnd (Search ScopeKeyCurrentTable) (\<lambda>v.
     bnd (ToTable v) (\<lambda>tbl.
     bnd (tblR (GetRandColumn L) tbl) (\<lambda>col.
     bnd (AllocGlobalID ScopeKeyColumnUniqID) (\<lambda>n.
     bnd (liftR (GenNewColumn L n w)) (\<lambda>newCol.
     bnd (tblE (\<lambda>t. ReplaceColumn L t col newCol) tbl) (\<lambda>_.
     bnd (deref tbl) (\<lambda>t.
     bnd RandomBool (\<lambda>b.
     if \<not> b then
       bnd (update_table tbl (set_column_name newCol (col_Name col))) (\<lambda>_.
       ret (Strs [''alter table'', tbl_Name t, ''modify column'', col_Name col,
                  PrintColumnType L (newCol\<lparr>col_Name := col_Name col\<rparr>)]))
     else
       ret (Strs [''alter table'', tbl_Name t, ''change column'', col_Name col,
                  col_Name newCol, PrintColumnType L newCol])))))))))))"

subsection \<open>Queries\<close>

definition pickJoinColumn :: "Lib \<Rightarrow> bool \<Rightarrow> TableRef \<Rightarrow> Column M" where
  "pickJoinColumn L preferIndex tbl =
     (if preferIndex then tblR (GetRandColumnsPreferIndex L) tbl
      else tblR (GetRandColumnsSimple L) tbl)"

definition joinPredicate :: "Lib \<Rightarrow> TableRef \<Rightarrow> TableRef \<Rightarrow> bool \<Rightarrow> Fn" where
  "joinPredicate L tbl1 tbl2 preferIndex = NewFn (
     bnd (pickJoinColumn L preferIndex tbl1) (\<lambda>col1.
     bnd (pickJoinColumn L preferIndex tbl2) (\<lambda>col2.
     ret (And [
       Str (col_Name col1),
       cmpSymbol,
       Str (col_Name col2)]))))"

definition joinPredicates :: "Lib \<Rightarrow> TableRef \<Rightarrow> TableRef \<Rightarrow> bool \<Rightarrow> Fn" where
  "joinPredicates L tbl1 tbl2 preferIndex = NewFn (
     let sep = Or [Str ''and'', Str ''or''] in
     ret (RepeatRange 1 5 (joinPredicate L tbl1 tbl2 preferIndex) sep))"

definition joinHint :: "TableRef \<Rightarrow> TableRef \<Rightarrow> bool \<Rightarrow> Fn" where
  "joinHint tbl1 tbl2 preferIndex = NewFn (
     bnd (deref tbl1) (\<lambda>t1.
     bnd (deref tbl2) (\<lambda>t2.
     let hint = (\<lambda>name. And [
           Str name,
           Str (tbl_Name t1),
           Str '','',
           Str (tbl_Name t2),
           Str '')'']);
         noIndexHint = Or [hint ''MERGE_JOIN('', hint ''HASH_JOIN(''];
         useIndexHint = Or [hint ''INL_JOIN('', hint ''INL_HASH_JOIN('', hint ''INL_MERGE_JOIN('']
     in
     if preferIndex then ret (Or [Empty, useIndexHint])
     else ret (Or [Empty, noIndexHint]))))"

text \<open>The loop of \<^verbatim>\<open>semiJoinStmt\<close> that looks for a column of a compatible type, at most six
  rounds.\<close>

fun compatibleColumn :: "Lib \<Rightarrow> bool \<Rightarrow> TableRef \<Rightarrow> Column \<Rightarrow> nat \<Rightarrow> Column \<Rightarrow> Column M" where
  "compatibleColumn L preferIndex tbl2 col1 0 col2 = ret col2"
| "compatibleColumn L preferIndex tbl2 col1 (Suc n) col2 =
     (if IsStringType L (col_Tp col1) \<and> IsStringType L (col_Tp col2) then ret col2
      else if IsIntegerType L (col_Tp col1) \<and> IsIntegerType L (col_Tp col2) then ret col2
      else if col_Tp col1 = col_Tp col2 then ret col2
      else bnd (pickJoinColumn L preferIndex tbl2)
             (\<lambda>c. compatibleColumn L preferIndex tbl2 col1 n c))"

definition tiflashHint2 :: "bool \<Rightarrow> Table \<Rightarrow> Table \<Rightarrow> Fn" where
  "tiflashHint2 tiflash t1 t2 =
     OptIf tiflash
       (And [
         Str ''read_from_storage(tiflash['',
         Str (tbl_Name t1),
         Str '','',
         Str (tbl_Name t2),
         Str ''])''])"

definition limitOpt :: "Weight \<Rightarrow> string \<Rightarrow> Fn" where
  "limitOpt w n =
     OptIf (Query_HasLimit w > 0)
       (And [
         Str ''limit'',
         Str n])"

definition semiJoinStmt ::
  "Lib \<Rightarrow> Weight \<Rightarrow> TableRef \<Rightarrow> TableRef \<Rightarrow> Column list \<Rightarrow> bool \<Rightarrow> Fn" where
  "semiJoinStmt L w tbl1 tbl2 cols1 preferIndex = NewFn (
     bnd (pickJoinColumn L preferIndex tbl1) (\<lambda>col1.
     bnd (pickJoinColumn L preferIndex tbl2) (\<lambda>col2a.
     bnd (compatibleColumn L preferIndex tbl2 col1 6 col2a) (\<lambda>col2.
     bnd (gets (\<lambda>st. EnableTestTiFlash (ctrl st))) (\<lambda>tiflash.
     bnd (deref tbl1) (\<lambda>t1.
     bnd (deref tbl2) (\<lambda>t2.
     bnd (RandomNum 1 1000) (\<lambda>lim.
     ret (And [
       Str ''select'',
       And [
         Str ''/*+ '',
         tiflashHint2 tiflash t1 t2,
         joinHint tbl1 tbl2 preferIndex,
         Str '' */''],
       Str (PrintFullQualifiedColName L t1 cols1),
       Str ''from'',
       Str (tbl_Name t1),
       Str ''where'',
       Str (col_Name col1),
       Str ''in'',
       Str ''('',
       Str ''select'',
       Str (col_Name col2),
       Str ''from'',
       Str (tbl_Name t2),
       Str ''where'',
       predicates L,
       Str '')'',
       OptIf (Query_HasOrderby w > 0)
         (And [
           Str ''order by'',
           Str (PrintColumnNamesWithoutPar L (Columns t1) [])]),
       limitOpt w lim])))))))))"

definition multiTableQuery :: "Lib \<Rightarrow> Fn" where
  "multiTableQuery L = NewFn (
     bnd (gets (\<lambda>st. Weight (ctrl st))) (\<lambda>w.
     bnd GetRandTable (\<lambda>tbl1.
     bnd GetRandTable (\<lambda>tbl2.
     bnd (tblR (GetRandColumns L) tbl1) (\<lambda>cols1.
     bnd (tblR (GetRandColumns L) tbl2) (\<lambda>cols2.
     bnd (Store ScopeKeyCurrentMultiTable (ObjTables [tbl1, tbl2])) (\<lambda>_.
     bnd RandomBool (\<lambda>preferIndex.
     bnd (gets (\<lambda>st. EnableTestTiFlash (ctrl st))) (\<lambda>tiflash.
     bnd (deref tbl1) (\<lambda>t1.
     bnd (deref tbl2) (\<lambda>t2.
     bnd (RandomNum 1 1000) (\<lambda>lim1.
     bnd (RandomNum 1 1000) (\<lambda>lim2.
     ret (Or [
       And [
         Str ''select'',
         And [
           Str ''/*+ '',
           tiflashHint2 tiflash t1 t2,
           joinHint tbl1 tbl2 preferIndex,
           Str '' */''],
         Str (PrintFullQualifiedColName L t1 cols1),
         Str '','',
         Str (PrintFullQualifiedColName L t2 cols2),
         Str ''from'',
         Str (tbl_Name t1),
         Or [Str ''left join'', Str ''join'', Str ''right join''],
         Str (tbl_Name t2),
         And [Str ''on'', joinPredicates L tbl1 tbl2 preferIndex],
         And [Str ''where''],
         predicates L,
         OptIf (Query_HasOrderby w > 0)
           (And [
             Str ''order by'',
             Str (PrintColumnNamesWithoutPar L (Columns t1) []),
             Str '','',
             Str (PrintColumnNamesWithoutPar L (Columns t2) [])]),
         limitOpt w lim1],
       And [
         Str ''select'',
         And [
           Str ''/*+ '',
           tiflashHint2 tiflash t1 t2,
           OptIf (Query_INDEX_MERGE w)
             (And [
               Str ''use_index_merge('',
               Str (tbl_Name t1),
               Str '','',
               Str (tbl_Name t2),
               Str '')'']),
           joinHint tbl1 tbl2 preferIndex,
           Str '' */''],
         Str (PrintFullQualifiedColName L t1 cols1),
         Str '','',
         Str (PrintFullQualifiedColName L t2 cols2),
         Str ''from'',
         Str (tbl_Name t1),
         Str ''join'',
         Str (tbl_Name t2),
         OptIf (Query_HasOrderby w > 0)
           (And [
             Str ''order by'',
             Str (PrintColumnNamesWithoutPar L (Columns t1) []),
             Str '','',
             Str (PrintColumnNamesWithoutPar L (Columns t2) [])]),
         limitOpt w lim2],
       semiJoinStmt L w tbl1 tbl2 cols1 preferIndex]))))))))))))))"

definition tiflashHint :: "bool \<Rightarrow> Table \<Rightarrow> Fn" where
  "tiflashHint tiflash t =
     OptIf tiflash
       (And [
         Str ''/*+ read_from_storage(tiflash['',
         Str (tbl_Name t),
         Str '']) */''])"

definition indexMergeHint :: "Weight \<Rightarrow> Table \<Rightarrow> Fn" where
  "indexMergeHint w t =
     OptIf (Query_INDEX_MERGE w)
       (And [
         Str ''/*+ use_index_merge('',
         Str (tbl_Name t),
         Str '') */''])"

definition commonSelect :: "Lib \<Rightarrow> TableRef \<Rightarrow> Column list \<Rightarrow> Fn" where
  "commonSelect L tbl cols = NewFn (
     bnd (gets (\<lambda>st. Weight (ctrl st))) (\<lambda>w.
     bnd (Search ScopeKeyCurrentPrepare) (\<lambda>prepare.
     bnd (when_do (\<not> IsNil prepare) (
            bnd (liftR (SwapOutParameterizedColumns L cols)) (\<lambda>paramCols.
            bnd (ToPrepare prepare) (\<lambda>p.
            update_prepare p (AppendColumns paramCols))))) (\<lambda>_.
     bnd (gets (\<lambda>st. EnableTestTiFlash (ctrl st))) (\<lambda>tiflash.
     bnd (deref tbl) (\<lambda>t.
     bnd (RandomNum 1 1000) (\<lambda>lim.
     ret (And [
       Str ''select'',
       tiflashHint tiflash t,
       indexMergeHint w t,
       Str (PrintColumnNamesWithoutPar L cols ''*''),
       Str ''from'',
       Str (tbl_Name t),
       Str ''where'',
       predicates L,
       OptIf (Query_HasOrderby w > 0)
         (And [
           Str ''order by'',
           Str (PrintColumnNamesWithoutPar L (Columns t) [])]),
       limitOpt w lim]))))))))"

definition forUpdateOpt :: Fn where
  "forUpdateOpt = NewFn (ret (Opt (Str ''for update'')))"

definition union' :: Fn where
  "union' = NewFn (
     ret (Or [
       Str ''union'',
       Str ''union all'',
       Str ''except'',
       Str ''intersect'']))"

definition aggSelect :: "Lib \<Rightarrow> Weight \<Rightarrow> TableRef \<Rightarrow> Fn" where
  "aggSelect L w tbl = NewFn (
     bnd (mapM (\<lambda>i. tblR (GetRandColumn L) tbl) [0..<5]) (\<lambda>aggCols.
     bnd (tblR (GetRandColumns L) tbl) (\<lambda>groupByCols.
     bnd (tblR (\<lambda>t. PrintRandomAggFunc L t aggCols) tbl) (\<lambda>aggFunc.
     bnd (Intn 2) (\<lambda>r2.
     bnd (modify (\<lambda>st. st\<lparr>ctrl := (ctrl st)\<lparr>EnableAggPushDown := (r2 = 1)\<rparr>\<rparr>)) (\<lambda>_.
     bnd (Intn 3) (\<lambda>r3.
     bnd (index [[], ''hash_agg'', ''stream_agg''] r3) (\<lambda>aggType.
     bnd (modify (\<lambda>st. st\<lparr>ctrl := (ctrl st)\<lparr>AggType := aggType\<rparr>\<rparr>)) (\<lambda>_.
     bnd (deref tbl) (\<lambda>t.
     let primaryKeyIdx = GetPrimaryKeyIndex L t;
         primaryKeyCols = (case primaryKeyIdx of None \<Rightarrow> [] | Some idx \<Rightarrow> idx_Columns idx) in
     bnd (gets ctrl) (\<lambda>c.
     bnd (RandomNum 1 1000) (\<lambda>lim.
     ret (And [
       Str ''select'',
       Str ''/*+'',
       OptIf (EnableAggPushDown c) (Str ''agg_to_cop()''),
       OptIf (AggType c \<noteq> []) (Str (AggType c @ ''()'')),
       Str ''*/'',
       Str aggFunc,
       Str ''from'',
       Str ''(select'',
       tiflashHint (EnableTestTiFlash c) t,
       indexMergeHint w t,
       Str ''*'',
       Str ''from'',
       Str (tbl_Name t),
       Str ''where'',
       predicates L,
       Str ''order by'',
       OptIf (primaryKeyIdx \<noteq> None) (Str (PrintColumnNamesWithoutPar L primaryKeyCols [])),
       OptIf (primaryKeyIdx = None) (Str ''_tidb_rowid''),
       Str '') ordered_tbl'',
       OptIf (length groupByCols > 0) (Str ''group by''),
       OptIf (length groupByCols > 0) (Str (PrintColumnNamesWithoutPar L groupByCols [])),
       OptIf (Query_HasOrderby w > 0)
         (Str ''order by aggCol''),
       limitOpt w lim])))))))))))))"

definition windowSelect :: "Lib \<Rightarrow> Weight \<Rightarrow> TableRef \<Rightarrow> Fn" where
  "windowSelect L w tbl = NewFn (
     bnd (tblR (PrintRandomWindowFunc L) tbl) (\<lambda>windowFunc.
     bnd (tblR (PrintRandomWindow L) tbl) (\<lambda>window.
     bnd (gets (\<lambda>st. EnableTestTiFlash (ctrl st))) (\<lambda>tiflash.
     bnd (deref tbl) (\<lambda>t.
     bnd (RandomNum 1 1000) (\<lambda>lim.
     ret (And [
       Str ''select'',
       tiflashHint tiflash t,
       indexMergeHint w t,
       Str windowFunc,
       Str ''over w'',
       Str ''from'',
       Str (tbl_Name t),
       Str ''window w as'',
       Str window,
       OptIf (Query_HasOrderby w > 0)
         (And [
           Str ''order by'',
           Str (PrintColumnNamesWithoutPar L (Columns t) []),
           Str '', '',
           Str (windowFunc @ '' over w'')]),
       limitOpt w lim])))))))"

definition query :: "Lib \<Rightarrow> Fn" where
  "query L = NewFn (
     bnd (gets (\<lambda>st. Weight (ctrl st))) (\<lambda>w.
     bnd GetRandTable (\<lambda>tbl.
     bnd (Store ScopeKeyCurrentTable (ObjTable tbl)) (\<lambda>_.
     bnd (tblR (GetRandColumns L) tbl) (\<lambda>cols.
     bnd (RandomNum 1 1000) (\<lambda>lim1.
     bnd (RandomNum 1 1000) (\<lambda>lim2.
     bnd (RandomNum 1 1000) (\<lambda>lim3.
     bnd (gets (\<lambda>st. length (tables st))) (\<lambda>ntables.
     ret (Or [
       And [commonSelect L tbl cols, forUpdateOpt],
       SetW (Query_Union w) (And [
         Str ''('', commonSelect L tbl cols, forUpdateOpt, Str '')'',
         union',
         Str ''('', commonSelect L tbl cols, forUpdateOpt, Str '')'',
         OptIf (Query_HasOrderby w > 0)
           (And [
             Str ''order by'',
             Str (PrintColumnNamesWithoutPar L cols [])]),
         limitOpt w lim1]),
       And [aggSelect L w tbl, forUpdateOpt],
       SetW (Query_Window w) (And [windowSelect L w tbl, forUpdateOpt]),
       SetW (Query_Union w) (And [
         Str ''('', aggSelect L w tbl, forUpdateOpt, Str '')'',
         union',
         Str ''('', aggSelect L w tbl, forUpdateOpt, Str '')'',
         OptIf (Query_HasOrderby w > 0)
           (Str ''order by aggCol''),
         limitOpt w lim2]),
       SetW (Query_Window w + Query_Union w) (And [
         Str ''('', windowSelect L w tbl, forUpdateOpt, Str '')'',
         union',
         Str ''('', windowSelect L w tbl, forUpdateOpt, Str '')'',
         OptIf (Query_HasOrderby w > 0)
           (And [
             Str ''order by 1'']),
         limitOpt w lim3]),
       If' (ntables > 1)
         (multiTableQuery L)]))))))))))"

subsection \<open>Cloning, outfiles, regions, prepared statements\<close>

text \<open>
  Modelled from the spec: \<^verbatim>\<open>Clone\<close> is missing from the sources. It produces a new
  independent table whose schema mirrors the source and whose identifiers (table, columns,
  indices) are freshly allocated, and the original table records the clone in its
  \<^verbatim>\<open>childTables\<close>. Names follow the identifiers: \<open>t<id>\<close>, \<open>c<id>\<close>, \<open>i<id>\<close>.
\<close>

definition Clone :: "TableRef \<Rightarrow> TableRef M" where
  "Clone a =
     bnd (deref a) (\<lambda>t.
     bnd (AllocGlobalID ScopeKeyTableUniqID) (\<lambda>tid.
     bnd (mapM (\<lambda>c. bnd (AllocGlobalID ScopeKeyColumnUniqID) (\<lambda>cid.
                 ret (c\<lparr>col_Id := cid, col_Name := ''c'' @ itoa cid\<rparr>))) (Columns t)) (\<lambda>cols.
     let conv = (\<lambda>c. case map_of (zip (Columns t) cols) c of Some c' \<Rightarrow> c' | None \<Rightarrow> c) in
     bnd (mapM (\<lambda>i. bnd (AllocGlobalID ScopeKeyIndexUniqID) (\<lambda>iid.
                 ret (i\<lparr>idx_Id := iid, idx_Name := ''i'' @ itoa iid,
                        idx_Columns := map conv (idx_Columns i)\<rparr>))) (Indices t)) (\<lambda>idxs.
     bnd (new_table \<lparr>tbl_Id = tid, tbl_Name = ''t'' @ itoa tid, Columns = cols, Indices = idxs,
            PartitionColumns = map conv (PartitionColumns t), values_rows = [],
            colForPrefixIndex = [], childTables = []\<rparr>) (\<lambda>b.
     bnd (update_table a (\<lambda>t. t\<lparr>childTables := childTables t @ [b]\<rparr>)) (\<lambda>_.
     ret b))))))"

definition createTableLike :: Fn where
  "createTableLike = NewFn (
     bnd GetRandTable (\<lambda>tbl.
     bnd (Clone tbl) (\<lambda>newTbl.
     bnd (AppendTable newTbl) (\<lambda>_.
     bnd (deref newTbl) (\<lambda>nt.
     bnd (deref tbl) (\<lambda>t.
     ret (Strs [''create table'', tbl_Name nt, ''like'', tbl_Name t])))))))"

definition outFileName :: "Lib \<Rightarrow> string \<Rightarrow> int \<Rightarrow> string" where
  "outFileName L name n = path_Join (SelectOutFileDir L) (name @ ''_'' @ itoa n @ ''.txt'')"

definition selectIntoOutFile :: "Lib \<Rightarrow> Fn" where
  "selectIntoOutFile L = NewFn (
     bnd GetRandTable (\<lambda>tbl.
     bnd (StoreInRoot ScopeKeyLastOutFileTable (ObjTable tbl)) (\<lambda>_.
     bnd (deref tbl) (\<lambda>t.
     bnd (AllocGlobalID ScopeKeyTmpFileID) (\<lambda>n.
     let tmpFile = outFileName L (tbl_Name t) n in
     ret (Strs [''select * from'', tbl_Name t, ''into outfile'', quoted tmpFile]))))))"

definition loadTable :: "Lib \<Rightarrow> Fn" where
  "loadTable L = NewFn (
     bnd (Search ScopeKeyLastOutFileTable) (\<lambda>v.
     bnd (ToTable v) (\<lambda>tbl.
     bnd (Search ScopeKeyTmpFileID) (\<lambda>iv.
     bnd (ToInt iv) (\<lambda>n.
     bnd (deref tbl) (\<lambda>t.
     let tmpFile = outFileName L (tbl_Name t) n in
     bnd (Intn (int (length (childTables t)))) (\<lambda>r.
     bnd (index (childTables t) r) (\<lambda>randChildTable.
     bnd (deref randChildTable) (\<lambda>ct.
     ret (Strs [''load data local infile'', quoted tmpFile, ''into table'', tbl_Name ct]))))))))))"

definition splitTableRegionBetween :: "Lib \<Rightarrow> TableRef \<Rightarrow> string \<Rightarrow> Fn" where
  "splitTableRegionBetween L tbl splitTablePrefix = NewFn (
     bnd (tblR (\<lambda>t. GenMultipleRowsAscForHandleCols L t 2) tbl) (\<lambda>rows.
     bnd (index rows 0) (\<lambda>low.
     bnd (index rows 1) (\<lambda>high.
     bnd (RandomNum 2 10) (\<lambda>regions.
     ret (Strs [splitTablePrefix, ''between'',
       ''('', PrintRandValues L low, '')'', ''and'',
       ''('', PrintRandValues L high, '')'', ''regions'', regions]))))))"

definition splitIndexRegionBetween ::
  "Lib \<Rightarrow> TableRef \<Rightarrow> string \<Rightarrow> string \<Rightarrow> Index option \<Rightarrow> Fn" where
  "splitIndexRegionBetween L tbl splitTablePrefix idxPrefix idxo = NewFn (
     case idxo of
       None \<Rightarrow> panic ''nil pointer dereference''
     | Some idx \<Rightarrow>
     bnd (tblR (\<lambda>t. GenMultipleRowsAscForIndexCols L t 2 idx) tbl) (\<lambda>rows.
     bnd (index rows 0) (\<lambda>low.
     bnd (index rows 1) (\<lambda>high.
     bnd (RandomNum 2 10) (\<lambda>regions.
     ret (Strs [splitTablePrefix, idxPrefix, ''between'',
       ''('', PrintRandValues L low, '')'', ''and'',
       ''('', PrintRandValues L high, '')'', ''regions'', regions]))))))"

definition splitTableRegionBy :: "Lib \<Rightarrow> TableRef \<Rightarrow> string \<Rightarrow> Fn" where
  "splitTableRegionBy L tbl splitTablePrefix = NewFn (
     bnd (Intn 10) (\<lambda>r.
     bnd (tblR (\<lambda>t. GenMultipleRowsAscForHandleCols L t (r + 2)) tbl) (\<lambda>rows.
     ret (Strs [splitTablePrefix, ''by'', PrintSplitByItems L rows]))))"

definition splitIndexRegionBy ::
  "Lib \<Rightarrow> TableRef \<Rightarrow> string \<Rightarrow> string \<Rightarrow> Index option \<Rightarrow> Fn" where
  "splitIndexRegionBy L tbl splitTablePrefix idxPrefix idxo = NewFn (
     bnd (Intn 10) (\<lambda>r.
     case idxo of
       None \<Rightarrow> panic ''nil pointer dereference''
     | Some idx \<Rightarrow>
     bnd (tblR (\<lambda>t. GenMultipleRowsAscForIndexCols L t (r + 2) idx) tbl) (\<lambda>rows.
     ret (Strs [splitTablePrefix, idxPrefix, ''by'', PrintSplitByItems L rows]))))"

definition splitRegion :: "Lib \<Rightarrow> Fn" where
  "splitRegion L = NewFn (
     bnd GetRandTable (\<lambda>tbl.
     bnd (deref tbl) (\<lambda>t.
     let splitTablePrefix = ''split table '' @ tbl_Name t in
     bnd (if length (Indices t) > 0 then RandomBool else ret False) (\<lambda>splittingIndex.
     bnd (if splittingIndex then
            bnd (Intn (int (length (Indices t)))) (\<lambda>r.
            bnd (index (Indices t) r) (\<lambda>idx.
            ret (Some idx, ''index '' @ idx_Name idx)))
          else ret (None, [])) (\<lambda>(idx, idxPrefix).
     if splittingIndex then
       ret (Or [splitIndexRegionBetween L tbl splitTablePrefix idxPrefix idx,
                splitIndexRegionBy L tbl splitTablePrefix idxPrefix idx])
     else
       ret (Or [splitTableRegionBetween L tbl splitTablePrefix,
                splitTableRegionBy L tbl splitTablePrefix]))))))"

definition prepareStmt :: "Lib \<Rightarrow> Fn" where
  "prepareStmt L = NewFn (
     bnd (AllocGlobalID ScopeKeyPrepareID) (\<lambda>n.
     bnd (new_prepare (GenNewPrepare n)) (\<lambda>prepare.
     bnd (AppendPrepare prepare) (\<lambda>_.
     bnd (Store ScopeKeyCurrentPrepare (ObjPrepare prepare)) (\<lambda>_.
     bnd (deref_prepare prepare) (\<lambda>p.
     ret (And [
       Str ''prepare'',
       Str (pre_Name p),
       Str ''from'',
       Str [CHR 0x22],
       query L,
       Str [CHR 0x22]])))))))"

definition deallocPrepareStmt :: Fn where
  "deallocPrepareStmt = NewFn (
     bnd (gets (\<lambda>st. length (prepareStmts st))) (\<lambda>n.
     bnd (Assert (n > 0)) (\<lambda>_.
     bnd GetRandPrepare (\<lambda>prepare.
     bnd (RemovePrepare prepare) (\<lambda>_.
     bnd (deref_prepare prepare) (\<lambda>p.
     ret (Strs [''deallocate prepare'', pre_Name p])))))))"

definition queryPrepare :: "Lib \<Rightarrow> Fn" where
  "queryPrepare L = NewFn (
     bnd (gets (\<lambda>st. length (prepareStmts st))) (\<lambda>n.
     bnd (Assert (n > 0)) (\<lambda>_.
     bnd GetRandPrepare (\<lambda>prepare.
     bnd (deref_prepare prepare) (\<lambda>p.
     bnd (liftR (GenAssignments L p)) (\<lambda>assignments.
     case assignments of
       [] \<Rightarrow> ret (Str (''execute '' @ pre_Name p))
     | first # rest \<Rightarrow>
     bnd (mapM InjectTodoSQL rest) (\<lambda>_.
     let userVarsStr = join '','' (UserVars L p) in
     bnd (InjectTodoSQL (''execute '' @ pre_Name p @ '' using '' @ userVarsStr)) (\<lambda>_.
     ret (Str first)))))))))"

subsection \<open>Statement kinds and the entry production\<close>

definition dmlStmt :: "Lib \<Rightarrow> Fn" where
  "dmlStmt L = NewFn (
     bnd (gets (\<lambda>st. length (tables st))) (\<lambda>ntables.
     bnd (Assert (ntables > 0)) (\<lambda>_.
     bnd (gets (\<lambda>st. Weight (ctrl st))) (\<lambda>w.
     bnd (gets (\<lambda>st. length (prepareStmts st))) (\<lambda>nprepare.
     ret (Or [
       SetW (Query_Select w) (query L),
       If' (nprepare > 0)
         (queryPrepare L),
       SetW (Query_DML_DEL w) (commonDelete L),
       SetW (Query_DML_INSERT w) (commonInsert L),
       SetW (Query_DML_UPDATE w) (commonUpdate L)]))))))"

definition ddlStmt :: "Lib \<Rightarrow> Fn" where
  "ddlStmt L = NewFn (
     bnd GetRandTable (\<lambda>tbl.
     bnd (Store ScopeKeyCurrentTable (ObjTable tbl)) (\<lambda>_.
     bnd (deref tbl) (\<lambda>t.
     bnd (gets (\<lambda>st. EnableColumnTypeChange (ctrl st))) (\<lambda>typeChange.
     ret (Or [
       addColumn L,
       addIndex L,
       If' (length (Columns t) > 1 \<and> HasDroppableColumn L t)
         (dropColumn L),
       If' (length (Indices t) > 0)
         (dropIndex L),
       If' typeChange
         (alterColumn L)]))))))"

definition initStart :: "Lib \<Rightarrow> Fn" where
  "initStart L = NewFn (
     bnd Initialized (\<lambda>ini.
     bnd (Assert (\<not> ini)) (\<lambda>_.
     bnd (gets (\<lambda>st. int (length (tables st)) < InitTableCount (ctrl st))) (\<lambda>more.
     if more then ret (createTable L)
     else ret (insertInto L)))))"

definition start :: "Lib \<Rightarrow> Fn" where
  "start L = NewFn (
     bnd (gets (\<lambda>st. Weight (ctrl st))) (\<lambda>w.
     bnd PopOneTodoSQL (\<lambda>todo.
     case todo of
       Some s \<Rightarrow> ret (Str s)
     | None \<Rightarrow>
     bnd Initialized (\<lambda>ini.
     if \<not> ini then
       bnd (Eval (initStart L)) (\<lambda>eInitStart.
       bnd MeetInitializedDemand (\<lambda>met.
       bnd (when_do met SetInitialized) (\<lambda>_.
       ret (Str eInitStart))))
     else
       bnd (gets id) (\<lambda>state.
       bnd (Search ScopeKeyLastOutFileTable) (\<lambda>lastOutFile.
       ret (Or [
         SetW (SetRowFormat w) switchRowFormatVer,
         SetW (SetClustered w) switchClustered,
         SetW (AdminCheck w) (adminCheck L),
         SetW (CreateTable w) (If' (int (length (tables state)) < MaxTableNum (ctrl state))
           (Or [
             SetW (CreateTable_WithoutLike w) (createTable L),
             createTableLike])),
         SetW (Query w) (If' (length (tables state) > 0)
           (Or [
             SetW (Query_DML w) (dmlStmt L),
             SetW (Query_DDL w) (ddlStmt L),
             SetW (Query_Split w) (splitRegion L),
             SetW (Query_Analyze w) commonAnalyze,
             SetW (Query_Prepare w) (prepareStmt L),
             SetW 1 (If' (length (prepareStmts state) > 0)
               deallocPrepareStmt),
             SetW 1 (If' (CanReadGCSavePoint (ctrl state))
               flashBackTable),
             SetW 1 (If' (EnableSelectOutFileAndLoadData (ctrl state))
               (Or [
                 SetW 1 (selectIntoOutFile L),
                 If' (\<not> IsNil lastOutFile)
                   (loadTable L)]))]))])))))))"


text \<open>The texts returned by \<open>n\<close> successive calls of a producer.\<close>

fun calls :: "string M \<Rightarrow> nat \<Rightarrow> (string list) M" where
  "calls g 0 = ret []"
| "calls g (Suc n) = bnd g (\<lambda>s. bnd (calls g n) (\<lambda>ss. ret (s # ss)))"

section \<open>The differential-test driver\<close>

text \<open>
  The two databases are outside the program. A database is modelled by what it answers to a
  statement: the error of \<^verbatim>\<open>QueryContext\<close>, or the result of reading the rows
  (\<^verbatim>\<open>resultset.ReadFromRows\<close>), a result set and an error. An error value of Go is its message,
  \<open>None\<close> being nil. The errors built with \<^verbatim>\<open>fmt.Errorf\<close> are kept as constructors holding
  the formatted arguments. \<^verbatim>\<open>strings.ToLower\<close> is modelled on ASCII letters.
\<close>

record ResultSet =
  rs_OrderedDigest :: string
  rs_DataDigest :: string
  rs_PrettyPrint :: string
  rs_IsExecResult :: bool
  rs_RowsAffected :: int

type_synonym go_error = "string option"

type_synonym DB = "string \<Rightarrow> string + ResultSet option \<times> go_error"

datatype test_error =
    QueryError string
  | ErrorsMismatch go_error go_error string
  | DigestsMismatch string string string string string
  | RowsAffectedMismatch int int string

definition HasPrefix :: "string \<Rightarrow> string \<Rightarrow> bool" where
  "HasPrefix s p = (take (length p) s = p)"

fun Contains :: "string \<Rightarrow> string \<Rightarrow> bool" where
  "Contains [] sub = (sub = [])"
| "Contains (c # s) sub = (HasPrefix (c # s) sub \<or> Contains s sub)"

declare Contains.simps [simp del]

definition lower_char :: "char \<Rightarrow> char" where
  "lower_char c = (case map_of (zip ''ABCDEFGHIJKLMNOPQRSTUVWXYZ'' ''abcdefghijklmnopqrstuvwxyz'') c of
       Some d \<Rightarrow> d | None \<Rightarrow> c)"

definition ToLower :: "string \<Rightarrow> string" where
  "ToLower s = map lower_char s"

definition runQuery :: "DB \<Rightarrow> string \<Rightarrow> ResultSet option \<times> go_error" where
  "runQuery db sql = (case db sql of Inl err \<Rightarrow> (None, Some err) | Inr r \<Rightarrow> r)"

definition OneOfContains :: "go_error \<Rightarrow> go_error \<Rightarrow> string \<Rightarrow> bool" where
  "OneOfContains err1 err2 msg =
     (let c1 = (case err1 of None \<Rightarrow> False | Some m \<Rightarrow> Contains m msg \<and> err2 = None);
          c2 = (case err2 of None \<Rightarrow> False | Some m \<Rightarrow> Contains m msg \<and> err1 = None)
      in c1 \<or> c2)"

definition ignoreErrMsgs :: "string list" where
  "ignoreErrMsgs =
    [''with index covered now'',
     ''Unknown system variable'',
     ''Split table region lower value count should be'',
     ''Column count doesn't match value count'',
     ''for column '_tidb_rowid'' @ [CHR 0x27],
     ''Unknown column '_tidb_rowid'' @ [CHR 0x27]]"


definition ValidateErrs :: "go_error \<Rightarrow> go_error \<Rightarrow> bool" where
  "ValidateErrs err1 err2 =
     (if list_ex (\<lambda>msg. OneOfContains err1 err2 msg) ignoreErrMsgs then True
      else (err1 = None \<and> err2 = None) \<or> (err1 \<noteq> None \<and> err2 \<noteq> None))"

definition isAdminCheck :: "string \<Rightarrow> bool" where
  "isAdminCheck sql = (let lsql = ToLower sql in Contains lsql ''admin'' \<and> Contains lsql ''check'')"

definition err_contains :: "go_error \<Rightarrow> string \<Rightarrow> bool" where
  "err_contains err msg = (case err of None \<Rightarrow> False | Some m \<Rightarrow> Contains m msg)"

definition runInteractTest :: "DB \<Rightarrow> DB \<Rightarrow> string \<Rightarrow> bool \<Rightarrow> test_error option" where
  "runInteractTest db1 db2 sql sortQueryResult =
     (case runQuery db1 sql of (rs1, err1) \<Rightarrow>
     (case runQuery db2 sql of (rs2, err2) \<Rightarrow>
     (if isAdminCheck sql \<and> err1 \<noteq> None \<and> \<not> err_contains err1 ''t exist''
        then map_option QueryError err1
      else if isAdminCheck sql \<and> err2 \<noteq> None \<and> \<not> err_contains err2 ''t exist''
        then map_option QueryError err2
      else if \<not> ValidateErrs err1 err2
        then Some (ErrorsMismatch err1 err2 sql)
      else (case (rs1, rs2) of
        (Some r1, Some r2) \<Rightarrow>
          (let h1 = (if sortQueryResult then rs_OrderedDigest r1 else rs_DataDigest r1);
               h2 = (if sortQueryResult then rs_OrderedDigest r2 else rs_DataDigest r2)
           in if h1 \<noteq> h2
                then Some (DigestsMismatch h1 h2 sql (rs_PrettyPrint r1) (rs_PrettyPrint r2))
              else if rs_IsExecResult r1 \<and> rs_RowsAffected r1 \<noteq> rs_RowsAffected r2
                then Some (RowsAffectedMismatch (rs_RowsAffected r1) (rs_RowsAffected r2) sql)
              else None)
      | _ \<Rightarrow> None))))"

definition RunInteractTest :: "DB \<Rightarrow> DB \<Rightarrow> string \<Rightarrow> test_error option" where
  "RunInteractTest db1 db2 sql = runInteractTest db1 db2 sql True"

definition RunInteractTestNoSort :: "DB \<Rightarrow> DB \<Rightarrow> string \<Rightarrow> test_error option" where
  "RunInteractTestNoSort db1 db2 sql = runInteractTest db1 db2 sql False"



section \<open>A concrete library and concrete states\<close>

text \<open>
  An instance of the library record used to run the productions on concrete inputs:
  columns are integers named \<open>c<id>\<close>, indices are unique indices named \<open>i<id>\<close> on the first
  column of their table, every sampled value is \<open>0\<close>, and \<^verbatim>\<open>rand.Seed(n)\<close> starts the stream
  \<open>n, n + 1, ...\<close>.
\<close>

definition pure_rnd :: "'a \<Rightarrow> 'a rnd_fun" where
  "pure_rnd x = (\<lambda>r. Inr (x, r))"

definition names :: "Column list \<Rightarrow> string" where
  "names cs = join '','' (map col_Name cs)"

definition lib0 :: Lib where
  "lib0 = \<lparr>
     SelectOutFileDir = ''/tmp'',
     Seed = (\<lambda>n. \<lparr>src = (\<lambda>i. nat n + i), pos = 0\<rparr>),
     IsStringType = (\<lambda>tp. tp = 1),
     IsIntegerType = (\<lambda>tp. tp = 0),
     GenNewColumn = (\<lambda>n w. pure_rnd \<lparr>col_Id = n, col_Name = ''c'' @ itoa n, col_Tp = 0,
                        col_isNotNull = False, col_defaultVal = []\<rparr>),
     GenNewIndex = (\<lambda>n t w. pure_rnd \<lparr>idx_Id = n, idx_Name = ''i'' @ itoa n,
                        idx_Tp = IndexTypeUnique, idx_Columns = take 1 (Columns t)\<rparr>),
     RandomValue = (\<lambda>c. pure_rnd ''0''),
     RandomValuesAsc = (\<lambda>c n. pure_rnd (map (\<lambda>i. itoa (int i)) [0..<nat n])),
     RandomGroups = (\<lambda>vs n. pure_rnd [vs]),
     HasDroppableColumn = (\<lambda>t. 1 < length (Columns t)),
     GetRandDroppableColumn = (\<lambda>t. pure_rnd (last (Columns t))),
     GetRandColumn = (\<lambda>t. pure_rnd (hd (Columns t))),
     GetRandColumns = (\<lambda>t. pure_rnd (Columns t)),
     GetRandColumnsNonEmpty = (\<lambda>t. pure_rnd (Columns t)),
     GetRandColumnsIncludedDefaultValue = (\<lambda>t. pure_rnd (Columns t)),
     GetRandColumnsSimple = (\<lambda>t. pure_rnd (hd (Columns t))),
     GetRandColumnsPreferIndex = (\<lambda>t. pure_rnd (hd (Columns t))),
     GetRandIndexFirstColumnWithWeight = (\<lambda>t a b. pure_rnd (hd (Columns t))),
     GetRandUniqueIndexForPointGet = (\<lambda>t. pure_rnd (find IsUnique (Indices t))),
     GetRandIndexPrefixColumn = (\<lambda>t. pure_rnd []),
     GetPrimaryKeyIndex = (\<lambda>t. find (\<lambda>i. idx_Tp i = IndexTypePrimary) (Indices t)),
     GetRandColumnForPartition = (\<lambda>t. pure_rnd (case Columns t of [] \<Rightarrow> None | c # cs \<Rightarrow> Some (last (c # cs)))),
     GetRandomIndex = (\<lambda>t. pure_rnd (hd (Indices t))),
     GenRandValues = (\<lambda>t cs. pure_rnd (map (\<lambda>c. ''0'') cs)),
     GetRandRow = (\<lambda>t cs. pure_rnd (map (\<lambda>c. ''0'') cs)),
     GetRandRowVal = (\<lambda>t c. pure_rnd ''0''),
     GenMultipleRowsAscForHandleCols = (\<lambda>t n. pure_rnd (map (\<lambda>i. [itoa (int i)]) [0..<nat n])),
     GenMultipleRowsAscForIndexCols = (\<lambda>t n idx. pure_rnd (map (\<lambda>i. [itoa (int i)]) [0..<nat n])),
     RemoveColumn = (\<lambda>t c. Inr (t\<lparr>Columns := removeAll c (Columns t)\<rparr>)),
     ReplaceColumn = (\<lambda>t c c'. Inr (t\<lparr>Columns := map (\<lambda>x. if x = c then c' else x) (Columns t)\<rparr>)),
     RemoveIndex = (\<lambda>t i. Inr (t\<lparr>Indices := removeAll i (Indices t)\<rparr>)),
     GenAssignments = (\<lambda>p. pure_rnd (map (\<lambda>c. ''set @u = 0'') (pre_Args p))),
     UserVars = (\<lambda>p. map (\<lambda>c. ''@u'') (pre_Args p)),
     SwapOutParameterizedColumns = (\<lambda>cs. pure_rnd []),
     PrintColumnType = (\<lambda>c. ''int''),
     PrintIndexType = (\<lambda>i. case idx_Tp i of IndexTypeNonUnique \<Rightarrow> []
                          | IndexTypeUnique \<Rightarrow> ''unique'' | IndexTypePrimary \<Rightarrow> ''primary''),
     PrintIndexColumnNames = (\<lambda>i. names (idx_Columns i)),
     PrintRangePartitionDefs = (\<lambda>vs. join '','' vs),
     PrintListPartitionDefs = (\<lambda>gs. join '','' (concat gs)),
     PrintRandValues = (\<lambda>vs. join '','' vs),
     PrintColumnNamesWithoutPar = (\<lambda>cs d. if cs = [] then d else names cs),
     PrintColumnNamesWithPar = (\<lambda>cs d. if cs = [] then d else ''('' @ names cs @ '')''),
     PrintRandomAssignments = (\<lambda>cs. pure_rnd (join '','' (map (\<lambda>c. col_Name c @ ''=0'') cs))),
     PrintRandomAggFunc = (\<lambda>t cs. pure_rnd ''count(*) aggCol''),
     PrintRandomWindowFunc = (\<lambda>t. pure_rnd ''row_number()''),
     PrintRandomWindow = (\<lambda>t. pure_rnd ''(order by 1)''),
     PrintPredicateDNF = (\<lambda>cs vs. ''1''),
     PrintPredicateCompoundDNF = (\<lambda>cs vs. ''1''),
     PrintPredicateIn = (\<lambda>cs vs. ''1''),
     PrintFullQualifiedColName = (\<lambda>t cs. names cs),
     PrintSplitByItems = (\<lambda>rows. join '','' (map (\<lambda>r. ''('' @ join '','' r @ '')'') rows))\<rparr>"

definition weight0 :: Weight where
  "weight0 = \<lparr>
     SetRowFormat = 0, SetClustered = 0, AdminCheck = 0, CreateTable = 0,
     CreateTable_WithoutLike = 0, CreateTable_MaxColumnCnt = 2, CreateTable_IndexMoreCol = 1,
     CreateTable_WithClusterHint = False, CreateTable_Partition_Type = ''hash'',
     Query = 0, Query_DML = 0, Query_DDL = 0, Query_Split = 0, Query_Analyze = 0,
     Query_Prepare = 0, Query_Select = 0, Query_DML_DEL = 0, Query_DML_DEL_COMMON = 1,
     Query_DML_DEL_INDEX = 0, Query_DML_DEL_INDEX_COMMON = 0, Query_DML_INSERT = 0,
     Query_DML_INSERT_ON_DUP = 0, Query_DML_UPDATE = 0, Query_DML_Can_Be_Replace = False,
     Query_HasOrderby = 0, Query_HasLimit = 0, Query_Union = 0, Query_Window = 0,
     Query_INDEX_MERGE = False\<rparr>"

definition ctrl0 :: ControlOption where
  "ctrl0 = \<lparr>Weight = weight0, InitTableCount = 1, InitColCount = 2, MaxTableNum = 1,
     EnableTestTiFlash = False, EnableColumnTypeChange = False,
     EnableSelectOutFileAndLoadData = False, CanReadGCSavePoint = False,
     StrictTransTable = False, EnableAggPushDown = False, AggType = []\<rparr>"

text \<open>The state of a fresh generator: an empty catalog, the root frame of the scope store,
  and a stream of draws given by a list (and zero beyond it).\<close>

definition draws :: "nat list \<Rightarrow> Rand" where
  "draws ds = \<lparr>src = (\<lambda>i. if i < length ds then ds ! i else 0), pos = 0\<rparr>"

definition state0 :: "ControlOption \<Rightarrow> nat list \<Rightarrow> State" where
  "state0 c ds = \<lparr>ctrl = c, heap = [], tables = [], pheap = [], prepareStmts = [],
     scope = [[]], todoSQLs = [], initialized = False, enabledClustered = False,
     rnd = draws ds\<rparr>"

text \<open>An initialized generator whose catalog holds one table \<open>t0\<close> with one column \<open>c0\<close> and
  one sampled row.\<close>

definition col0 :: Column where
  "col0 = \<lparr>col_Id = 0, col_Name = ''c0'', col_Tp = 0, col_isNotNull = False, col_defaultVal = []\<rparr>"

definition table0 :: Table where
  "table0 = \<lparr>tbl_Id = 0, tbl_Name = ''t0'', Columns = [col0], Indices = [],
     PartitionColumns = [], values_rows = [[''0'']], colForPrefixIndex = [], childTables = []\<rparr>"

definition state1 :: "ControlOption \<Rightarrow> nat list \<Rightarrow> State" where
  "state1 c ds = \<lparr>ctrl = c, heap = [table0], tables = [0], pheap = [], prepareStmts = [],
     scope = [[(ScopeKeyColumnUniqID, ObjInt 1), (ScopeKeyTableUniqID, ObjInt 1)]],
     todoSQLs = [], initialized = True, enabledClustered = False, rnd = draws ds\<rparr>"

text \<open>The state after one \<^verbatim>\<open>select ... into outfile\<close> on the one table of the catalog, with the
  feature enabled and every weight of the entry production zero but that of the queries.\<close>

definition ctrl_outfile :: ControlOption where
  "ctrl_outfile = ctrl0\<lparr>Weight := weight0\<lparr>Query := 1\<rparr>, EnableSelectOutFileAndLoadData := True\<rparr>"

definition state_outfile :: "nat list \<Rightarrow> State" where
  "state_outfile ds = (state1 ctrl_outfile ds)\<lparr>scope :=
     [[(ScopeKeyTmpFileID, ObjInt 1), (ScopeKeyLastOutFileTable, ObjTable 0),
       (ScopeKeyColumnUniqID, ObjInt 1), (ScopeKeyTableUniqID, ObjInt 1)]]\<rparr>"


text \<open>A profile under which the entry production can only choose \<^verbatim>\<open>flashBackTable\<close>, and the
  state after that production has run on the one table of the catalog.\<close>

definition ctrl_flashback :: ControlOption where
  "ctrl_flashback = ctrl0\<lparr>Weight := weight0\<lparr>Query := 1\<rparr>, CanReadGCSavePoint := True\<rparr>"

definition state_flashback :: State where
  "state_flashback = (state1 ctrl_flashback [0,0])\<lparr>rnd := (draws [0,0])\<lparr>pos := 2\<rparr>,
     todoSQLs := [''flashback table t0'']\<rparr>"



section \<open>Notions used to state and prove the properties\<close>

text \<open>
  \<open>keeps R m\<close>: every run of \<open>m\<close> that returns relates the state before to the state after.
  \<open>frame_rel R\<close>: the relation is reflexive and transitive and does not look at the scope
  store or at the random generator, so the combinators keep it whenever their children do.
\<close>

definition keeps :: "(State \<Rightarrow> State \<Rightarrow> bool) \<Rightarrow> 'a M \<Rightarrow> bool" where
  "keeps R m = (\<forall>st x st'. m st = Inr (x, st') \<longrightarrow> R st st')"

definition frame_rel :: "(State \<Rightarrow> State \<Rightarrow> bool) \<Rightarrow> bool" where
  "frame_rel R = ((\<forall>s. R s s) \<and> (\<forall>s t u. R s t \<longrightarrow> R t u \<longrightarrow> R s u) \<and>
     (\<forall>s t fs. R s t \<longrightarrow> R s (t\<lparr>scope := fs\<rparr>)) \<and> (\<forall>s t fs. R s t \<longrightarrow> R (s\<lparr>scope := fs\<rparr>) t) \<and>
     (\<forall>s t r. R s t \<longrightarrow> R s (t\<lparr>rnd := r\<rparr>)))"

definition keepsF :: "(State \<Rightarrow> State \<Rightarrow> bool) \<Rightarrow> Fn \<Rightarrow> bool" where
  "keepsF R f = keeps R (Eval f)"

definition keepsB :: "(State \<Rightarrow> State \<Rightarrow> bool) \<Rightarrow> Fn M \<Rightarrow> bool" where
  "keepsB R b = (\<forall>st g st'. b st = Inr (g, st') \<longrightarrow> R st st' \<and> keepsF R g)"

named_theorems keep "rules that show a relation is kept"

named_theorems run "equations that run a computation on a given state"


text \<open>The catalog is the same list of tables and the two limits on its length are the same.\<close>

definition same_cat :: "State \<Rightarrow> State \<Rightarrow> bool" where
  "same_cat st st' = (tables st' = tables st \<and>
     MaxTableNum (ctrl st') = MaxTableNum (ctrl st) \<and>
     InitTableCount (ctrl st') = InitTableCount (ctrl st))"


text \<open>
  \<open>tbl_rel a P\<close>: the heap keeps its length, the catalog list, the options and the
  initialization flag are the same, and the table at address \<open>a\<close> has changed as \<open>P\<close> allows.
\<close>

definition tbl_rel :: "TableRef \<Rightarrow> (Table \<Rightarrow> Table \<Rightarrow> bool) \<Rightarrow> State \<Rightarrow> State \<Rightarrow> bool" where
  "tbl_rel a P st st' = (length (heap st') = length (heap st) \<and> tables st' = tables st \<and>
     ctrl st' = ctrl st \<and> initialized st' = initialized st \<and>
     (a < length (heap st) \<longrightarrow> P (heap st ! a) (heap st' ! a)))"

text \<open>Every unique or primary index of the table contains every partition column of the
  table.\<close>

definition unique_has_partition :: "Table \<Rightarrow> bool" where
  "unique_has_partition t =
     (\<forall>idx\<in>set (Indices t). IsUnique idx \<longrightarrow> set (PartitionColumns t) \<subseteq> set (idx_Columns idx))"

text \<open>What the three parts of \<^verbatim>\<open>createTable\<close> may change in the new table: the column
  definitions only the columns, the partition clause only the partition columns, the index
  definitions only the indices, and these keep \<open>unique_has_partition\<close>.\<close>

definition columns_only :: "Table \<Rightarrow> Table \<Rightarrow> bool" where
  "columns_only t t' = (Indices t' = Indices t \<and> PartitionColumns t' = PartitionColumns t)"

definition partition_only :: "Table \<Rightarrow> Table \<Rightarrow> bool" where
  "partition_only t t' = (Indices t' = Indices t \<and> Columns t' = Columns t)"

definition indices_only :: "Table \<Rightarrow> Table \<Rightarrow> bool" where
  "indices_only t t' = (Columns t' = Columns t \<and> PartitionColumns t' = PartitionColumns t \<and>
     (unique_has_partition t \<longrightarrow> unique_has_partition t'))"

text \<open>\<open>rnd_only m\<close>: a run of \<open>m\<close> that returns has only drawn random numbers. \<open>plain g\<close>: evaluating
  the node \<open>g\<close> leaves the state as it is. \<open>plainB b\<close>: the body \<open>b\<close> only draws random numbers
  and returns a plain node.\<close>

definition rnd_only :: "'a M \<Rightarrow> bool" where
  "rnd_only m = (\<forall>st x st'. m st = Inr (x, st') \<longrightarrow> (\<exists>r. st' = st\<lparr>rnd := r\<rparr>))"

definition plain :: "Fn \<Rightarrow> bool" where
  "plain g = (\<forall>st out st'. Eval g st = Inr (out, st') \<longrightarrow> st' = st)"

definition plainB :: "Fn M \<Rightarrow> bool" where
  "plainB b = (\<forall>st g st'. b st = Inr (g, st') \<longrightarrow> (\<exists>r. st' = st\<lparr>rnd := r\<rparr>) \<and> plain g)"

section \<open>Reasoning about runs\<close>

subsection \<open>Unfolding a run step by step\<close>

lemma ret_app [run]: "ret x st = Inr (x, st)"
  by (simp add: ret_def)

lemma bnd_app [run]:
  "bnd m k st = (case m st of Inl e \<Rightarrow> Inl e | Inr p \<Rightarrow> k (fst p) (snd p))"
  by (simp add: bnd_def split: sum.splits prod.splits)

lemma panic_app [run]: "panic msg st = Inl (Panic msg)"
  by (simp add: panic_def)

lemma gets_app [run]: "gets f st = Inr (f st, st)"
  by (simp add: gets_def)

lemma modify_app [run]: "modify f st = Inr ((), f st)"
  by (simp add: modify_def)

lemma when_do_app [run]: "when_do b m st = (if b then m st else Inr ((), st))"
  by (simp add: when_do_def ret_def)

lemma Assert_app [run]:
  "Assert b st = (if b then Inr ((), st) else Inl (Panic ''assertion failed''))"
  by (simp add: Assert_def ret_def panic_def)

lemma index_app [run]:
  "index xs i st = (if 0 \<le> i \<and> i < int (length xs) then Inr (xs ! nat i, st)
                    else Inl (Panic ''index out of range''))"
  by (simp add: index_def ret_def panic_def)

lemma liftR_app [run]:
  "liftR f st = (case f (rnd st) of Inl e \<Rightarrow> Inl e | Inr p \<Rightarrow> Inr (fst p, st\<lparr>rnd := snd p\<rparr>))"
  by (simp add: liftR_def split: sum.splits prod.splits)

lemma liftE_app [run]:
  "liftE v st = (case v of Inl e \<Rightarrow> Inl e | Inr x \<Rightarrow> Inr (x, st))"
  by (simp add: liftE_def)

lemma Eval_app [run]:
  "Eval f st = (case Gen f (st\<lparr>scope := [] # scope st\<rparr>) of
       Inl e \<Rightarrow> Inl e
     | Inr p \<Rightarrow> Inr (fst p, (snd p)\<lparr>scope := tl (scope (snd p))\<rparr>))"
  by (simp add: Eval_def bnd_def CreateScope_def DestroyScope_def modify_def ret_def
           split: sum.splits prod.splits)

lemma Gen_NewFn [run]: "Gen (NewFn body) = bnd body Eval"
  by (simp add: NewFn_def)

lemma Gen_Str [run]: "Gen (Str s) = ret s"
  by (simp add: Str_def)

lemma Gen_Strs [run]: "Gen (Strs ss) = ret (join '' '' ss)"
  by (simp add: Strs_def)

lemma Gen_Empty [run]: "Gen Empty = ret []"
  by (simp add: Empty_def)

lemma Gen_SetW [run]: "Gen (SetW w f) = Gen f"
  by (simp add: SetW_def)

lemma Gen_If [run]: "Gen (If' c f) = (if c then Gen f else ret [])"
  by (simp add: If'_def)

lemma Gen_And [run]: "Gen (And fs) = bnd (mapM Eval fs) (\<lambda>ss. ret (join '' '' ss))"
  by (simp add: And_def)

lemma Gen_Or [run]:
  "Gen (Or fs) =
     (if sum_list (map eff_weight fs) = 0 then ret []
      else bnd (Intn (sum_list (map eff_weight fs))) (\<lambda>r.
           case pick fs r of Some f \<Rightarrow> Eval f | None \<Rightarrow> panic ''no child chosen''))"
  by (simp add: Or_def Let_def)

lemma Gen_RepeatRange [run]:
  "Gen (RepeatRange lo hi f sep) = bnd (Intn (hi - lo + 1)) (\<lambda>r. Gen (Repeat f (lo + r) sep))"
  by (simp add: RepeatRange_def)

lemma eff_weight_simps [run]:
  "eff_weight (NewFn body) = 1"
  "eff_weight (Str s) = 1"
  "eff_weight (Strs ss) = 1"
  "eff_weight Empty = 1"
  "eff_weight (And fs) = 1"
  "eff_weight (Or fs) = 1"
  "eff_weight (RepeatRange lo hi f sep) = 1"
  "eff_weight (SetW w f) = (if fn_Live f \<and> 0 < w then w else 0)"
  "eff_weight (If' c f) = (if c then eff_weight f else 0)"
  by (simp_all add: eff_weight_def NewFn_def Str_def Strs_def Empty_def And_def Or_def
        RepeatRange_def SetW_def If'_def)

lemma fn_Live_simps [run]:
  "fn_Live (NewFn body) = True"
  "fn_Live (Str s) = True"
  "fn_Live (Strs ss) = True"
  "fn_Live Empty = True"
  "fn_Live (And fs) = True"
  "fn_Live (Or fs) = True"
  "fn_Live (RepeatRange lo hi f sep) = True"
  "fn_Live (SetW w f) = fn_Live f"
  "fn_Live (If' c f) = (c \<and> fn_Live f)"
  by (simp_all add: NewFn_def Str_def Strs_def Empty_def And_def Or_def
        RepeatRange_def SetW_def If'_def)

lemma Intn_app [run]:
  "Intn n st = (if n \<le> 0 then Inl (Panic ''invalid argument to Intn'')
       else Inr (int (src (rnd st) (pos (rnd st))) mod n,
                 st\<lparr>rnd := (rnd st)\<lparr>pos := pos (rnd st) + 1\<rparr>\<rparr>))"
  by (simp add: Intn_def)

lemma RandomBool_app [run]:
  "RandomBool st = (case Intn 2 st of Inl e \<Rightarrow> Inl e | Inr p \<Rightarrow> Inr (fst p = 0, snd p))"
  by (simp add: RandomBool_def bnd_def ret_def split: sum.splits prod.splits)

lemma RandomNum_app [run]:
  "RandomNum lo hi st =
     (case Intn (hi - lo + 1) st of Inl e \<Rightarrow> Inl e | Inr p \<Rightarrow> Inr (itoa (lo + fst p), snd p))"
  by (simp add: RandomNum_def bnd_def ret_def split: sum.splits prod.splits)

lemma Search_app [run]: "Search k st = Inr (lookup_frames (scope st) k, st)"
  by (simp add: Search_def gets_def)

lemma Store_app [run]:
  "Store k v st = (case scope st of
       [] \<Rightarrow> Inl (Panic ''no scope frame'')
     | f # fs \<Rightarrow> Inr ((), st\<lparr>scope := ((k, v) # f) # fs\<rparr>))"
  by (simp add: Store_def)

lemma StoreInParent_app [run]:
  "StoreInParent k v st = (case scope st of
       f # p # fs \<Rightarrow> Inr ((), st\<lparr>scope := f # ((k, v) # p) # fs\<rparr>)
     | _ \<Rightarrow> Inl (Panic ''no parent scope frame''))"
  by (simp add: StoreInParent_def)

lemma StoreInRoot_app [run]:
  "StoreInRoot k v st = (case scope st of
       [] \<Rightarrow> Inl (Panic ''no scope frame'')
     | f # fs \<Rightarrow> Inr ((), st\<lparr>scope := butlast (f # fs) @ [(k, v) # last (f # fs)]\<rparr>))"
  by (simp add: StoreInRoot_def)

lemma AllocGlobalID_app [run]:
  "AllocGlobalID k st = (case scope st of
       [] \<Rightarrow> Inl (Panic ''no scope frame'')
     | f # fs \<Rightarrow>
        (let result = (case map_of (last (f # fs)) k of Some (ObjInt n) \<Rightarrow> n | _ \<Rightarrow> 0)
         in Inr (result, st\<lparr>scope := butlast (f # fs) @ [(k, ObjInt (result + 1)) # last (f # fs)]\<rparr>)))"
  by (simp add: AllocGlobalID_def Let_def bnd_def gets_def ret_def StoreInRoot_def
           split: list.splits)

lemma ToTable_app [run]:
  "ToTable v st = (case v of ObjTable a \<Rightarrow> Inr (a, st)
                   | _ \<Rightarrow> Inl (Panic ''scope value is not a table''))"
  by (cases v) (simp_all add: ToTable_def ret_def panic_def)

lemma ToTables_app [run]:
  "ToTables v st = (case v of ObjTables as \<Rightarrow> Inr (as, st)
                    | _ \<Rightarrow> Inl (Panic ''scope value is not a table list''))"
  by (cases v) (simp_all add: ToTables_def ret_def panic_def)

lemma ToPrepare_app [run]:
  "ToPrepare v st = (case v of ObjPrepare a \<Rightarrow> Inr (a, st)
                     | _ \<Rightarrow> Inl (Panic ''scope value is not a prepare''))"
  by (cases v) (simp_all add: ToPrepare_def ret_def panic_def)

lemma ToColumn_app [run]:
  "ToColumn v st = (case v of ObjColumn c \<Rightarrow> Inr (Some c, st)
                    | _ \<Rightarrow> Inl (Panic ''scope value is not a column''))"
  by (cases v) (simp_all add: ToColumn_def ret_def panic_def)

lemma ToInt_app [run]:
  "ToInt v st = (case v of ObjInt i \<Rightarrow> Inr (i, st)
                 | _ \<Rightarrow> Inl (Panic ''scope value is not an int''))"
  by (cases v) (simp_all add: ToInt_def ret_def panic_def)

lemma new_table_app [run]: "new_table t st = Inr (length (heap st), st\<lparr>heap := heap st @ [t]\<rparr>)"
  by (simp add: new_table_def)

lemma deref_app [run]:
  "deref a st = (if a < length (heap st) then Inr (heap st ! a, st)
                 else Inl (Panic ''nil pointer dereference''))"
  by (simp add: deref_def)

lemma update_table_app [run]:
  "update_table a f st = (if a < length (heap st)
       then Inr ((), st\<lparr>heap := (heap st)[a := f (heap st ! a)]\<rparr>)
       else Inl (Panic ''nil pointer dereference''))"
  by (simp add: update_table_def)

lemma new_prepare_app [run]:
  "new_prepare p st = Inr (length (pheap st), st\<lparr>pheap := pheap st @ [p]\<rparr>)"
  by (simp add: new_prepare_def)

lemma deref_prepare_app [run]:
  "deref_prepare a st = (if a < length (pheap st) then Inr (pheap st ! a, st)
                 else Inl (Panic ''nil pointer dereference''))"
  by (simp add: deref_prepare_def)

lemma update_prepare_app [run]:
  "update_prepare a f st = (if a < length (pheap st)
       then Inr ((), st\<lparr>pheap := (pheap st)[a := f (pheap st ! a)]\<rparr>)
       else Inl (Panic ''nil pointer dereference''))"
  by (simp add: update_prepare_def)

lemma tblR_app [run]:
  "tblR f a st = (if a < length (heap st) then liftR (f (heap st ! a)) st
                  else Inl (Panic ''nil pointer dereference''))"
  by (simp add: tblR_def bnd_def deref_def)

lemma AppendIndexM_app [run]:
  "AppendIndexM a idx st = (if a < length (heap st)
       then Inr (last (Indices (AppendIndex idx (heap st ! a))),
                 st\<lparr>heap := (heap st)[a := AppendIndex idx (heap st ! a)]\<rparr>)
       else Inl (Panic ''nil pointer dereference''))"
  by (simp add: AppendIndexM_def bnd_def update_table_def deref_def ret_def)

lemma PopOneTodoSQL_app [run]:
  "PopOneTodoSQL st = (case todoSQLs st of
       [] \<Rightarrow> Inr (None, st)
     | s # q \<Rightarrow> Inr (Some s, st\<lparr>todoSQLs := q\<rparr>))"
  by (simp add: PopOneTodoSQL_def)

lemma InjectTodoSQL_app [run]:
  "InjectTodoSQL s st = Inr ((), st\<lparr>todoSQLs := todoSQLs st @ [s]\<rparr>)"
  by (simp add: InjectTodoSQL_def modify_def)

lemma Initialized_app [run]: "Initialized st = Inr (initialized st, st)"
  by (simp add: Initialized_def gets_def)

lemma SetInitialized_app [run]: "SetInitialized st = Inr ((), st\<lparr>initialized := True\<rparr>)"
  by (simp add: SetInitialized_def modify_def)

lemma MeetInitializedDemand_app [run]:
  "MeetInitializedDemand st =
     Inr (InitTableCount (ctrl st) \<le> int (length (tables st)) \<and>
          list_all (has_rows st) (tables st), st)"
  by (simp add: MeetInitializedDemand_def gets_def)

lemma AppendTable_app [run]: "AppendTable a st = Inr ((), st\<lparr>tables := tables st @ [a]\<rparr>)"
  by (simp add: AppendTable_def modify_def)

lemma GetRandTable_app [run]:
  "GetRandTable st = (case Intn (int (length (tables st))) st of
       Inl e \<Rightarrow> Inl e
     | Inr p \<Rightarrow> Inr (tables st ! nat (fst p), snd p))"
  by (auto simp: GetRandTable_def bnd_def gets_def index_def ret_def panic_def Intn_def
           split: sum.splits)

lemma GetFirstNonFullTable_app [run]:
  "GetFirstNonFullTable st = Inr (find (\<lambda>a. \<not> has_rows st a) (tables st), st)"
  by (simp add: GetFirstNonFullTable_def gets_def)

lemma mapM_app [run]:
  "mapM f [] st = Inr ([], st)"
  "mapM f (x # xs) st = (case f x st of Inl e \<Rightarrow> Inl e
     | Inr p \<Rightarrow> (case mapM f xs (snd p) of Inl e \<Rightarrow> Inl e
                  | Inr q \<Rightarrow> Inr (fst p # fst q, snd q)))"
  by (simp_all add: mapM.simps bnd_def ret_def split: sum.splits prod.splits)

lemma replicate_numeral [run]: "replicate (numeral k) x = x # replicate (pred_numeral k) x"
  by (simp add: numeral_eq_Suc)

lemma Repeat_app [run]: "Gen (Repeat f n sep) = Gen (And (intersperse sep (replicate (nat n) f)))"
  by (simp add: Repeat_def)

lemma Gen_Opt [run]: "Gen (Opt f) = Gen (Or [Empty, f])"
  by (simp add: Opt_def)

lemma Gen_OptIf [run]: "Gen (OptIf c f) = (if c then Gen (Or [Empty, f]) else ret [])"
  by (simp add: OptIf_def Opt_def Empty_def)

lemma eff_weight_more [run]:
  "eff_weight (Opt f) = 1"
  "eff_weight (OptIf c f) = 1"
  "eff_weight (Repeat f n sep) = 1"
  "fn_Live (Opt f) = True"
  "fn_Live (OptIf c f) = True"
  "fn_Live (Repeat f n sep) = True"
  by (simp_all add: eff_weight_def Opt_def OptIf_def Repeat_def Or_def And_def Empty_def)

subsection \<open>Inversion of a successful run\<close>

lemma bnd_Inr:
  "(bnd m k st = Inr r) = (\<exists>x st1. m st = Inr (x, st1) \<and> k x st1 = Inr r)"
  by (auto simp: bnd_def split: sum.splits)

lemma Eval_Inr:
  "(Eval f st = Inr (s, st')) =
     (\<exists>st1. Gen f (st\<lparr>scope := [] # scope st\<rparr>) = Inr (s, st1) \<and> st' = st1\<lparr>scope := tl (scope st1)\<rparr>)"
  by (auto simp: Eval_app split: sum.splits)

subsection \<open>Relations kept by every successful run\<close>

lemma keepsD: "keeps R m \<Longrightarrow> m st = Inr (x, st') \<Longrightarrow> R st st'"
  by (auto simp: keeps_def)

lemma keepsFD: "keepsF R f \<Longrightarrow> Eval f st = Inr (x, st') \<Longrightarrow> R st st'"
  by (auto simp: keepsF_def keeps_def)

lemma frame_refl: "frame_rel R \<Longrightarrow> R s s"
  by (simp add: frame_rel_def)

lemma frame_trans: "frame_rel R \<Longrightarrow> R s t \<Longrightarrow> R t u \<Longrightarrow> R s u"
  unfolding frame_rel_def by blast

lemma frame_scope: "frame_rel R \<Longrightarrow> R s t \<Longrightarrow> R s (t\<lparr>scope := fs\<rparr>)"
  unfolding frame_rel_def by blast

lemma frame_scope_pre: "frame_rel R \<Longrightarrow> R s t \<Longrightarrow> R (s\<lparr>scope := fs\<rparr>) t"
  unfolding frame_rel_def by blast

lemma frame_rnd: "frame_rel R \<Longrightarrow> R s t \<Longrightarrow> R s (t\<lparr>rnd := r\<rparr>)"
  unfolding frame_rel_def by blast

lemma keeps_ret [keep]: "frame_rel R \<Longrightarrow> keeps R (ret x)"
  by (auto simp: keeps_def ret_def frame_refl)

lemma keeps_panic [keep]: "keeps R (panic msg)"
  by (simp add: keeps_def panic_def)

lemma keeps_bnd [keep]:
  assumes "frame_rel R" "keeps R m" "\<And>x. keeps R (k x)"
  shows "keeps R (bnd m k)"
  unfolding keeps_def
proof (intro allI impI)
  fix st y st'
  assume "bnd m k st = Inr (y, st')"
  then obtain x st1 where 1: "m st = Inr (x, st1)" and 2: "k x st1 = Inr (y, st')"
    by (auto simp: bnd_Inr)
  from assms(2) 1 have "R st st1" by (rule keepsD)
  moreover from assms(3) 2 have "R st1 st'" by (rule keepsD)
  ultimately show "R st st'" using assms(1) by (blast intro: frame_trans)
qed

lemma keeps_gets [keep]: "frame_rel R \<Longrightarrow> keeps R (gets f)"
  by (auto simp: keeps_def gets_def frame_refl)

lemma keeps_modify: "(\<And>s. R s (f s)) \<Longrightarrow> keeps R (modify f)"
  by (auto simp: keeps_def modify_def)

lemma keeps_if [keep]: "keeps R a \<Longrightarrow> keeps R b \<Longrightarrow> keeps R (if c then a else b)"
  by simp

lemma keeps_case_option [keep]:
  "keeps R a \<Longrightarrow> (\<And>y. keeps R (b y)) \<Longrightarrow> keeps R (case x of None \<Rightarrow> a | Some y \<Rightarrow> b y)"
  by (cases x) simp_all

lemma keeps_case_list [keep]:
  "keeps R a \<Longrightarrow> (\<And>y ys. keeps R (b y ys)) \<Longrightarrow> keeps R (case x of [] \<Rightarrow> a | y # ys \<Rightarrow> b y ys)"
  by (cases x) simp_all

lemma keeps_case_prod [keep]:
  "(\<And>a b. keeps R (f a b)) \<Longrightarrow> keeps R (case p of (a, b) \<Rightarrow> f a b)"
  by (cases p) simp

lemma keeps_when_do [keep]: "frame_rel R \<Longrightarrow> keeps R m \<Longrightarrow> keeps R (when_do b m)"
  by (simp add: when_do_def keeps_ret)

lemma keeps_Assert [keep]: "frame_rel R \<Longrightarrow> keeps R (Assert b)"
  by (simp add: Assert_def keeps_ret keeps_panic)

lemma keeps_index [keep]: "frame_rel R \<Longrightarrow> keeps R (index xs i)"
  by (simp add: index_def keeps_ret keeps_panic)

lemma keeps_mapM [keep]:
  assumes "frame_rel R" "\<And>x. keeps R (f x)"
  shows "keeps R (mapM f xs)"
  by (induction xs) (auto simp: mapM.simps intro!: keeps_bnd keeps_ret assms)

lemma keeps_Intn [keep]: "frame_rel R \<Longrightarrow> keeps R (Intn n)"
  by (auto simp: keeps_def Intn_def frame_refl frame_rnd split: if_splits)

lemma keeps_RandomBool [keep]: "frame_rel R \<Longrightarrow> keeps R RandomBool"
  by (simp add: RandomBool_def keeps_bnd keeps_Intn keeps_ret)

lemma keeps_RandomNum [keep]: "frame_rel R \<Longrightarrow> keeps R (RandomNum lo hi)"
  by (simp add: RandomNum_def keeps_bnd keeps_Intn keeps_ret)

lemma keeps_liftR [keep]: "frame_rel R \<Longrightarrow> keeps R (liftR f)"
  by (auto simp: keeps_def liftR_def frame_refl frame_rnd split: sum.splits)

lemma keeps_liftE [keep]: "frame_rel R \<Longrightarrow> keeps R (liftE v)"
  by (auto simp: keeps_def liftE_def frame_refl split: sum.splits)

lemma keeps_Search [keep]: "frame_rel R \<Longrightarrow> keeps R (Search k)"
  by (simp add: Search_def keeps_gets)

lemma keeps_Store [keep]: "frame_rel R \<Longrightarrow> keeps R (Store k v)"
  by (auto simp: keeps_def Store_def frame_refl frame_scope split: list.splits)

lemma keeps_StoreInParent [keep]: "frame_rel R \<Longrightarrow> keeps R (StoreInParent k v)"
  by (auto simp: keeps_def StoreInParent_def frame_refl frame_scope split: list.splits)

lemma keeps_StoreInRoot [keep]: "frame_rel R \<Longrightarrow> keeps R (StoreInRoot k v)"
  by (auto simp: keeps_def StoreInRoot_def frame_refl frame_scope split: list.splits)

lemma keeps_AllocGlobalID [keep]: "frame_rel R \<Longrightarrow> keeps R (AllocGlobalID k)"
  by (simp add: AllocGlobalID_def Let_def keeps_bnd keeps_gets keeps_StoreInRoot keeps_ret)

lemma keeps_ToTable [keep]: "frame_rel R \<Longrightarrow> keeps R (ToTable v)"
  by (cases v) (simp_all add: ToTable_def keeps_ret keeps_panic)

lemma keeps_ToTables [keep]: "frame_rel R \<Longrightarrow> keeps R (ToTables v)"
  by (cases v) (simp_all add: ToTables_def keeps_ret keeps_panic)

lemma keeps_ToPrepare [keep]: "frame_rel R \<Longrightarrow> keeps R (ToPrepare v)"
  by (cases v) (simp_all add: ToPrepare_def keeps_ret keeps_panic)

lemma keeps_ToColumn [keep]: "frame_rel R \<Longrightarrow> keeps R (ToColumn v)"
  by (cases v) (simp_all add: ToColumn_def keeps_ret keeps_panic)

lemma keeps_ToInt [keep]: "frame_rel R \<Longrightarrow> keeps R (ToInt v)"
  by (cases v) (simp_all add: ToInt_def keeps_ret keeps_panic)

lemma keeps_deref [keep]: "frame_rel R \<Longrightarrow> keeps R (deref a)"
  by (auto simp: keeps_def deref_def frame_refl split: if_splits)

lemma keeps_deref_prepare [keep]: "frame_rel R \<Longrightarrow> keeps R (deref_prepare a)"
  by (auto simp: keeps_def deref_prepare_def frame_refl split: if_splits)

lemma keeps_tblR [keep]: "frame_rel R \<Longrightarrow> keeps R (tblR f a)"
  by (simp add: tblR_def keeps_bnd keeps_deref keeps_liftR)

lemma keeps_Initialized [keep]: "frame_rel R \<Longrightarrow> keeps R Initialized"
  by (simp add: Initialized_def keeps_gets)

lemma keeps_MeetInitializedDemand [keep]: "frame_rel R \<Longrightarrow> keeps R MeetInitializedDemand"
  by (simp add: MeetInitializedDemand_def keeps_gets)

lemma keeps_GetFirstNonFullTable [keep]: "frame_rel R \<Longrightarrow> keeps R GetFirstNonFullTable"
  by (simp add: GetFirstNonFullTable_def keeps_gets)

lemma keeps_GetRandTable [keep]: "frame_rel R \<Longrightarrow> keeps R GetRandTable"
  by (simp add: GetRandTable_def keeps_bnd keeps_gets keeps_Intn keeps_index)

lemma keeps_GetRandPrepare [keep]: "frame_rel R \<Longrightarrow> keeps R GetRandPrepare"
  by (simp add: GetRandPrepare_def keeps_bnd keeps_gets keeps_Intn keeps_index)

lemma keeps_getTable [keep]: "frame_rel R \<Longrightarrow> keeps R getTable"
  by (simp add: getTable_def Let_def keeps_bnd keeps_Search keeps_ToTables keeps_ToTable
        keeps_RandomBool keeps_index)

lemma keeps_pickJoinColumn [keep]: "frame_rel R \<Longrightarrow> keeps R (pickJoinColumn L p a)"
  by (simp add: pickJoinColumn_def keeps_tblR)

lemma keeps_compatibleColumn [keep]:
  "frame_rel R \<Longrightarrow> keeps R (compatibleColumn L p a c n d)"
  by (induction n arbitrary: d) (simp_all add: keeps_ret keeps_bnd keeps_pickJoinColumn)

lemma keeps_Eval [keep]: "keepsF R f \<Longrightarrow> keeps R (Eval f)"
  by (simp add: keepsF_def)

lemma keepsF_Gen:
  assumes "frame_rel R" "keeps R (Gen f)"
  shows "keepsF R f"
  unfolding keepsF_def keeps_def
proof (intro allI impI)
  fix st x st'
  assume "Eval f st = Inr (x, st')"
  then obtain st1 where 1: "Gen f (st\<lparr>scope := [] # scope st\<rparr>) = Inr (x, st1)"
    and 2: "st' = st1\<lparr>scope := tl (scope st1)\<rparr>"
    by (auto simp: Eval_Inr)
  from assms(2) 1 have "R (st\<lparr>scope := [] # scope st\<rparr>) st1" by (rule keepsD)
  then have "R (st\<lparr>scope := [] # scope st, scope := scope st\<rparr>) st1"
    using assms(1) by (rule frame_scope_pre[rotated])
  then have "R st st1" by simp
  then show "R st st'" unfolding 2 using assms(1) by (rule frame_scope[rotated])
qed

lemma keepsF_NewFn [keep]:
  assumes "frame_rel R" "keepsB R body"
  shows "keepsF R (NewFn body)"
proof (rule keepsF_Gen [OF assms(1)])
  show "keeps R (Gen (NewFn body))"
    unfolding keeps_def Gen_NewFn
  proof (intro allI impI)
    fix st x st'
    assume "bnd body Eval st = Inr (x, st')"
    then obtain g st1 where 1: "body st = Inr (g, st1)" and 2: "Eval g st1 = Inr (x, st')"
      by (auto simp: bnd_Inr)
    from assms(2) 1 have "R st st1" "keepsF R g" by (auto simp: keepsB_def)
    with 2 show "R st st'" using assms(1) by (blast intro: frame_trans keepsFD)
  qed
qed

lemma keepsF_Str [keep]: "frame_rel R \<Longrightarrow> keepsF R (Str s)"
  by (rule keepsF_Gen) (simp_all add: Gen_Str keeps_ret)

lemma keepsF_Strs [keep]: "frame_rel R \<Longrightarrow> keepsF R (Strs ss)"
  by (rule keepsF_Gen) (simp_all add: Gen_Strs keeps_ret)

lemma keepsF_Empty [keep]: "frame_rel R \<Longrightarrow> keepsF R Empty"
  by (rule keepsF_Gen) (simp_all add: Gen_Empty keeps_ret)

lemma keepsF_NeverReach [keep]: "frame_rel R \<Longrightarrow> keepsF R NeverReach"
  by (rule keepsF_Gen) (simp_all add: NeverReach_def keeps_panic)

lemma keepsF_SetW [keep]: "keepsF R f \<Longrightarrow> keepsF R (SetW w f)"
  by (simp add: keepsF_def Eval_def Gen_SetW)

lemma keepsF_If [keep]: "frame_rel R \<Longrightarrow> keepsF R f \<Longrightarrow> keepsF R (If' c f)"
  by (cases c) (auto simp: If'_def intro!: keepsF_Gen keeps_ret)

lemma keeps_mapM_Eval:
  assumes "frame_rel R" "\<And>f. f \<in> set fs \<Longrightarrow> keepsF R f"
  shows "keeps R (mapM Eval fs)"
  using assms(2)
proof (induction fs)
  case Nil
  then show ?case by (simp add: mapM.simps keeps_ret assms(1))
next
  case (Cons g gs)
  then show ?case
    by (auto simp: mapM.simps intro!: keeps_bnd keeps_ret keeps_Eval assms(1))
qed

lemma keeps_Gen_And:
  assumes "frame_rel R" "\<And>f. f \<in> set fs \<Longrightarrow> keepsF R f"
  shows "keeps R (Gen (And fs))"
  unfolding Gen_And
  by (intro keeps_bnd keeps_ret keeps_mapM_Eval assms)

lemma keepsF_And_set:
  assumes "frame_rel R" "\<And>f. f \<in> set fs \<Longrightarrow> keepsF R f"
  shows "keepsF R (And fs)"
proof (rule keepsF_Gen [OF assms(1)])
  show "keeps R (Gen (And fs))"
    using assms by (rule keeps_Gen_And)
qed

lemma pick_in_set: "pick fs r = Some f \<Longrightarrow> f \<in> set fs"
  by (induction fs arbitrary: r) (auto split: if_splits)

lemma keepsF_Or_set:
  assumes "frame_rel R" "\<And>f. f \<in> set fs \<Longrightarrow> keepsF R f"
  shows "keepsF R (Or fs)"
proof (rule keepsF_Gen [OF assms(1)])
  have "keeps R (case pick fs r of Some f \<Rightarrow> Eval f | None \<Rightarrow> panic ''no child chosen'')" for r
    by (cases "pick fs r") (auto simp: keeps_panic dest!: pick_in_set intro!: keeps_Eval assms(2))
  then show "keeps R (Gen (Or fs))"
    by (auto simp: Gen_Or intro!: keeps_bnd keeps_ret keeps_Intn assms(1))
qed

lemma keepsF_And [keep]: "frame_rel R \<Longrightarrow> list_all (keepsF R) fs \<Longrightarrow> keepsF R (And fs)"
  by (rule keepsF_And_set) (auto simp: list_all_iff)

lemma keepsF_Or [keep]: "frame_rel R \<Longrightarrow> list_all (keepsF R) fs \<Longrightarrow> keepsF R (Or fs)"
  by (rule keepsF_Or_set) (auto simp: list_all_iff)

lemma keepsF_Opt [keep]: "frame_rel R \<Longrightarrow> keepsF R f \<Longrightarrow> keepsF R (Opt f)"
  unfolding Opt_def by (rule keepsF_Or) (auto simp: keepsF_Empty)

lemma keepsF_OptIf [keep]: "frame_rel R \<Longrightarrow> keepsF R f \<Longrightarrow> keepsF R (OptIf c f)"
  by (simp add: OptIf_def keepsF_Opt keepsF_Empty)

lemma set_intersperse: "set (intersperse sep xs) \<subseteq> insert sep (set xs)"
  by (induction sep xs rule: intersperse.induct) auto

lemma keeps_Gen_Repeat:
  assumes "frame_rel R" "keepsF R f" "keepsF R sep"
  shows "keeps R (Gen (Repeat f n sep))"
  unfolding Repeat_def
proof (rule keeps_Gen_And [OF assms(1)])
  fix g
  assume "g \<in> set (intersperse sep (replicate (nat n) f))"
  then have "g = sep \<or> g = f"
    using set_intersperse [of sep "replicate (nat n) f"] by auto
  then show "keepsF R g" using assms by auto
qed

lemma keepsF_Repeat [keep]:
  "frame_rel R \<Longrightarrow> keepsF R f \<Longrightarrow> keepsF R sep \<Longrightarrow> keepsF R (Repeat f n sep)"
  by (rule keepsF_Gen) (simp_all add: keeps_Gen_Repeat)

lemma keepsF_RepeatRange [keep]:
  "frame_rel R \<Longrightarrow> keepsF R f \<Longrightarrow> keepsF R sep \<Longrightarrow> keepsF R (RepeatRange lo hi f sep)"
  by (rule keepsF_Gen) (auto simp: Gen_RepeatRange intro!: keeps_bnd keeps_Intn keeps_Gen_Repeat)

subsection \<open>Bodies of productions\<close>

lemma keepsB_ret [keep]: "frame_rel R \<Longrightarrow> keepsF R g \<Longrightarrow> keepsB R (ret g)"
  by (auto simp: keepsB_def ret_def frame_refl)

lemma keepsB_panic [keep]: "keepsB R (panic msg)"
  by (simp add: keepsB_def panic_def)

lemma keepsB_bnd [keep]:
  assumes "frame_rel R" "keeps R m" "\<And>x. keepsB R (k x)"
  shows "keepsB R (bnd m k)"
  unfolding keepsB_def
proof (intro allI impI)
  fix st g st'
  assume "bnd m k st = Inr (g, st')"
  then obtain x st1 where 1: "m st = Inr (x, st1)" and 2: "k x st1 = Inr (g, st')"
    by (auto simp: bnd_Inr)
  from assms(2) 1 have "R st st1" by (rule keepsD)
  moreover from assms(3) 2 have "R st1 st'" "keepsF R g" by (auto simp: keepsB_def)
  ultimately show "R st st' \<and> keepsF R g" using assms(1) by (blast intro: frame_trans)
qed

lemma keepsB_if [keep]: "keepsB R a \<Longrightarrow> keepsB R b \<Longrightarrow> keepsB R (if c then a else b)"
  by simp

lemma keepsB_case_option [keep]:
  "keepsB R a \<Longrightarrow> (\<And>y. keepsB R (b y)) \<Longrightarrow> keepsB R (case x of None \<Rightarrow> a | Some y \<Rightarrow> b y)"
  by (cases x) simp_all

lemma keepsB_case_list [keep]:
  "keepsB R a \<Longrightarrow> (\<And>y ys. keepsB R (b y ys)) \<Longrightarrow> keepsB R (case x of [] \<Rightarrow> a | y # ys \<Rightarrow> b y ys)"
  by (cases x) simp_all

lemma keepsB_case_prod [keep]:
  "(\<And>a b. keepsB R (f a b)) \<Longrightarrow> keepsB R (case p of (a, b) \<Rightarrow> f a b)"
  by (cases p) simp

section \<open>Productions that leave the catalog list alone\<close>

lemma frame_same_cat [keep]: "frame_rel same_cat"
  by (simp add: frame_rel_def same_cat_def)

lemma quiet_modify_enabledClustered [keep]:
  "keeps same_cat (modify (\<lambda>st. st\<lparr>enabledClustered := b\<rparr>))"
  by (rule keeps_modify) (simp add: same_cat_def)

lemma quiet_modify_EnableAggPushDown [keep]:
  "keeps same_cat (modify (\<lambda>st. st\<lparr>ctrl := (ctrl st)\<lparr>EnableAggPushDown := b\<rparr>\<rparr>))"
  by (rule keeps_modify) (simp add: same_cat_def)

lemma quiet_modify_AggType [keep]:
  "keeps same_cat (modify (\<lambda>st. st\<lparr>ctrl := (ctrl st)\<lparr>AggType := s\<rparr>\<rparr>))"
  by (rule keeps_modify) (simp add: same_cat_def)

lemma quiet_InjectTodoSQL [keep]: "keeps same_cat (InjectTodoSQL s)"
  unfolding InjectTodoSQL_def by (rule keeps_modify) (simp add: same_cat_def)

lemma quiet_PopOneTodoSQL [keep]: "keeps same_cat PopOneTodoSQL"
  by (auto simp: keeps_def PopOneTodoSQL_def same_cat_def split: list.splits)

lemma quiet_SetInitialized [keep]: "keeps same_cat SetInitialized"
  unfolding SetInitialized_def by (rule keeps_modify) (simp add: same_cat_def)

lemma quiet_AppendPrepare [keep]: "keeps same_cat (AppendPrepare p)"
  unfolding AppendPrepare_def by (rule keeps_modify) (simp add: same_cat_def)

lemma quiet_RemovePrepare [keep]: "keeps same_cat (RemovePrepare p)"
  unfolding RemovePrepare_def by (rule keeps_modify) (simp add: same_cat_def)

lemma quiet_new_table [keep]: "keeps same_cat (new_table t)"
  by (auto simp: keeps_def new_table_def same_cat_def)

lemma quiet_new_prepare [keep]: "keeps same_cat (new_prepare p)"
  by (auto simp: keeps_def new_prepare_def same_cat_def)

lemma quiet_update_table [keep]: "keeps same_cat (update_table a f)"
  by (auto simp: keeps_def update_table_def same_cat_def split: if_splits)

lemma quiet_update_prepare [keep]: "keeps same_cat (update_prepare a f)"
  by (auto simp: keeps_def update_prepare_def same_cat_def split: if_splits)

lemma quiet_tblE [keep]: "keeps same_cat (tblE f a)"
  unfolding tblE_def by (intro keep)

lemma quiet_AppendRow [keep]: "keeps same_cat (AppendRow vals a)"
  unfolding AppendRow_def by (intro keep)

lemma quiet_AppendIndexM [keep]: "keeps same_cat (AppendIndexM a idx)"
  unfolding AppendIndexM_def by (intro keep)

lemma quiet_Clone [keep]: "keeps same_cat (Clone a)"
  unfolding Clone_def Let_def by (intro keep)

lemma quiet_switchRowFormatVer [keep]: "keepsF same_cat switchRowFormatVer"
  unfolding switchRowFormatVer_def by (intro keep)

lemma quiet_switchClustered [keep]: "keepsF same_cat switchClustered"
  unfolding switchClustered_def by (intro keep)

lemma quiet_dropTable [keep]: "keepsF same_cat dropTable"
  unfolding dropTable_def by (intro keep)

lemma quiet_flashBackTable [keep]: "keepsF same_cat flashBackTable"
  unfolding flashBackTable_def by (intro keep conjI | simp only: list.pred_inject simp_thms)+

lemma quiet_adminCheck [keep]: "keepsF same_cat (adminCheck L)"
  unfolding adminCheck_def by (intro keep conjI | simp only: list.pred_inject simp_thms)+

lemma quiet_colDef [keep]: "keepsF same_cat (colDef L w tbl)"
  unfolding colDef_def by (intro keep conjI | simp only: list.pred_inject simp_thms)+

lemma quiet_colDefs [keep]: "keepsF same_cat (colDefs L w tbl)"
  unfolding colDefs_def by (intro keep conjI | simp only: list.pred_inject simp_thms)+

lemma quiet_idxDef [keep]: "keepsF same_cat (idxDef L w tbl)"
  unfolding idxDef_def Let_def by (intro keep conjI | simp only: list.pred_inject simp_thms)+

lemma quiet_idxDefs [keep]: "keepsF same_cat (idxDefs L w tbl)"
  unfolding idxDefs_def by (intro keep conjI | simp only: list.pred_inject simp_thms)+

lemma quiet_partitionDef [keep]: "keepsF same_cat (partitionDef L w tbl)"
  unfolding partitionDef_def Let_def by (intro keep conjI | simp only: list.pred_inject simp_thms)+

lemma quiet_insertInto [keep]: "keepsF same_cat (insertInto L)"
  unfolding insertInto_def by (intro keep conjI | simp only: list.pred_inject simp_thms)+

lemma quiet_cmpSymbol [keep]: "keepsF same_cat cmpSymbol"
  unfolding cmpSymbol_def by (intro keep conjI | simp only: list.pred_inject simp_thms)+

lemma quiet_maybeLimit [keep]: "keepsF same_cat maybeLimit"
  unfolding maybeLimit_def by (intro keep)

lemma quiet_randVal [keep]: "keepsF same_cat (randVal L tbl c)"
  unfolding randVal_def by (intro keep conjI | simp only: list.pred_inject simp_thms)+

lemma quiet_randColVals [keep]: "keepsF same_cat (randColVals L tbl c)"
  unfolding randColVals_def by (intro keep conjI | simp only: list.pred_inject simp_thms)+

lemma quiet_predicate [keep]: "keepsF same_cat (predicate L)"
  unfolding predicate_def Let_def by (intro keep conjI | simp only: list.pred_inject simp_thms)+

lemma quiet_andPredicates [keep]: "keepsF same_cat (andPredicates L)"
  unfolding andPredicates_def Let_def by (intro keep conjI | simp only: list.pred_inject simp_thms)+

lemma quiet_predicatesPointGet [keep]: "keepsF same_cat (predicatesPointGet L tbl idx)"
  unfolding predicatesPointGet_def Let_def by (intro keep conjI | simp only: list.pred_inject simp_thms)+

lemma quiet_predicates [keep]: "keepsF same_cat (predicates L)"
  unfolding predicates_def by (intro keep conjI | simp only: list.pred_inject simp_thms)+

lemma quiet_updateAssignment [keep]: "keepsF same_cat (updateAssignment L tbl)"
  unfolding updateAssignment_def by (intro keep conjI | simp only: list.pred_inject simp_thms)+

lemma quiet_updateAssignments [keep]: "keepsF same_cat (updateAssignments L tbl)"
  unfolding updateAssignments_def by (intro keep conjI | simp only: list.pred_inject simp_thms)+

lemma quiet_commonUpdate [keep]: "keepsF same_cat (commonUpdate L)"
  unfolding commonUpdate_def by (intro keep conjI | simp only: list.pred_inject simp_thms)+

lemma quiet_commonAnalyze [keep]: "keepsF same_cat commonAnalyze"
  unfolding commonAnalyze_def by (intro keep conjI | simp only: list.pred_inject simp_thms)+

lemma quiet_randRowVal [keep]: "keepsF same_cat (randRowVal L c)"
  unfolding randRowVal_def by (intro keep conjI | simp only: list.pred_inject simp_thms)+

lemma quiet_multipleRowVal [keep]: "keepsF same_cat (multipleRowVal L c)"
  unfolding multipleRowVal_def by (intro keep conjI | simp only: list.pred_inject simp_thms)+

lemma quiet_commonDelete [keep]: "keepsF same_cat (commonDelete L)"
  unfolding commonDelete_def by (intro keep conjI | simp only: list.pred_inject simp_thms)+

lemma quiet_onDuplicateUpdate [keep]: "keepsF same_cat (onDuplicateUpdate L w tbl)"
  unfolding onDuplicateUpdate_def by (intro keep conjI | simp only: list.pred_inject simp_thms)+

lemma quiet_rowVal [keep]: "keepsF same_cat (rowVal L tbl cols)"
  unfolding rowVal_def by (intro keep conjI | simp only: list.pred_inject simp_thms)+

lemma quiet_multipleRowVals [keep]: "keepsF same_cat (multipleRowVals L tbl cols)"
  unfolding multipleRowVals_def by (intro keep conjI | simp only: list.pred_inject simp_thms)+

lemma quiet_insertSetStmt [keep]: "keepsF same_cat (insertSetStmt L tbl)"
  unfolding insertSetStmt_def by (intro keep conjI | simp only: list.pred_inject simp_thms)+

lemma quiet_commonInsert [keep]: "keepsF same_cat (commonInsert L)"
  unfolding commonInsert_def Let_def by (intro keep conjI | simp only: list.pred_inject simp_thms)+

lemma quiet_addIndex [keep]: "keepsF same_cat (addIndex L)"
  unfolding addIndex_def by (intro keep conjI | simp only: list.pred_inject simp_thms)+

lemma quiet_dropIndex [keep]: "keepsF same_cat (dropIndex L)"
  unfolding dropIndex_def by (intro keep conjI | simp only: list.pred_inject simp_thms)+

lemma quiet_addColumn [keep]: "keepsF same_cat (addColumn L)"
  unfolding addColumn_def by (intro keep conjI | simp only: list.pred_inject simp_thms)+

lemma quiet_dropColumn [keep]: "keepsF same_cat (dropColumn L)"
  unfolding dropColumn_def by (intro keep conjI | simp only: list.pred_inject simp_thms)+

lemma quiet_alterColumn [keep]: "keepsF same_cat (alterColumn L)"
  unfolding alterColumn_def by (intro keep conjI | simp only: list.pred_inject simp_thms)+

lemma quiet_joinPredicate [keep]: "keepsF same_cat (joinPredicate L a b p)"
  unfolding joinPredicate_def by (intro keep conjI | simp only: list.pred_inject simp_thms)+

lemma quiet_joinPredicates [keep]: "keepsF same_cat (joinPredicates L a b p)"
  unfolding joinPredicates_def Let_def by (intro keep conjI | simp only: list.pred_inject simp_thms)+

lemma quiet_joinHint [keep]: "keepsF same_cat (joinHint a b p)"
  unfolding joinHint_def Let_def by (intro keep conjI | simp only: list.pred_inject simp_thms)+

lemma quiet_tiflashHint2 [keep]: "keepsF same_cat (tiflashHint2 c t1 t2)"
  unfolding tiflashHint2_def by (intro keep conjI | simp only: list.pred_inject simp_thms)+

lemma quiet_tiflashHint [keep]: "keepsF same_cat (tiflashHint c t)"
  unfolding tiflashHint_def by (intro keep conjI | simp only: list.pred_inject simp_thms)+

lemma quiet_indexMergeHint [keep]: "keepsF same_cat (indexMergeHint w t)"
  unfolding indexMergeHint_def by (intro keep conjI | simp only: list.pred_inject simp_thms)+

lemma quiet_limitOpt [keep]: "keepsF same_cat (limitOpt w n)"
  unfolding limitOpt_def by (intro keep conjI | simp only: list.pred_inject simp_thms)+

lemma quiet_semiJoinStmt [keep]: "keepsF same_cat (semiJoinStmt L w a b cols p)"
  unfolding semiJoinStmt_def by (intro keep conjI | simp only: list.pred_inject simp_thms)+

lemma quiet_multiTableQuery [keep]: "keepsF same_cat (multiTableQuery L)"
  unfolding multiTableQuery_def by (intro keep conjI | simp only: list.pred_inject simp_thms)+

lemma quiet_commonSelect [keep]: "keepsF same_cat (commonSelect L tbl cols)"
  unfolding commonSelect_def by (intro keep conjI | simp only: list.pred_inject simp_thms)+

lemma quiet_forUpdateOpt [keep]: "keepsF same_cat forUpdateOpt"
  unfolding forUpdateOpt_def by (intro keep conjI | simp only: list.pred_inject simp_thms)+

lemma quiet_union [keep]: "keepsF same_cat union'"
  unfolding union'_def by (intro keep conjI | simp only: list.pred_inject simp_thms)+

lemma quiet_aggSelect [keep]: "keepsF same_cat (aggSelect L w tbl)"
  unfolding aggSelect_def Let_def by (intro keep conjI | simp only: list.pred_inject simp_thms)+

lemma quiet_windowSelect [keep]: "keepsF same_cat (windowSelect L w tbl)"
  unfolding windowSelect_def by (intro keep conjI | simp only: list.pred_inject simp_thms)+

lemma quiet_query [keep]: "keepsF same_cat (query L)"
  unfolding query_def by (intro keep conjI | simp only: list.pred_inject simp_thms)+

lemma quiet_selectIntoOutFile [keep]: "keepsF same_cat (selectIntoOutFile L)"
  unfolding selectIntoOutFile_def Let_def by (intro keep conjI | simp only: list.pred_inject simp_thms)+

lemma quiet_loadTable [keep]: "keepsF same_cat (loadTable L)"
  unfolding loadTable_def Let_def by (intro keep conjI | simp only: list.pred_inject simp_thms)+

lemma quiet_splitTableRegionBetween [keep]: "keepsF same_cat (splitTableRegionBetween L tbl p)"
  unfolding splitTableRegionBetween_def by (intro keep conjI | simp only: list.pred_inject simp_thms)+

lemma quiet_splitIndexRegionBetween [keep]: "keepsF same_cat (splitIndexRegionBetween L tbl p q i)"
  unfolding splitIndexRegionBetween_def by (intro keep conjI | simp only: list.pred_inject simp_thms)+

lemma quiet_splitTableRegionBy [keep]: "keepsF same_cat (splitTableRegionBy L tbl p)"
  unfolding splitTableRegionBy_def by (intro keep conjI | simp only: list.pred_inject simp_thms)+

lemma quiet_splitIndexRegionBy [keep]: "keepsF same_cat (splitIndexRegionBy L tbl p q i)"
  unfolding splitIndexRegionBy_def by (intro keep conjI | simp only: list.pred_inject simp_thms)+

lemma quiet_splitRegion [keep]: "keepsF same_cat (splitRegion L)"
  unfolding splitRegion_def Let_def by (intro keep conjI | simp only: list.pred_inject simp_thms)+

lemma quiet_prepareStmt [keep]: "keepsF same_cat (prepareStmt L)"
  unfolding prepareStmt_def by (intro keep conjI | simp only: list.pred_inject simp_thms)+

lemma quiet_deallocPrepareStmt [keep]: "keepsF same_cat deallocPrepareStmt"
  unfolding deallocPrepareStmt_def by (intro keep conjI | simp only: list.pred_inject simp_thms)+

lemma quiet_queryPrepare [keep]: "keepsF same_cat (queryPrepare L)"
  unfolding queryPrepare_def Let_def by (intro keep conjI | simp only: list.pred_inject simp_thms)+

lemma quiet_dmlStmt [keep]: "keepsF same_cat (dmlStmt L)"
  unfolding dmlStmt_def by (intro keep conjI | simp only: list.pred_inject simp_thms)+

lemma quiet_ddlStmt [keep]: "keepsF same_cat (ddlStmt L)"
  unfolding ddlStmt_def by (intro keep conjI | simp only: list.pred_inject simp_thms)+

section \<open>What a run that returns has done\<close>

lemma ret_Inr: "(ret x st = Inr (y, st')) = (y = x \<and> st' = st)"
  by (auto simp: ret_def)

lemma gets_Inr: "(gets f st = Inr (y, st')) = (y = f st \<and> st' = st)"
  by (auto simp: gets_def)


lemma Eval_Strs: "Eval (Strs ss) st = Inr (join '' '' ss, st)"
  by (simp add: Eval_app Gen_Strs ret_app)


lemma Eval_SetW: "Eval (SetW w f) = Eval f"
  by (simp add: Eval_def Gen_SetW)

lemma Eval_If_True: "c \<Longrightarrow> Eval (If' c f) = Eval f"
  by (simp add: If'_def)

lemma Eval_NewFn_Inr:
  "(Eval (NewFn body) st = Inr (out, st')) =
     (\<exists>g s1 s2. body (st\<lparr>scope := [] # scope st\<rparr>) = Inr (g, s1) \<and> Eval g s1 = Inr (out, s2) \<and>
        st' = s2\<lparr>scope := tl (scope s2)\<rparr>)"
  by (auto simp: Eval_Inr Gen_NewFn bnd_Inr)




lemma Intn_Inr:
  "(Intn n st = Inr (r, st')) =
     (0 < n \<and> r = int (src (rnd st) (pos (rnd st))) mod n \<and>
      st' = st\<lparr>rnd := (rnd st)\<lparr>pos := pos (rnd st) + 1\<rparr>\<rparr>)"
  by (auto simp: Intn_def)

lemma Intn_range: "Intn n st = Inr (r, st') \<Longrightarrow> 0 \<le> r \<and> r < n"
  by (auto simp: Intn_Inr)

lemma pick_live: "pick fs r = Some f \<Longrightarrow> 0 \<le> r \<Longrightarrow> f \<in> set fs \<and> 0 < eff_weight f"
proof (induction fs arbitrary: r)
  case Nil
  then show ?case by simp
next
  case (Cons g gs)
  show ?case
  proof (cases "r < eff_weight g")
    case True
    with Cons.prems show ?thesis by auto
  next
    case False
    with Cons.prems have "pick gs (r - eff_weight g) = Some f" by simp
    moreover from False have "0 \<le> r - eff_weight g" by simp
    ultimately show ?thesis using Cons.IH by auto
  qed
qed

text \<open>A choice that returns either had no selectable child and returned the empty text, or
  ran one child of positive weight after one draw.\<close>

lemma Eval_Or_Inr:
  assumes "Eval (Or fs) st = Inr (out, st')"
  shows "(sum_list (map eff_weight fs) = 0 \<and> out = [] \<and> st' = st) \<or>
         (\<exists>f r s1 s2. f \<in> set fs \<and> 0 < eff_weight f \<and>
            Intn (sum_list (map eff_weight fs)) (st\<lparr>scope := [] # scope st\<rparr>) = Inr (r, s1) \<and>
            Eval f s1 = Inr (out, s2) \<and> st' = s2\<lparr>scope := tl (scope s2)\<rparr>)"
proof (cases "sum_list (map eff_weight fs) = 0")
  case True
  with assms show ?thesis
    by (simp add: Eval_Inr Gen_Or ret_Inr)
next
  case False
  with assms obtain r s1 s2 where
    1: "Intn (sum_list (map eff_weight fs)) (st\<lparr>scope := [] # scope st\<rparr>) = Inr (r, s1)" and
    2: "(case pick fs r of Some f \<Rightarrow> Eval f | None \<Rightarrow> panic ''no child chosen'') s1 = Inr (out, s2)" and
    3: "st' = s2\<lparr>scope := tl (scope s2)\<rparr>"
    by (auto simp: Eval_Inr Gen_Or bnd_Inr)
  from 2 obtain f where 4: "pick fs r = Some f" and 5: "Eval f s1 = Inr (out, s2)"
    by (cases "pick fs r") (auto simp: panic_def)
  from 1 have "0 \<le> r" by (auto dest: Intn_range)
  with 4 have "f \<in> set fs \<and> 0 < eff_weight f" by (rule pick_live)
  with 1 5 3 show ?thesis by blast
qed

lemma GetRandTable_Inr:
  "(GetRandTable st = Inr (a, st')) =
     (tables st \<noteq> [] \<and>
      a = tables st ! (src (rnd st) (pos (rnd st)) mod length (tables st)) \<and>
      st' = st\<lparr>rnd := (rnd st)\<lparr>pos := pos (rnd st) + 1\<rparr>\<rparr>)"
proof -
  have "nat (int n mod int m) = n mod m" for n m :: nat
    by (simp add: nat_mod_distrib)
  moreover have "int n mod int m < int m" if "0 < m" for n m :: nat
    using that by simp
  ultimately show ?thesis
    by (auto simp: GetRandTable_app Intn_app split: if_splits)
qed

lemma GetRandTable_in_tables: "GetRandTable st = Inr (a, st') \<Longrightarrow> a \<in> set (tables st)"
  by (auto simp: GetRandTable_Inr)

lemma deref_Inr: "(deref a st = Inr (t, st')) = (a < length (heap st) \<and> t = heap st ! a \<and> st' = st)"
  by (auto simp: deref_def)



section \<open>Running the productions on concrete states\<close>

text \<open>The generator of each production, unfolded only where a run reaches it.\<close>

lemmas Gen_switchRowFormatVer = arg_cong [where f = Gen, OF switchRowFormatVer_def, unfolded Gen_NewFn]

lemmas Gen_switchClustered = arg_cong [where f = Gen, OF switchClustered_def, unfolded Gen_NewFn]

lemmas Gen_dropTable = arg_cong [where f = Gen, OF dropTable_def, unfolded Gen_NewFn]

lemmas Gen_flashBackTable = arg_cong [where f = Gen, OF flashBackTable_def, unfolded Gen_NewFn]

lemmas Gen_adminCheck = arg_cong [where f = Gen, OF adminCheck_def, unfolded Gen_NewFn]

lemmas Gen_colDef = arg_cong [where f = Gen, OF colDef_def, unfolded Gen_NewFn]

lemmas Gen_colDefs = arg_cong [where f = Gen, OF colDefs_def, unfolded Gen_NewFn]

lemmas Gen_idxDef = arg_cong [where f = Gen, OF idxDef_def, unfolded Gen_NewFn]

lemmas Gen_idxDefs = arg_cong [where f = Gen, OF idxDefs_def, unfolded Gen_NewFn]

lemmas Gen_partitionDef = arg_cong [where f = Gen, OF partitionDef_def, unfolded Gen_NewFn]

lemmas Gen_createTable = arg_cong [where f = Gen, OF createTable_def, unfolded Gen_NewFn]

lemmas Gen_insertInto = arg_cong [where f = Gen, OF insertInto_def, unfolded Gen_NewFn]

lemmas Gen_cmpSymbol = arg_cong [where f = Gen, OF cmpSymbol_def, unfolded Gen_NewFn]

lemmas Gen_maybeLimit = arg_cong [where f = Gen, OF maybeLimit_def, unfolded Gen_NewFn]

lemmas Gen_randVal = arg_cong [where f = Gen, OF randVal_def, unfolded Gen_NewFn]

lemmas Gen_randColVals = arg_cong [where f = Gen, OF randColVals_def, unfolded Gen_NewFn]

lemmas Gen_predicate = arg_cong [where f = Gen, OF predicate_def, unfolded Gen_NewFn]

lemmas Gen_andPredicates = arg_cong [where f = Gen, OF andPredicates_def, unfolded Gen_NewFn]

lemmas Gen_predicatesPointGet = arg_cong [where f = Gen, OF predicatesPointGet_def, unfolded Gen_NewFn]

lemmas Gen_predicates = arg_cong [where f = Gen, OF predicates_def, unfolded Gen_NewFn]

lemmas Gen_updateAssignment = arg_cong [where f = Gen, OF updateAssignment_def, unfolded Gen_NewFn]

lemmas Gen_updateAssignments = arg_cong [where f = Gen, OF updateAssignments_def, unfolded Gen_NewFn]

lemmas Gen_commonUpdate = arg_cong [where f = Gen, OF commonUpdate_def, unfolded Gen_NewFn]

lemmas Gen_commonAnalyze = arg_cong [where f = Gen, OF commonAnalyze_def, unfolded Gen_NewFn]

lemmas Gen_randRowVal = arg_cong [where f = Gen, OF randRowVal_def, unfolded Gen_NewFn]

lemmas Gen_multipleRowVal = arg_cong [where f = Gen, OF multipleRowVal_def, unfolded Gen_NewFn]

lemmas Gen_commonDelete = arg_cong [where f = Gen, OF commonDelete_def, unfolded Gen_NewFn]

lemmas Gen_onDuplicateUpdate = arg_cong [where f = Gen, OF onDuplicateUpdate_def, unfolded Gen_NewFn]

lemmas Gen_rowVal = arg_cong [where f = Gen, OF rowVal_def, unfolded Gen_NewFn]

lemmas Gen_multipleRowVals = arg_cong [where f = Gen, OF multipleRowVals_def, unfolded Gen_NewFn]

lemmas Gen_insertSetStmt = arg_cong [where f = Gen, OF insertSetStmt_def, unfolded Gen_NewFn]

lemmas Gen_commonInsert = arg_cong [where f = Gen, OF commonInsert_def, unfolded Gen_NewFn]

lemmas Gen_addIndex = arg_cong [where f = Gen, OF addIndex_def, unfolded Gen_NewFn]

lemmas Gen_dropIndex = arg_cong [where f = Gen, OF dropIndex_def, unfolded Gen_NewFn]

lemmas Gen_addColumn = arg_cong [where f = Gen, OF addColumn_def, unfolded Gen_NewFn]

lemmas Gen_dropColumn = arg_cong [where f = Gen, OF dropColumn_def, unfolded Gen_NewFn]

lemmas Gen_alterColumn = arg_cong [where f = Gen, OF alterColumn_def, unfolded Gen_NewFn]

lemmas Gen_joinPredicate = arg_cong [where f = Gen, OF joinPredicate_def, unfolded Gen_NewFn]

lemmas Gen_joinPredicates = arg_cong [where f = Gen, OF joinPredicates_def, unfolded Gen_NewFn]

lemmas Gen_joinHint = arg_cong [where f = Gen, OF joinHint_def, unfolded Gen_NewFn]

lemmas Gen_semiJoinStmt = arg_cong [where f = Gen, OF semiJoinStmt_def, unfolded Gen_NewFn]

lemmas Gen_multiTableQuery = arg_cong [where f = Gen, OF multiTableQuery_def, unfolded Gen_NewFn]

lemmas Gen_commonSelect = arg_cong [where f = Gen, OF commonSelect_def, unfolded Gen_NewFn]

lemmas Gen_forUpdateOpt = arg_cong [where f = Gen, OF forUpdateOpt_def, unfolded Gen_NewFn]

lemmas Gen_union_p = arg_cong [where f = Gen, OF union'_def, unfolded Gen_NewFn]

lemmas Gen_aggSelect = arg_cong [where f = Gen, OF aggSelect_def, unfolded Gen_NewFn]

lemmas Gen_windowSelect = arg_cong [where f = Gen, OF windowSelect_def, unfolded Gen_NewFn]

lemmas Gen_query = arg_cong [where f = Gen, OF query_def, unfolded Gen_NewFn]

lemmas Gen_createTableLike = arg_cong [where f = Gen, OF createTableLike_def, unfolded Gen_NewFn]

lemmas Gen_selectIntoOutFile = arg_cong [where f = Gen, OF selectIntoOutFile_def, unfolded Gen_NewFn]

lemmas Gen_loadTable = arg_cong [where f = Gen, OF loadTable_def, unfolded Gen_NewFn]

lemmas Gen_splitTableRegionBetween = arg_cong [where f = Gen, OF splitTableRegionBetween_def, unfolded Gen_NewFn]

lemmas Gen_splitIndexRegionBetween = arg_cong [where f = Gen, OF splitIndexRegionBetween_def, unfolded Gen_NewFn]

lemmas Gen_splitTableRegionBy = arg_cong [where f = Gen, OF splitTableRegionBy_def, unfolded Gen_NewFn]

lemmas Gen_splitIndexRegionBy = arg_cong [where f = Gen, OF splitIndexRegionBy_def, unfolded Gen_NewFn]

lemmas Gen_splitRegion = arg_cong [where f = Gen, OF splitRegion_def, unfolded Gen_NewFn]

lemmas Gen_prepareStmt = arg_cong [where f = Gen, OF prepareStmt_def, unfolded Gen_NewFn]

lemmas Gen_deallocPrepareStmt = arg_cong [where f = Gen, OF deallocPrepareStmt_def, unfolded Gen_NewFn]

lemmas Gen_queryPrepare = arg_cong [where f = Gen, OF queryPrepare_def, unfolded Gen_NewFn]

lemmas Gen_dmlStmt = arg_cong [where f = Gen, OF dmlStmt_def, unfolded Gen_NewFn]

lemmas Gen_ddlStmt = arg_cong [where f = Gen, OF ddlStmt_def, unfolded Gen_NewFn]

lemmas Gen_initStart = arg_cong [where f = Gen, OF initStart_def, unfolded Gen_NewFn]

lemmas Gen_start = arg_cong [where f = Gen, OF start_def, unfolded Gen_NewFn]

lemmas Gen_productions =
  Gen_switchRowFormatVer
  Gen_switchClustered
  Gen_dropTable
  Gen_flashBackTable
  Gen_adminCheck
  Gen_colDef
  Gen_colDefs
  Gen_idxDef
  Gen_idxDefs
  Gen_partitionDef
  Gen_createTable
  Gen_insertInto
  Gen_cmpSymbol
  Gen_maybeLimit
  Gen_randVal
  Gen_randColVals
  Gen_predicate
  Gen_andPredicates
  Gen_predicatesPointGet
  Gen_predicates
  Gen_updateAssignment
  Gen_updateAssignments
  Gen_commonUpdate
  Gen_commonAnalyze
  Gen_randRowVal
  Gen_multipleRowVal
  Gen_commonDelete
  Gen_onDuplicateUpdate
  Gen_rowVal
  Gen_multipleRowVals
  Gen_insertSetStmt
  Gen_commonInsert
  Gen_addIndex
  Gen_dropIndex
  Gen_addColumn
  Gen_dropColumn
  Gen_alterColumn
  Gen_joinPredicate
  Gen_joinPredicates
  Gen_joinHint
  Gen_semiJoinStmt
  Gen_multiTableQuery
  Gen_commonSelect
  Gen_forUpdateOpt
  Gen_union_p
  Gen_aggSelect
  Gen_windowSelect
  Gen_query
  Gen_createTableLike
  Gen_selectIntoOutFile
  Gen_loadTable
  Gen_splitTableRegionBetween
  Gen_splitIndexRegionBetween
  Gen_splitTableRegionBy
  Gen_splitIndexRegionBy
  Gen_splitRegion
  Gen_prepareStmt
  Gen_deallocPrepareStmt
  Gen_queryPrepare
  Gen_dmlStmt
  Gen_ddlStmt
  Gen_initStart
  Gen_start

lemma production_weight [run]:
  "eff_weight (switchRowFormatVer) = 1"
  "eff_weight (switchClustered) = 1"
  "eff_weight (dropTable) = 1"
  "eff_weight (flashBackTable) = 1"
  "eff_weight (adminCheck L) = 1"
  "eff_weight (colDef L w tbl) = 1"
  "eff_weight (colDefs L w tbl) = 1"
  "eff_weight (idxDef L w tbl) = 1"
  "eff_weight (idxDefs L w tbl) = 1"
  "eff_weight (partitionDef L w tbl) = 1"
  "eff_weight (createTable L) = 1"
  "eff_weight (insertInto L) = 1"
  "eff_weight (cmpSymbol) = 1"
  "eff_weight (maybeLimit) = 1"
  "eff_weight (randVal L tbl randCol) = 1"
  "eff_weight (randColVals L tbl randCol) = 1"
  "eff_weight (predicate L) = 1"
  "eff_weight (andPredicates L) = 1"
  "eff_weight (predicatesPointGet L tbl uniqueIdx) = 1"
  "eff_weight (predicates L) = 1"
  "eff_weight (updateAssignment L tbl) = 1"
  "eff_weight (updateAssignments L tbl) = 1"
  "eff_weight (commonUpdate L) = 1"
  "eff_weight (commonAnalyze) = 1"
  "eff_weight (randRowVal L col) = 1"
  "eff_weight (multipleRowVal L col) = 1"
  "eff_weight (commonDelete L) = 1"
  "eff_weight (onDuplicateUpdate L w tbl) = 1"
  "eff_weight (rowVal L tbl cols) = 1"
  "eff_weight (multipleRowVals L tbl cols) = 1"
  "eff_weight (insertSetStmt L tbl) = 1"
  "eff_weight (commonInsert L) = 1"
  "eff_weight (addIndex L) = 1"
  "eff_weight (dropIndex L) = 1"
  "eff_weight (addColumn L) = 1"
  "eff_weight (dropColumn L) = 1"
  "eff_weight (alterColumn L) = 1"
  "eff_weight (joinPredicate L tbl1 tbl2 preferIndex) = 1"
  "eff_weight (joinPredicates L tbl1 tbl2 preferIndex) = 1"
  "eff_weight (joinHint tbl1 tbl2 preferIndex) = 1"
  "eff_weight (semiJoinStmt L w tbl1 tbl2 cols1 preferIndex) = 1"
  "eff_weight (multiTableQuery L) = 1"
  "eff_weight (commonSelect L tbl cols) = 1"
  "eff_weight (forUpdateOpt) = 1"
  "eff_weight (union') = 1"
  "eff_weight (aggSelect L w tbl) = 1"
  "eff_weight (windowSelect L w tbl) = 1"
  "eff_weight (query L) = 1"
  "eff_weight (createTableLike) = 1"
  "eff_weight (selectIntoOutFile L) = 1"
  "eff_weight (loadTable L) = 1"
  "eff_weight (splitTableRegionBetween L tbl splitTablePrefix) = 1"
  "eff_weight (splitIndexRegionBetween L tbl splitTablePrefix idxPrefix idxo) = 1"
  "eff_weight (splitTableRegionBy L tbl splitTablePrefix) = 1"
  "eff_weight (splitIndexRegionBy L tbl splitTablePrefix idxPrefix idxo) = 1"
  "eff_weight (splitRegion L) = 1"
  "eff_weight (prepareStmt L) = 1"
  "eff_weight (deallocPrepareStmt) = 1"
  "eff_weight (queryPrepare L) = 1"
  "eff_weight (dmlStmt L) = 1"
  "eff_weight (ddlStmt L) = 1"
  "eff_weight (initStart L) = 1"
  "eff_weight (start L) = 1"
  "fn_Live (switchRowFormatVer) = True"
  "fn_Live (switchClustered) = True"
  "fn_Live (dropTable) = True"
  "fn_Live (flashBackTable) = True"
  "fn_Live (adminCheck L) = True"
  "fn_Live (colDef L w tbl) = True"
  "fn_Live (colDefs L w tbl) = True"
  "fn_Live (idxDef L w tbl) = True"
  "fn_Live (idxDefs L w tbl) = True"
  "fn_Live (partitionDef L w tbl) = True"
  "fn_Live (createTable L) = True"
  "fn_Live (insertInto L) = True"
  "fn_Live (cmpSymbol) = True"
  "fn_Live (maybeLimit) = True"
  "fn_Live (randVal L tbl randCol) = True"
  "fn_Live (randColVals L tbl randCol) = True"
  "fn_Live (predicate L) = True"
  "fn_Live (andPredicates L) = True"
  "fn_Live (predicatesPointGet L tbl uniqueIdx) = True"
  "fn_Live (predicates L) = True"
  "fn_Live (updateAssignment L tbl) = True"
  "fn_Live (updateAssignments L tbl) = True"
  "fn_Live (commonUpdate L) = True"
  "fn_Live (commonAnalyze) = True"
  "fn_Live (randRowVal L col) = True"
  "fn_Live (multipleRowVal L col) = True"
  "fn_Live (commonDelete L) = True"
  "fn_Live (onDuplicateUpdate L w tbl) = True"
  "fn_Live (rowVal L tbl cols) = True"
  "fn_Live (multipleRowVals L tbl cols) = True"
  "fn_Live (insertSetStmt L tbl) = True"
  "fn_Live (commonInsert L) = True"
  "fn_Live (addIndex L) = True"
  "fn_Live (dropIndex L) = True"
  "fn_Live (addColumn L) = True"
  "fn_Live (dropColumn L) = True"
  "fn_Live (alterColumn L) = True"
  "fn_Live (joinPredicate L tbl1 tbl2 preferIndex) = True"
  "fn_Live (joinPredicates L tbl1 tbl2 preferIndex) = True"
  "fn_Live (joinHint tbl1 tbl2 preferIndex) = True"
  "fn_Live (semiJoinStmt L w tbl1 tbl2 cols1 preferIndex) = True"
  "fn_Live (multiTableQuery L) = True"
  "fn_Live (commonSelect L tbl cols) = True"
  "fn_Live (forUpdateOpt) = True"
  "fn_Live (union') = True"
  "fn_Live (aggSelect L w tbl) = True"
  "fn_Live (windowSelect L w tbl) = True"
  "fn_Live (query L) = True"
  "fn_Live (createTableLike) = True"
  "fn_Live (selectIntoOutFile L) = True"
  "fn_Live (loadTable L) = True"
  "fn_Live (splitTableRegionBetween L tbl splitTablePrefix) = True"
  "fn_Live (splitIndexRegionBetween L tbl splitTablePrefix idxPrefix idxo) = True"
  "fn_Live (splitTableRegionBy L tbl splitTablePrefix) = True"
  "fn_Live (splitIndexRegionBy L tbl splitTablePrefix idxPrefix idxo) = True"
  "fn_Live (splitRegion L) = True"
  "fn_Live (prepareStmt L) = True"
  "fn_Live (deallocPrepareStmt) = True"
  "fn_Live (queryPrepare L) = True"
  "fn_Live (dmlStmt L) = True"
  "fn_Live (ddlStmt L) = True"
  "fn_Live (initStart L) = True"
  "fn_Live (start L) = True"
  by (simp_all add: eff_weight_def NewFn_def
      switchRowFormatVer_def switchClustered_def dropTable_def flashBackTable_def
      adminCheck_def colDef_def colDefs_def idxDef_def idxDefs_def partitionDef_def
      createTable_def insertInto_def cmpSymbol_def maybeLimit_def randVal_def randColVals_def
      predicate_def andPredicates_def predicatesPointGet_def predicates_def
      updateAssignment_def updateAssignments_def commonUpdate_def commonAnalyze_def
      randRowVal_def multipleRowVal_def commonDelete_def onDuplicateUpdate_def rowVal_def
      multipleRowVals_def insertSetStmt_def commonInsert_def addIndex_def dropIndex_def
      addColumn_def dropColumn_def alterColumn_def joinPredicate_def joinPredicates_def
      joinHint_def semiJoinStmt_def multiTableQuery_def commonSelect_def forUpdateOpt_def
      union'_def aggSelect_def windowSelect_def query_def createTableLike_def
      selectIntoOutFile_def loadTable_def splitTableRegionBetween_def
      splitIndexRegionBetween_def splitTableRegionBy_def splitIndexRegionBy_def
      splitRegion_def prepareStmt_def deallocPrepareStmt_def queryPrepare_def dmlStmt_def
      ddlStmt_def initStart_def start_def)

lemma lib0_sel:
  "SelectOutFileDir lib0 = ''/tmp''"
  "Seed lib0 = (\<lambda>n. \<lparr>src = (\<lambda>i. nat n + i), pos = 0\<rparr>)"
  "IsStringType lib0 = (\<lambda>tp. tp = 1)"
  "IsIntegerType lib0 = (\<lambda>tp. tp = 0)"
  "GenNewColumn lib0 = (\<lambda>n w. pure_rnd \<lparr>col_Id = n, col_Name = ''c'' @ itoa n, col_Tp = 0, col_isNotNull = False, col_defaultVal = []\<rparr>)"
  "GenNewIndex lib0 = (\<lambda>n t w. pure_rnd \<lparr>idx_Id = n, idx_Name = ''i'' @ itoa n, idx_Tp = IndexTypeUnique, idx_Columns = take 1 (Columns t)\<rparr>)"
  "RandomValue lib0 = (\<lambda>c. pure_rnd ''0'')"
  "RandomValuesAsc lib0 = (\<lambda>c n. pure_rnd (map (\<lambda>i. itoa (int i)) [0..<nat n]))"
  "RandomGroups lib0 = (\<lambda>vs n. pure_rnd [vs])"
  "HasDroppableColumn lib0 = (\<lambda>t. 1 < length (Columns t))"
  "GetRandDroppableColumn lib0 = (\<lambda>t. pure_rnd (last (Columns t)))"
  "GetRandColumn lib0 = (\<lambda>t. pure_rnd (hd (Columns t)))"
  "GetRandColumns lib0 = (\<lambda>t. pure_rnd (Columns t))"
  "GetRandColumnsNonEmpty lib0 = (\<lambda>t. pure_rnd (Columns t))"
  "GetRandColumnsIncludedDefaultValue lib0 = (\<lambda>t. pure_rnd (Columns t))"
  "GetRandColumnsSimple lib0 = (\<lambda>t. pure_rnd (hd (Columns t)))"
  "GetRandColumnsPreferIndex lib0 = (\<lambda>t. pure_rnd (hd (Columns t)))"
  "GetRandIndexFirstColumnWithWeight lib0 = (\<lambda>t a b. pure_rnd (hd (Columns t)))"
  "GetRandUniqueIndexForPointGet lib0 = (\<lambda>t. pure_rnd (find IsUnique (Indices t)))"
  "GetRandIndexPrefixColumn lib0 = (\<lambda>t. pure_rnd [])"
  "GetPrimaryKeyIndex lib0 = (\<lambda>t. find (\<lambda>i. idx_Tp i = IndexTypePrimary) (Indices t))"
  "GetRandColumnForPartition lib0 = (\<lambda>t. pure_rnd (case Columns t of [] \<Rightarrow> None | c # cs \<Rightarrow> Some (last (c # cs))))"
  "GetRandomIndex lib0 = (\<lambda>t. pure_rnd (hd (Indices t)))"
  "GenRandValues lib0 = (\<lambda>t cs. pure_rnd (map (\<lambda>c. ''0'') cs))"
  "GetRandRow lib0 = (\<lambda>t cs. pure_rnd (map (\<lambda>c. ''0'') cs))"
  "GetRandRowVal lib0 = (\<lambda>t c. pure_rnd ''0'')"
  "GenMultipleRowsAscForHandleCols lib0 = (\<lambda>t n. pure_rnd (map (\<lambda>i. [itoa (int i)]) [0..<nat n]))"
  "GenMultipleRowsAscForIndexCols lib0 = (\<lambda>t n idx. pure_rnd (map (\<lambda>i. [itoa (int i)]) [0..<nat n]))"
  "RemoveColumn lib0 = (\<lambda>t c. Inr (t\<lparr>Columns := removeAll c (Columns t)\<rparr>))"
  "ReplaceColumn lib0 = (\<lambda>t c c'. Inr (t\<lparr>Columns := map (\<lambda>x. if x = c then c' else x) (Columns t)\<rparr>))"
  "RemoveIndex lib0 = (\<lambda>t i. Inr (t\<lparr>Indices := removeAll i (Indices t)\<rparr>))"
  "GenAssignments lib0 = (\<lambda>p. pure_rnd (map (\<lambda>c. ''set @u = 0'') (pre_Args p)))"
  "UserVars lib0 = (\<lambda>p. map (\<lambda>c. ''@u'') (pre_Args p))"
  "SwapOutParameterizedColumns lib0 = (\<lambda>cs. pure_rnd [])"
  "PrintColumnType lib0 = (\<lambda>c. ''int'')"
  "PrintIndexType lib0 = (\<lambda>i. case idx_Tp i of IndexTypeNonUnique \<Rightarrow> [] | IndexTypeUnique \<Rightarrow> ''unique'' | IndexTypePrimary \<Rightarrow> ''primary'')"
  "PrintIndexColumnNames lib0 = (\<lambda>i. names (idx_Columns i))"
  "PrintRangePartitionDefs lib0 = (\<lambda>vs. join '','' vs)"
  "PrintListPartitionDefs lib0 = (\<lambda>gs. join '','' (concat gs))"
  "PrintRandValues lib0 = (\<lambda>vs. join '','' vs)"
  "PrintColumnNamesWithoutPar lib0 = (\<lambda>cs d. if cs = [] then d else names cs)"
  "PrintColumnNamesWithPar lib0 = (\<lambda>cs d. if cs = [] then d else ''('' @ names cs @ '')'')"
  "PrintRandomAssignments lib0 = (\<lambda>cs. pure_rnd (join '','' (map (\<lambda>c. col_Name c @ ''=0'') cs)))"
  "PrintRandomAggFunc lib0 = (\<lambda>t cs. pure_rnd ''count(*) aggCol'')"
  "PrintRandomWindowFunc lib0 = (\<lambda>t. pure_rnd ''row_number()'')"
  "PrintRandomWindow lib0 = (\<lambda>t. pure_rnd ''(order by 1)'')"
  "PrintPredicateDNF lib0 = (\<lambda>cs vs. ''1'')"
  "PrintPredicateCompoundDNF lib0 = (\<lambda>cs vs. ''1'')"
  "PrintPredicateIn lib0 = (\<lambda>cs vs. ''1'')"
  "PrintFullQualifiedColName lib0 = (\<lambda>t cs. names cs)"
  "PrintSplitByItems lib0 = (\<lambda>rows. join '','' (map (\<lambda>r. ''('' @ join '','' r @ '')'') rows))"
  by (simp_all add: lib0_def)

lemma itoa_digits:
  "itoa 0 = ''0''" "itoa 1 = ''1''" "itoa 2 = ''2''" "itoa 3 = ''3''" "itoa 4 = ''4''"
  by (simp_all add: itoa_def itoa_nat.simps)

lemmas eval = run Gen_productions lib0_sel pure_rnd_def names_def getTable_def IsNil_def Let_def
  itoa_digits join.simps draws_def indexOpt_def createTable_text_def
section \<open>What creating a table does\<close>

lemma frame_tbl_rel:
  assumes "\<And>t. P t t" "\<And>t u v. P t u \<Longrightarrow> P u v \<Longrightarrow> P t v"
  shows "frame_rel (tbl_rel a P)"
  unfolding frame_rel_def tbl_rel_def
  using assms by (auto; metis)

lemma frame_columns_only: "frame_rel (tbl_rel a columns_only)"
  by (rule frame_tbl_rel) (auto simp: columns_only_def)

lemma frame_partition_only: "frame_rel (tbl_rel a partition_only)"
  by (rule frame_tbl_rel) (auto simp: partition_only_def)

lemma frame_indices_only: "frame_rel (tbl_rel a indices_only)"
  by (rule frame_tbl_rel) (auto simp: indices_only_def)

lemma frame_unchanged: "frame_rel (tbl_rel a (=))"
  by (rule frame_tbl_rel) auto

lemma keeps_update_table_tbl:
  "(\<And>t. P t (f t)) \<Longrightarrow> keeps (tbl_rel a P) (update_table a f)"
  by (auto simp: keeps_def update_table_def tbl_rel_def split: if_splits)

lemma fold_AppendColumnIfNotExists:
  "idx_Tp (fold AppendColumnIfNotExists cs idx) = idx_Tp idx \<and>
   set (idx_Columns idx) \<subseteq> set (idx_Columns (fold AppendColumnIfNotExists cs idx)) \<and>
   set cs \<subseteq> set (idx_Columns (fold AppendColumnIfNotExists cs idx))"
proof (induction cs arbitrary: idx)
  case Nil
  show ?case by simp
next
  case (Cons c cs)
  have "idx_Tp (AppendColumnIfNotExists c idx) = idx_Tp idx"
    "set (idx_Columns idx) \<subseteq> set (idx_Columns (AppendColumnIfNotExists c idx))"
    "c \<in> set (idx_Columns (AppendColumnIfNotExists c idx))"
    by (auto simp: AppendColumnIfNotExists_def)
  with Cons.IH [of "AppendColumnIfNotExists c idx"] show ?case by auto
qed

lemma AppendIndex_indices_only: "indices_only t (AppendIndex idx t)"
  using fold_AppendColumnIfNotExists [of "PartitionColumns t" idx]
  by (auto simp: indices_only_def AppendIndex_def unique_has_partition_def IsUnique_def)

lemma keeps_AppendIndexM_indices_only: "keeps (tbl_rel a indices_only) (AppendIndexM a idx)"
  unfolding AppendIndexM_def
  by (intro keeps_bnd keeps_deref keeps_ret frame_indices_only keeps_update_table_tbl
        AppendIndex_indices_only)

lemma colDef_columns_only: "keepsF (tbl_rel a columns_only) (colDef L w a)"
  unfolding colDef_def
  by (intro keep conjI frame_columns_only keeps_update_table_tbl
      | simp only: list.pred_inject simp_thms | simp add: columns_only_def AppendColumn_def)+

lemma colDefs_columns_only: "keepsF (tbl_rel a columns_only) (colDefs L w a)"
  unfolding colDefs_def
  by (intro keep conjI frame_columns_only colDef_columns_only
      | simp only: list.pred_inject simp_thms)+

lemma partitionDef_partition_only: "keepsF (tbl_rel a partition_only) (partitionDef L w a)"
  unfolding partitionDef_def Let_def
  by (intro keep conjI frame_partition_only keeps_update_table_tbl
      | simp only: list.pred_inject simp_thms | simp add: partition_only_def AppendPartitionColumn_def)+

lemma idxDef_indices_only: "keepsF (tbl_rel a indices_only) (idxDef L w a)"
  unfolding idxDef_def Let_def
  by (intro keep conjI frame_indices_only keeps_AppendIndexM_indices_only
      | simp only: list.pred_inject simp_thms)+

lemma idxDefs_indices_only: "keepsF (tbl_rel a indices_only) (idxDefs L w a)"
  unfolding idxDefs_def
  by (intro keep conjI frame_indices_only idxDef_indices_only
      | simp only: list.pred_inject simp_thms)+

lemma createTable_text_keeps:
  "frame_rel R \<Longrightarrow> keepsF R (createTable_text name eColDefs eIdxDefs ePartitionDef r)"
  unfolding createTable_text_def
  by (intro keep conjI | simp only: list.pred_inject simp_thms)+


text \<open>The steps of a run of \<^verbatim>\<open>createTable\<close> that returns: the new table is put at the end of
  the heap and of the catalog, then the column definitions, the partition clause and the
  index definitions are evaluated in this order, then the draw, then the text.\<close>

lemma createTable_Inr:
  assumes "Eval (createTable L) st = Inr (out, st')"
  obtains n s1 e1 s2 e2 s3 e3 s4 r s5 s6 where
    "Eval (colDefs L (Weight (ctrl st)) (length (heap st))) s1 = Inr (e1, s2)"
    "Eval (partitionDef L (Weight (ctrl st)) (length (heap st))) s2 = Inr (e2, s3)"
    "Eval (idxDefs L (Weight (ctrl st)) (length (heap st))) s3 = Inr (e3, s4)"
    "Intn (indexOpt (Weight (ctrl st))) s4 = Inr (r, s5)"
    "Eval (createTable_text (tbl_Name (GenNewTable n)) e1 e3 e2 r) s5 = Inr (out, s6)"
    "st' = s6\<lparr>scope := tl (scope s6)\<rparr>"
    "heap s1 = heap st @ [GenNewTable n]" "tables s1 = tables st @ [length (heap st)]"
    "ctrl s1 = ctrl st" "initialized s1 = initialized st"
proof -
  from assms obtain s6 where
    body: "Gen (createTable L) (st\<lparr>scope := [] # scope st\<rparr>) = Inr (out, s6)"
    and st': "st' = s6\<lparr>scope := tl (scope s6)\<rparr>"
    by (auto simp: Eval_Inr)
  show ?thesis
    using body st'
    apply (simp add: Gen_createTable)
    apply (auto simp: bnd_Inr gets_Inr ret_Inr AllocGlobalID_app new_table_app AppendTable_app
        deref_app when_do_app InjectTodoSQL_app Let_def split: if_splits)
       apply (erule that, assumption+, simp_all)+
    done
qed


section \<open>Properties of the driver\<close>








section \<open>The limit clause of update and delete\<close>








section \<open>The admin check production\<close>


lemma adminCheck_tiflash_run:
  "Eval (adminCheck lib0) (state1 (ctrl0\<lparr>EnableTestTiFlash := True\<rparr>) []) =
     Inr ([], (state1 (ctrl0\<lparr>EnableTestTiFlash := True\<rparr>) [])\<lparr>rnd := (draws [])\<lparr>pos := 1\<rparr>\<rparr>)"
  by (simp add: eval state1_def ctrl0_def weight0_def table0_def col0_def)


section \<open>Loading a table that has no clone\<close>

text \<open>
  Claim C9. When the table recorded under \<^verbatim>\<open>ScopeKeyLastOutFileTable\<close> has an empty list of
  child tables, \<^verbatim>\<open>loadTable\<close> panics: its draw \<^verbatim>\<open>rand.Intn(len(tbl.childTables))\<close> has the bound
  zero.
\<close>

theorem loadTable_panics_without_child:
  assumes "lookup_frames (scope st) ScopeKeyLastOutFileTable = ObjTable a"
    and "lookup_frames (scope st) ScopeKeyTmpFileID = ObjInt n"
    and "a < length (heap st)"
    and "childTables (heap st ! a) = []"
  shows "Eval (loadTable L) st = Inl (Panic ''invalid argument to Intn'')"
  using assms
  by (simp add: Eval_app Gen_loadTable bnd_app Search_app ToTable_app ToInt_app deref_app
        Intn_app Let_def)

lemma selectIntoOutFile_run:
  "Eval (start lib0) (state1 ctrl_outfile [0,0,0,0]) =
     Inr (''select * from t0 into outfile '/tmp/t0_0.txt'' @ [CHR 0x27], (state_outfile [0,0,0,0])\<lparr>rnd := (draws [0,0,0,0])\<lparr>pos := 4\<rparr>\<rparr>)"
  by (simp add: eval state1_def state_outfile_def ctrl_outfile_def ctrl0_def weight0_def table0_def col0_def
     outFileName_def path_Join_def quoted_def)

lemma start_loadTable_run:
  "Eval (start lib0) (state_outfile [0,0,1]) = Inl (Panic ''invalid argument to Intn'')"
  by (simp add: eval state1_def state_outfile_def ctrl_outfile_def ctrl0_def weight0_def table0_def col0_def)

theorem loadTable_panics_without_child_witness:
  "Eval (loadTable lib0) (state_outfile [0,0,1]) = Inl (Panic ''invalid argument to Intn'') \<and>
   Eval (start lib0) (state_outfile [0,0,1]) = Inl (Panic ''invalid argument to Intn'')"
proof -
  have "lookup_frames (scope (state_outfile [0,0,1])) ScopeKeyLastOutFileTable = ObjTable 0"
    "lookup_frames (scope (state_outfile [0,0,1])) ScopeKeyTmpFileID = ObjInt 1"
    "0 < length (heap (state_outfile [0,0,1]))"
    "childTables (heap (state_outfile [0,0,1]) ! 0) = []"
    by (simp_all add: state_outfile_def state1_def table0_def)
  from loadTable_panics_without_child [OF this] start_loadTable_run show ?thesis by simp
qed

section \<open>The queue of deferred statements\<close>

lemma start_pops_todo:
  "todoSQLs st = s # q \<Longrightarrow> Eval (start L) st = Inr (s, st\<lparr>todoSQLs := q\<rparr>)"
  by (simp add: Eval_app Gen_start bnd_app gets_app PopOneTodoSQL_app ret_app Gen_Str)

lemma start_drains_todo:
  "todoSQLs st = q \<Longrightarrow> calls (Eval (start L)) (length q) st = Inr (q, st\<lparr>todoSQLs := []\<rparr>)"
proof (induction q arbitrary: st)
  case Nil
  then have "st\<lparr>todoSQLs := []\<rparr> = st" by simp
  then show ?case by (simp add: ret_app)
next
  case (Cons s q)
  have "calls (Eval (start L)) (length q) (st\<lparr>todoSQLs := q\<rparr>) = Inr (q, st\<lparr>todoSQLs := []\<rparr>)"
    using Cons.IH [of "st\<lparr>todoSQLs := q\<rparr>"] by simp
  with start_pops_todo [OF Cons.prems, of L] show ?case
    by (simp add: bnd_app ret_app)
qed

lemma flashBackTable_Inr:
  assumes "Eval flashBackTable st = Inr (out, st1)"
  shows "\<exists>a\<in>set (tables st). a < length (heap st) \<and>
           (out = join '' '' [''drop table'', tbl_Name (heap st ! a)] \<or>
            out = join '' '' [''truncate table'', tbl_Name (heap st ! a)]) \<and>
           todoSQLs st1 = todoSQLs st @ [''flashback table '' @ tbl_Name (heap st ! a)]"
proof -
  let ?a = "tables st ! (src (rnd st) (pos (rnd st)) mod length (tables st))"
  let ?T = "tbl_Name (heap st ! ?a)"
  let ?s1 = "st\<lparr>scope := [] # scope st, rnd := (rnd st)\<lparr>pos := pos (rnd st) + 1\<rparr>,
               todoSQLs := todoSQLs st @ [''flashback table '' @ ?T]\<rparr>"
  from assms have ne: "tables st \<noteq> []" and a: "?a < length (heap st)" and
    ev: "\<exists>s2. Eval (Or [Strs [''drop table'', ?T], Strs [''truncate table'', ?T]]) ?s1 = Inr (out, s2) \<and>
            st1 = s2\<lparr>scope := tl (scope s2)\<rparr>"
    unfolding flashBackTable_def Eval_NewFn_Inr
    by (auto simp: bnd_Inr ret_Inr GetRandTable_Inr deref_Inr InjectTodoSQL_app)
  then obtain s2 where
    ev: "Eval (Or [Strs [''drop table'', ?T], Strs [''truncate table'', ?T]]) ?s1 = Inr (out, s2)" and
    st1: "st1 = s2\<lparr>scope := tl (scope s2)\<rparr>"
    by blast
  from Eval_Or_Inr [OF ev] have
    "(out = join '' '' [''drop table'', ?T] \<or> out = join '' '' [''truncate table'', ?T]) \<and>
     todoSQLs s2 = todoSQLs ?s1"
    by (auto simp: Eval_Strs eff_weight_simps Intn_Inr)
  with ne a st1 show ?thesis by (intro bexI [of _ ?a]) auto
qed

text \<open>
  Claim C1. A call of the producer on a state with a non-empty queue returns the head of
  the queue and changes nothing but the queue, so no production is entered; successive
  calls return the whole queue in order. When \<^verbatim>\<open>flashBackTable\<close> runs on an empty queue (as it
  does under \<^verbatim>\<open>start\<close>, which has popped the queue before), it returns \<^verbatim>\<open>drop table T\<close> or
  \<^verbatim>\<open>truncate table T\<close> for a table of the catalog, and the next call of the producer returns
  \<^verbatim>\<open>flashback table T\<close> and leaves the queue empty.
\<close>

theorem deferred_sql_emitted_first:
  "(todoSQLs st = s # q \<longrightarrow> Eval (start L) st = Inr (s, st\<lparr>todoSQLs := q\<rparr>)) \<and>
   (calls (Eval (start L)) (length (todoSQLs st)) st = Inr (todoSQLs st, st\<lparr>todoSQLs := []\<rparr>)) \<and>
   (todoSQLs st = [] \<and> Eval flashBackTable st = Inr (out, st1) \<longrightarrow>
      (\<exists>a\<in>set (tables st).
         (out = join '' '' [''drop table'', tbl_Name (heap st ! a)] \<or>
          out = join '' '' [''truncate table'', tbl_Name (heap st ! a)]) \<and>
         todoSQLs st1 = [''flashback table '' @ tbl_Name (heap st ! a)] \<and>
         Eval (start L) st1 =
           Inr (''flashback table '' @ tbl_Name (heap st ! a), st1\<lparr>todoSQLs := []\<rparr>)))"
proof (intro conjI impI)
  assume "todoSQLs st = s # q"
  then show "Eval (start L) st = Inr (s, st\<lparr>todoSQLs := q\<rparr>)" by (rule start_pops_todo)
next
  show "calls (Eval (start L)) (length (todoSQLs st)) st = Inr (todoSQLs st, st\<lparr>todoSQLs := []\<rparr>)"
    by (rule start_drains_todo) simp
next
  assume "todoSQLs st = [] \<and> Eval flashBackTable st = Inr (out, st1)"
  then have e: "todoSQLs st = []" and ev: "Eval flashBackTable st = Inr (out, st1)" by simp_all
  from flashBackTable_Inr [OF ev] e obtain a where
    a: "a \<in> set (tables st)"
    "out = join '' '' [''drop table'', tbl_Name (heap st ! a)] \<or>
     out = join '' '' [''truncate table'', tbl_Name (heap st ! a)]"
    "todoSQLs st1 = [''flashback table '' @ tbl_Name (heap st ! a)]"
    by auto
  from start_pops_todo [OF a(3), of L] a show "\<exists>a\<in>set (tables st).
         (out = join '' '' [''drop table'', tbl_Name (heap st ! a)] \<or>
          out = join '' '' [''truncate table'', tbl_Name (heap st ! a)]) \<and>
         todoSQLs st1 = [''flashback table '' @ tbl_Name (heap st ! a)] \<and>
         Eval (start L) st1 =
           Inr (''flashback table '' @ tbl_Name (heap st ! a), st1\<lparr>todoSQLs := []\<rparr>)"
    by blast
qed

lemma flashBackTable_run:
  "Eval flashBackTable (state1 ctrl_flashback [0,0]) = Inr (''drop table t0'', state_flashback)"
  by (simp add: eval state1_def state_flashback_def ctrl_flashback_def ctrl0_def weight0_def
        table0_def col0_def)

lemma start_flashBackTable_run:
  "calls (Eval (start lib0)) 2 (state1 ctrl_flashback [0,0,0,0]) =
     Inr ([''drop table t0'', ''flashback table t0''],
          (state1 ctrl_flashback [0,0,0,0])\<lparr>rnd := (draws [0,0,0,0])\<lparr>pos := 4\<rparr>\<rparr>)"
  by (simp add: numeral_2_eq_2 eval state1_def ctrl_flashback_def ctrl0_def weight0_def
        table0_def col0_def)

theorem deferred_sql_emitted_first_witness:
  "Eval (start lib0) ((state1 ctrl0 [])\<lparr>todoSQLs := [''a'', ''b'']\<rparr>) =
     Inr (''a'', (state1 ctrl0 [])\<lparr>todoSQLs := [''b'']\<rparr>) \<and>
   todoSQLs state_flashback = [''flashback table t0''] \<and>
   Eval (start lib0) state_flashback =
     Inr (''flashback table t0'', state_flashback\<lparr>todoSQLs := []\<rparr>)"
  using deferred_sql_emitted_first [of "(state1 ctrl0 [])\<lparr>todoSQLs := [''a'', ''b'']\<rparr>" "''a''" "[''b'']" lib0]
    deferred_sql_emitted_first [of "state1 ctrl_flashback [0,0]" _ _ lib0 "''drop table t0''" state_flashback]
    flashBackTable_run
  by (simp add: state1_def table0_def)

section \<open>Reproducible output\<close>



end
